theory Spec2Isabelle
  imports Complex_Main "HOL-Library.Sublist" "HOL-Library.Log_Nat"
begin

section \<open>Data model\<close>

text \<open>
  The fusion and placement engine works on JavaScript numbers.  They are modelled as
  \<^typ>\<open>real\<close>: the results are about exact arithmetic, NaN and rounding are outside
  the model.  The exception is \<^verbatim>\<open>calculateIoU\<close>, whose evaluation in double precision
  is modelled as well.  An optional field \<^verbatim>\<open>f?: T\<close> is a \<^typ>\<open>'a option\<close>.

  The type of \<^verbatim>\<open>detection_source\<close> in types/index.ts lists \<^verbatim>\<open>'claude'\<close>,
  \<^verbatim>\<open>'craft'\<close> and \<^verbatim>\<open>'hybrid'\<close>; craft-region-ocr.ts also writes
  \<^verbatim>\<open>'craft_primary'\<close>.

  \<^verbatim>\<open>BoundingBox\<close> (detection-merger.ts) has the fields \<^verbatim>\<open>x, y, width, height\<close>; they
  carry the prefix \<^verbatim>\<open>box_\<close> here, the fields of \<^verbatim>\<open>LayoutRegion\<close> (layout-detector.ts)
  the prefix \<^verbatim>\<open>region_\<close>, and the field \<^verbatim>\<open>id\<close> of \<^verbatim>\<open>DetectedTextElement\<close>
  (types/index.ts) is \<^verbatim>\<open>element_id\<close>.
\<close>

record BoundingBox =
  box_x :: real
  box_y :: real
  box_width :: real
  box_height :: real

datatype TextAlign = AlignLeft | AlignCenter | AlignRight

datatype VerticalAlign = VAlignTop | VAlignMiddle | VAlignBottom

datatype DetectionSource = SourceClaude | SourceCraft | SourceHybrid | SourceCraftPrimary

record DetectedTextElement =
  element_id :: "string option"
  slide_id :: "string option"
  content :: string
  position_x :: real
  position_y :: real
  width :: real
  height :: real
  font_family :: "string option"
  font_size :: "real option"
  font_color :: "string option"
  is_bold :: "bool option"
  is_italic :: "bool option"
  is_underline :: "bool option"
  align :: "TextAlign option"
  vertical_align :: "VerticalAlign option"
  confidence_score :: "real option"
  parent_shape_id :: "string option"
  detection_source :: "DetectionSource option"
  craft_detection_id :: "string option"

datatype RegionType =
  TextBox | Shape | Title | Body | Diagram | Note | Header | Footer

datatype RegionShape =
  ShapeRectangle | ShapeRoundedRectangle | ShapeCircle | ShapeEllipse | ShapeNone

record LayoutRegion =
  region_type :: RegionType
  region_x :: real
  region_y :: real
  region_width :: real
  region_height :: real
  region_confidence :: real
  contains_text :: bool
  background_color :: "string option"
  border_color :: "string option"
  shape_type :: "RegionShape option"

section \<open>Geometry: intersection over union (detection-merger.ts)\<close>

text \<open>
  \<^verbatim>\<open>calculateIoU\<close> first computes the corners of the overlap rectangle, returns 0 when
  it is empty, and only then the three areas.  The local constants of the source are
  definitions of their own here, so that the theorems can name them.
\<close>

definition overlapLeft :: "BoundingBox \<Rightarrow> BoundingBox \<Rightarrow> real" where
  "overlapLeft box1 box2 = max (box_x box1) (box_x box2)"

definition overlapTop :: "BoundingBox \<Rightarrow> BoundingBox \<Rightarrow> real" where
  "overlapTop box1 box2 = max (box_y box1) (box_y box2)"

definition overlapRight :: "BoundingBox \<Rightarrow> BoundingBox \<Rightarrow> real" where
  "overlapRight box1 box2 =
     min (box_x box1 + box_width box1) (box_x box2 + box_width box2)"

definition overlapBottom :: "BoundingBox \<Rightarrow> BoundingBox \<Rightarrow> real" where
  "overlapBottom box1 box2 =
     min (box_y box1 + box_height box1) (box_y box2 + box_height box2)"

definition intersectionArea :: "BoundingBox \<Rightarrow> BoundingBox \<Rightarrow> real" where
  "intersectionArea box1 box2 =
     (overlapRight box1 box2 - overlapLeft box1 box2) *
     (overlapBottom box1 box2 - overlapTop box1 box2)"

definition boxArea :: "BoundingBox \<Rightarrow> real" where
  "boxArea b = box_width b * box_height b"

definition unionArea :: "BoundingBox \<Rightarrow> BoundingBox \<Rightarrow> real" where
  "unionArea box1 box2 = boxArea box1 + boxArea box2 - intersectionArea box1 box2"

definition calculateIoU :: "BoundingBox \<Rightarrow> BoundingBox \<Rightarrow> real" where
  "calculateIoU box1 box2 =
     (if overlapRight box1 box2 \<le> overlapLeft box1 box2
         \<or> overlapBottom box1 box2 \<le> overlapTop box1 box2
      then 0
      else if unionArea box1 box2 = 0 then 0
      else intersectionArea box1 box2 / unionArea box1 box2)"

text \<open>
  What the specification calls rectangles that do not overlap: one lies entirely to the
  left of, or entirely above, the other (touching edges included).
\<close>

definition doNotOverlap :: "BoundingBox \<Rightarrow> BoundingBox \<Rightarrow> bool" where
  "doNotOverlap a b \<longleftrightarrow>
     box_x a + box_width a \<le> box_x b \<or> box_x b + box_width b \<le> box_x a \<or>
     box_y a + box_height a \<le> box_y b \<or> box_y b + box_height b \<le> box_y a"

section \<open>Double-precision evaluation of the intersection over union\<close>

text \<open>
  JavaScript evaluates \<^verbatim>\<open>calculateIoU\<close> in IEEE 754 binary64: every addition,
  subtraction, multiplication and division returns the exact result rounded to the
  nearest double, a tie going to the even significand.  \<^verbatim>\<open>roundDouble\<close> is this
  rounding.  A number \<open>x\<close> with \<open>2 ^ e \<le> \<bar>x\<bar> < 2 ^ (e + 1)\<close> is rounded to a multiple of
  the quantum \<open>2 ^ (e - 52)\<close>, and to a multiple of \<open>2 ^ (- 1074)\<close> in the subnormal range
  (gradual underflow); \<^verbatim>\<open>log2Floor\<close> computes \<open>e\<close> from the bit length of an integer.
  \<^verbatim>\<open>Math.max\<close>, \<^verbatim>\<open>Math.min\<close> and the comparisons are exact, and a comparison does not
  tell \<open>- 0\<close> from \<open>0\<close>.

  Overflow is not modelled: \<^verbatim>\<open>roundDouble\<close> rounds as if the exponent had no upper
  bound.  The properties of this evaluation are stated for fields of magnitude at most
  \<open>2 ^ 500\<close>, for which every result before the final quotient stays below \<open>2 ^ 1005\<close>
  and hence finite.
\<close>

definition log2Floor :: "real \<Rightarrow> int" where
  "log2Floor x = (if 1 \<le> x then bitlen \<lfloor>x\<rfloor> - 1 else - bitlen (\<lceil>1 / x\<rceil> - 1))"

definition roundHalfEven :: "real \<Rightarrow> int" where
  "roundHalfEven y =
     (let n = \<lfloor>y\<rfloor>; d = y - of_int n
      in if d < 1 / 2 then n else if 1 / 2 < d then n + 1 else if even n then n else n + 1)"

definition quantumExponent :: "real \<Rightarrow> int" where
  "quantumExponent x = max (log2Floor \<bar>x\<bar> - 52) (- 1074)"

definition roundToGrid :: "int \<Rightarrow> real \<Rightarrow> real" where
  "roundToGrid q x = of_int (roundHalfEven (x / 2 powi q)) * 2 powi q"

definition roundDouble :: "real \<Rightarrow> real" where
  "roundDouble x = (if x = 0 then 0 else roundToGrid (quantumExponent x) x)"

text \<open>
  \<^verbatim>\<open>calculateIoU\<close> with every arithmetic result rounded, in the order in which the source
  evaluates it: \<^verbatim>\<open>box1Area + box2Area - intersectionArea\<close> is
  \<^verbatim>\<open>(box1Area + box2Area) - intersectionArea\<close>.  The fields of the boxes are the doubles
  the function is called with.
\<close>

definition overlapRightDouble :: "BoundingBox \<Rightarrow> BoundingBox \<Rightarrow> real" where
  "overlapRightDouble box1 box2 =
     min (roundDouble (box_x box1 + box_width box1)) (roundDouble (box_x box2 + box_width box2))"

definition overlapBottomDouble :: "BoundingBox \<Rightarrow> BoundingBox \<Rightarrow> real" where
  "overlapBottomDouble box1 box2 =
     min (roundDouble (box_y box1 + box_height box1)) (roundDouble (box_y box2 + box_height box2))"

definition intersectionAreaDouble :: "BoundingBox \<Rightarrow> BoundingBox \<Rightarrow> real" where
  "intersectionAreaDouble box1 box2 =
     roundDouble (roundDouble (overlapRightDouble box1 box2 - overlapLeft box1 box2) *
                  roundDouble (overlapBottomDouble box1 box2 - overlapTop box1 box2))"

definition boxAreaDouble :: "BoundingBox \<Rightarrow> real" where
  "boxAreaDouble b = roundDouble (box_width b * box_height b)"

definition unionAreaDouble :: "BoundingBox \<Rightarrow> BoundingBox \<Rightarrow> real" where
  "unionAreaDouble box1 box2 =
     roundDouble (roundDouble (boxAreaDouble box1 + boxAreaDouble box2)
                  - intersectionAreaDouble box1 box2)"

definition calculateIoUDouble :: "BoundingBox \<Rightarrow> BoundingBox \<Rightarrow> real" where
  "calculateIoUDouble box1 box2 =
     (if overlapRightDouble box1 box2 \<le> overlapLeft box1 box2
         \<or> overlapBottomDouble box1 box2 \<le> overlapTop box1 box2
      then 0
      else if unionAreaDouble box1 box2 = 0 then 0
      else roundDouble (intersectionAreaDouble box1 box2 / unionAreaDouble box1 box2))"

text \<open>
  A field that is a double of magnitude at most \<open>2 ^ 500\<close>, and a field that is an
  integer of magnitude at most \<open>2 ^ 26\<close> (a pixel coordinate), with the boxes made of
  such fields.
\<close>

definition isDouble :: "real \<Rightarrow> bool" where
  "isDouble v \<longleftrightarrow> roundDouble v = v \<and> \<bar>v\<bar> \<le> 2 ^ 500"

definition doubleBox :: "BoundingBox \<Rightarrow> bool" where
  "doubleBox b \<longleftrightarrow>
     isDouble (box_x b) \<and> isDouble (box_y b) \<and> isDouble (box_width b) \<and> isDouble (box_height b)"

definition isPixel :: "real \<Rightarrow> bool" where
  "isPixel v \<longleftrightarrow> v \<in> \<int> \<and> \<bar>v\<bar> \<le> 2 ^ 26"

definition pixelBox :: "BoundingBox \<Rightarrow> bool" where
  "pixelBox b \<longleftrightarrow>
     isPixel (box_x b) \<and> isPixel (box_y b) \<and> isPixel (box_width b) \<and> isPixel (box_height b)"

section \<open>Clamping to the slide (coordinate-validator.ts)\<close>

record SlideDimensions =
  slide_width :: real
  slide_height :: real

definition STANDARD_SLIDE :: SlideDimensions where
  "STANDARD_SLIDE = \<lparr>slide_width = 10, slide_height = 5.625\<rparr>"

definition clampToSlideBounds :: "real \<Rightarrow> real \<Rightarrow> real \<Rightarrow> real \<Rightarrow> BoundingBox" where
  "clampToSlideBounds x y w h =
     (let clampedX = max 0 (min x (slide_width STANDARD_SLIDE));
          clampedY = max 0 (min y (slide_height STANDARD_SLIDE));
          maxWidth = slide_width STANDARD_SLIDE - clampedX;
          maxHeight = slide_height STANDARD_SLIDE - clampedY;
          clampedWidth = max 0.1 (min w maxWidth);
          clampedHeight = max 0.1 (min h maxHeight)
      in \<lparr>box_x = clampedX, box_y = clampedY,
          box_width = clampedWidth, box_height = clampedHeight\<rparr>)"

text \<open>The function applied to a rectangle, as the idempotence property reads it.\<close>

definition clampToCanvas :: "BoundingBox \<Rightarrow> BoundingBox" where
  "clampToCanvas r = clampToSlideBounds (box_x r) (box_y r) (box_width r) (box_height r)"

section \<open>Cross-source merge (detection-merger.ts)\<close>

text \<open>
  The object literal \<^verbatim>\<open>{x: e.position_x, y: e.position_y, width: e.width, height: e.height}\<close>
  that every caller of \<^verbatim>\<open>calculateIoU\<close> builds from a text element.
\<close>

definition boxOf :: "DetectedTextElement \<Rightarrow> BoundingBox" where
  "boxOf e = \<lparr>box_x = position_x e, box_y = position_y e,
              box_width = width e, box_height = height e\<rparr>"

text \<open>\<^verbatim>\<open>e.confidence_score || 0\<close>: a missing score counts as 0.\<close>

definition scoreOrZero :: "DetectedTextElement \<Rightarrow> real" where
  "scoreOrZero e = (case confidence_score e of None \<Rightarrow> 0 | Some c \<Rightarrow> c)"

text \<open>
  The inner loop of \<^verbatim>\<open>mergeDetections\<close> scans the indices of the second list in
  order; \<^verbatim>\<open>bestMatch\<close> is \<^verbatim>\<open>null\<close> or the pair \<^verbatim>\<open>{index, iou}\<close>.
\<close>

definition bestMatchStep ::
  "DetectedTextElement \<Rightarrow> DetectedTextElement list \<Rightarrow> nat set \<Rightarrow> real \<Rightarrow>
   nat \<Rightarrow> (nat \<times> real) option \<Rightarrow> (nat \<times> real) option" where
  "bestMatchStep claudeElement craftElements craftMatched overlapThreshold i bestMatch =
     (if i \<in> craftMatched then bestMatch
      else
        let iou = calculateIoU (boxOf claudeElement) (boxOf (craftElements ! i))
        in if iou \<ge> overlapThreshold then
             (case bestMatch of
                None \<Rightarrow> Some (i, iou)
              | Some (bestIndex, bestIou) \<Rightarrow>
                  if iou > bestIou then Some (i, iou) else bestMatch)
           else bestMatch)"

definition findBestMatch ::
  "DetectedTextElement \<Rightarrow> DetectedTextElement list \<Rightarrow> nat set \<Rightarrow> real \<Rightarrow>
   (nat \<times> real) option" where
  "findBestMatch claudeElement craftElements craftMatched overlapThreshold =
     fold (bestMatchStep claudeElement craftElements craftMatched overlapThreshold)
       [0..<length craftElements] None"

text \<open>The element pushed on a match: a copy of the first element with five fields replaced.\<close>

definition mergedElement :: "DetectedTextElement \<Rightarrow> DetectedTextElement \<Rightarrow> DetectedTextElement" where
  "mergedElement claudeElement craftElement =
     claudeElement
       \<lparr>position_x := (position_x claudeElement + position_x craftElement) / 2,
        position_y := (position_y claudeElement + position_y craftElement) / 2,
        width := (width claudeElement + width craftElement) / 2,
        height := (height claudeElement + height craftElement) / 2,
        confidence_score := Some (max (scoreOrZero claudeElement) (scoreOrZero craftElement))\<rparr>"

text \<open>The three variables the outer loop updates.\<close>

record MergeLoopState =
  loop_mergedElements :: "DetectedTextElement list"
  loop_craftMatched :: "nat set"
  loop_overlapCount :: nat

definition mergeStep ::
  "DetectedTextElement list \<Rightarrow> real \<Rightarrow> DetectedTextElement \<Rightarrow> MergeLoopState \<Rightarrow> MergeLoopState" where
  "mergeStep craftElements overlapThreshold claudeElement st =
     (case findBestMatch claudeElement craftElements (loop_craftMatched st) overlapThreshold of
        Some (index, iou) \<Rightarrow>
          \<lparr>loop_mergedElements =
             loop_mergedElements st @ [mergedElement claudeElement (craftElements ! index)],
           loop_craftMatched = insert index (loop_craftMatched st),
           loop_overlapCount = loop_overlapCount st + 1\<rparr>
      | None \<Rightarrow> st\<lparr>loop_mergedElements := loop_mergedElements st @ [claudeElement]\<rparr>)"

definition mergeLoop ::
  "DetectedTextElement list \<Rightarrow> DetectedTextElement list \<Rightarrow> real \<Rightarrow> MergeLoopState" where
  "mergeLoop claudeElements craftElements overlapThreshold =
     fold (mergeStep craftElements overlapThreshold) claudeElements
       \<lparr>loop_mergedElements = [], loop_craftMatched = {}, loop_overlapCount = 0\<rparr>"

text \<open>The second loop: the elements of the second list that no first element consumed.\<close>

definition craftOnlyElements :: "DetectedTextElement list \<Rightarrow> nat set \<Rightarrow> DetectedTextElement list" where
  "craftOnlyElements craftElements craftMatched =
     map (\<lambda>i. craftElements ! i) (filter (\<lambda>i. i \<notin> craftMatched) [0..<length craftElements])"

record MergeResult =
  mergedElements :: "DetectedTextElement list"
  claudeOnlyCount :: int
  craftOnlyCount :: int
  overlapCount :: nat
  mergedCount :: nat

definition mergeDetections ::
  "DetectedTextElement list \<Rightarrow> DetectedTextElement list \<Rightarrow> real \<Rightarrow> MergeResult" where
  "mergeDetections claudeElements craftElements overlapThreshold =
     (let st = mergeLoop claudeElements craftElements overlapThreshold;
          claudeOnly = int (length claudeElements) - int (loop_overlapCount st);
          merged = loop_mergedElements st @ craftOnlyElements craftElements (loop_craftMatched st);
          craftOnly = int (length craftElements) - int (loop_overlapCount st)
      in \<lparr>mergedElements = merged, claudeOnlyCount = claudeOnly, craftOnlyCount = craftOnly,
          overlapCount = loop_overlapCount st, mergedCount = length merged\<rparr>)"

text \<open>
  The set \<^verbatim>\<open>craftMatched\<close> when the outer loop reaches the \<open>k\<close>-th first element, and
  when the loop has ended.
\<close>

definition craftMatchedBefore ::
  "DetectedTextElement list \<Rightarrow> DetectedTextElement list \<Rightarrow> real \<Rightarrow> nat \<Rightarrow> nat set" where
  "craftMatchedBefore claudeElements craftElements overlapThreshold k =
     loop_craftMatched (mergeLoop (take k claudeElements) craftElements overlapThreshold)"

definition craftMatchedFinal ::
  "DetectedTextElement list \<Rightarrow> DetectedTextElement list \<Rightarrow> real \<Rightarrow> nat set" where
  "craftMatchedFinal claudeElements craftElements overlapThreshold =
     loop_craftMatched (mergeLoop claudeElements craftElements overlapThreshold)"

section \<open>Intra-source deduplication\<close>

subsection \<open>Text elements: \<^verbatim>\<open>filterOverlappingDetections\<close> (detection-merger.ts)\<close>

text \<open>
  Two nested index loops fill the set \<^verbatim>\<open>toRemove\<close>; a third loop copies the elements
  whose index is not in it.  The test \<^verbatim>\<open>toRemove.has(i)\<close> is made once, before the inner
  loop starts: the inner loop runs to its end even when it removes \<open>i\<close> itself.
\<close>

definition filterInnerStep ::
  "DetectedTextElement list \<Rightarrow> real \<Rightarrow> nat \<Rightarrow> nat \<Rightarrow> nat set \<Rightarrow> nat set" where
  "filterInnerStep elements overlapThreshold i j toRemove =
     (if j \<in> toRemove then toRemove
      else
        let iou = calculateIoU (boxOf (elements ! i)) (boxOf (elements ! j))
        in if iou \<ge> overlapThreshold then
             let keepIndex = (if scoreOrZero (elements ! i) \<ge> scoreOrZero (elements ! j)
                              then i else j);
                 removeIndex = (if keepIndex = i then j else i)
             in insert removeIndex toRemove
           else toRemove)"

definition filterOuterStep ::
  "DetectedTextElement list \<Rightarrow> real \<Rightarrow> nat \<Rightarrow> nat set \<Rightarrow> nat set" where
  "filterOuterStep elements overlapThreshold i toRemove =
     (if i \<in> toRemove then toRemove
      else fold (filterInnerStep elements overlapThreshold i) [Suc i..<length elements] toRemove)"

definition filterToRemove :: "DetectedTextElement list \<Rightarrow> real \<Rightarrow> nat set" where
  "filterToRemove elements overlapThreshold =
     fold (filterOuterStep elements overlapThreshold) [0..<length elements] {}"

definition filterOverlappingDetections ::
  "DetectedTextElement list \<Rightarrow> real \<Rightarrow> DetectedTextElement list" where
  "filterOverlappingDetections elements overlapThreshold =
     map (\<lambda>i. elements ! i)
       (filter (\<lambda>i. i \<notin> filterToRemove elements overlapThreshold) [0..<length elements])"

subsection \<open>Layout regions: \<^verbatim>\<open>deduplicateRegions\<close> (layout-detector.ts)\<close>

definition calculateRegionIoU :: "LayoutRegion \<Rightarrow> LayoutRegion \<Rightarrow> real" where
  "calculateRegionIoU region1 region2 =
     (let x1 = max (region_x region1) (region_x region2);
          y1 = max (region_y region1) (region_y region2);
          x2 = min (region_x region1 + region_width region1)
                   (region_x region2 + region_width region2);
          y2 = min (region_y region1 + region_height region1)
                   (region_y region2 + region_height region2)
      in if x2 \<le> x1 \<or> y2 \<le> y1 then 0
         else
           let intersection = (x2 - x1) * (y2 - y1);
               region1Area = region_width region1 * region_height region1;
               region2Area = region_width region2 * region_height region2;
               union = region1Area + region2Area - intersection
           in if union = 0 then 0 else intersection / union)"

definition regionInnerStep :: "LayoutRegion list \<Rightarrow> nat \<Rightarrow> nat \<Rightarrow> nat set \<Rightarrow> nat set" where
  "regionInnerStep regions i j toRemove =
     (if j \<in> toRemove then toRemove
      else
        let iou = calculateRegionIoU (regions ! i) (regions ! j)
        in if iou > 0.7 then
             let largerRegion =
                   (if region_width (regions ! i) * region_height (regions ! i)
                       \<ge> region_width (regions ! j) * region_height (regions ! j)
                    then i else j);
                 smallerRegion = (if largerRegion = i then j else i)
             in insert smallerRegion toRemove
           else toRemove)"

definition regionOuterStep :: "LayoutRegion list \<Rightarrow> nat \<Rightarrow> nat set \<Rightarrow> nat set" where
  "regionOuterStep regions i toRemove =
     (if i \<in> toRemove then toRemove
      else fold (regionInnerStep regions i) [Suc i..<length regions] toRemove)"

definition regionsToRemove :: "LayoutRegion list \<Rightarrow> nat set" where
  "regionsToRemove regions = fold (regionOuterStep regions) [0..<length regions] {}"

definition deduplicateRegions :: "LayoutRegion list \<Rightarrow> LayoutRegion list" where
  "deduplicateRegions regions =
     (if length regions = 0 then []
      else map (\<lambda>i. regions ! i)
             (filter (\<lambda>i. i \<notin> regionsToRemove regions) [0..<length regions]))"

text \<open>
  The removal rule as the specification words it, for a compared pair \<open>i < j\<close>: the
  rectangle of smaller area goes; on equal areas the one of higher confidence stays.
\<close>

definition specRemoveIndex :: "DetectedTextElement list \<Rightarrow> nat \<Rightarrow> nat \<Rightarrow> nat" where
  "specRemoveIndex elements i j =
     (let areaI = width (elements ! i) * height (elements ! i);
          areaJ = width (elements ! j) * height (elements ! j)
      in if areaI < areaJ then i
         else if areaJ < areaI then j
         else if scoreOrZero (elements ! i) \<ge> scoreOrZero (elements ! j) then j else i)"

section \<open>Region containment (layout-placement.ts)\<close>

text \<open>
  Every function of this file converts a region from pixels to inches with the constants
  1920 and 1080 and the local constants \<^verbatim>\<open>SLIDE_WIDTH = 10\<close> and
  \<^verbatim>\<open>SLIDE_HEIGHT = 5.625\<close>.
\<close>

definition SLIDE_WIDTH :: real where
  "SLIDE_WIDTH = 10"

definition SLIDE_HEIGHT :: real where
  "SLIDE_HEIGHT = 5.625"

definition regionXInches :: "LayoutRegion \<Rightarrow> real" where
  "regionXInches region = (region_x region / 1920) * SLIDE_WIDTH"

definition regionYInches :: "LayoutRegion \<Rightarrow> real" where
  "regionYInches region = (region_y region / 1080) * SLIDE_HEIGHT"

definition regionWidthInches :: "LayoutRegion \<Rightarrow> real" where
  "regionWidthInches region = (region_width region / 1920) * SLIDE_WIDTH"

definition regionHeightInches :: "LayoutRegion \<Rightarrow> real" where
  "regionHeightInches region = (region_height region / 1080) * SLIDE_HEIGHT"

definition elementCenterX :: "DetectedTextElement \<Rightarrow> real" where
  "elementCenterX element = position_x element + width element / 2"

definition elementCenterY :: "DetectedTextElement \<Rightarrow> real" where
  "elementCenterY element = position_y element + height element / 2"

text \<open>The condition of the \<^verbatim>\<open>if\<close> in the loop of \<^verbatim>\<open>findContainingRegion\<close>.\<close>

definition centerInRegion :: "DetectedTextElement \<Rightarrow> LayoutRegion \<Rightarrow> bool" where
  "centerInRegion element region =
     (let regionLeft = regionXInches region;
          regionRight = regionXInches region + regionWidthInches region;
          regionTop = regionYInches region;
          regionBottom = regionYInches region + regionHeightInches region
      in elementCenterX element \<ge> regionLeft \<and> elementCenterX element \<le> regionRight \<and>
         elementCenterY element \<ge> regionTop \<and> elementCenterY element \<le> regionBottom)"

fun findContainingRegion :: "DetectedTextElement \<Rightarrow> LayoutRegion list \<Rightarrow> LayoutRegion option" where
  "findContainingRegion element [] = None"
| "findContainingRegion element (region # regions) =
     (if centerInRegion element region then Some region
      else findContainingRegion element regions)"

definition normalizeWithinRegion :: "DetectedTextElement \<Rightarrow> LayoutRegion \<Rightarrow> DetectedTextElement" where
  "normalizeWithinRegion element region =
     (let clampedX = max (regionXInches region)
            (min (position_x element)
                 (regionXInches region + regionWidthInches region - width element));
          clampedY = max (regionYInches region)
            (min (position_y element)
                 (regionYInches region + regionHeightInches region - height element));
          clampedWidth = min (width element)
            (regionWidthInches region - (clampedX - regionXInches region));
          clampedHeight = min (height element)
            (regionHeightInches region - (clampedY - regionYInches region))
      in element\<lparr>position_x := clampedX, position_y := clampedY,
           width := max 0.1 clampedWidth, height := max 0.1 clampedHeight\<rparr>)"

definition normalizeCoordinates ::
  "DetectedTextElement list \<Rightarrow> LayoutRegion list \<Rightarrow> DetectedTextElement list" where
  "normalizeCoordinates textElements regions =
     map (\<lambda>element.
            case findContainingRegion element regions of
              Some containingRegion \<Rightarrow> normalizeWithinRegion element containingRegion
            | None \<Rightarrow> element)
       textElements"

text \<open>
  The body of the callback of \<^verbatim>\<open>alignElementsWithinRegions\<close> for an element with a
  region: four tests on the original element, each overwriting a field of the copy.
\<close>

definition alignWithinRegion :: "DetectedTextElement \<Rightarrow> LayoutRegion \<Rightarrow> DetectedTextElement" where
  "alignWithinRegion element region =
     (let relativeX = position_x element - regionXInches region;
          relativeY = position_y element - regionYInches region;
          aligned1 = (if relativeX < 0.05
                      then element\<lparr>position_x := regionXInches region + 0.05\<rparr> else element);
          aligned2 = (if relativeY < 0.05
                      then aligned1\<lparr>position_y := regionYInches region + 0.05\<rparr> else aligned1);
          rightEdgeDistance = (regionXInches region + regionWidthInches region)
                              - (position_x element + width element);
          aligned3 = (if rightEdgeDistance < 0.05 \<and> rightEdgeDistance > 0
                      then aligned2\<lparr>position_x := regionXInches region + regionWidthInches region
                                                     - width element - 0.05\<rparr>
                      else aligned2);
          bottomEdgeDistance = (regionYInches region + regionHeightInches region)
                               - (position_y element + height element);
          aligned4 = (if bottomEdgeDistance < 0.05 \<and> bottomEdgeDistance > 0
                      then aligned3\<lparr>position_y := regionYInches region + regionHeightInches region
                                                     - height element - 0.05\<rparr>
                      else aligned3)
      in aligned4)"

definition alignElementsWithinRegions ::
  "DetectedTextElement list \<Rightarrow> LayoutRegion list \<Rightarrow> DetectedTextElement list" where
  "alignElementsWithinRegions textElements regions =
     map (\<lambda>element.
            case findContainingRegion element regions of
              None \<Rightarrow> element
            | Some region \<Rightarrow> alignWithinRegion element region)
       textElements"

text \<open>
  \<^verbatim>\<open>validateLayoutPlacement\<close> collects warning messages.  A message is modelled by its
  kind and the element number \<^verbatim>\<open>i + 1\<close> it names; the formatted coordinates in its text
  are left out.
\<close>

datatype PlacementWarning =
  XOutOfBounds nat | YOutOfBounds nat | WidthInvalid nat | HeightInvalid nat
  | BeyondRightEdge nat | BeyondBottomEdge nat

definition placementWarnings :: "nat \<Rightarrow> DetectedTextElement \<Rightarrow> PlacementWarning list" where
  "placementWarnings i element =
     (if position_x element < 0 \<or> position_x element > 10 then [XOutOfBounds (i + 1)] else [])
     @ (if position_y element < 0 \<or> position_y element > 5.625 then [YOutOfBounds (i + 1)] else [])
     @ (if width element \<le> 0 \<or> width element > 10 then [WidthInvalid (i + 1)] else [])
     @ (if height element \<le> 0 \<or> height element > 5.625 then [HeightInvalid (i + 1)] else [])
     @ (if position_x element + width element > 10.1 then [BeyondRightEdge (i + 1)] else [])
     @ (if position_y element + height element > 5.725 then [BeyondBottomEdge (i + 1)] else [])"

record PlacementValidation =
  placement_isValid :: bool
  placement_warnings :: "PlacementWarning list"

definition validateLayoutPlacement ::
  "DetectedTextElement list \<Rightarrow> LayoutRegion list \<Rightarrow> PlacementValidation" where
  "validateLayoutPlacement textElements regions =
     (let warnings = concat (map (\<lambda>i. placementWarnings i (textElements ! i))
                                 [0..<length textElements])
      in \<lparr>placement_isValid = (length warnings = 0), placement_warnings = warnings\<rparr>)"

section \<open>Direct text detection: conversion of a reply (claude-vision.ts)\<close>

text \<open>
  \<^verbatim>\<open>parseTextResponse\<close> maps every object of the reply's \<^verbatim>\<open>textElements\<close> array to a
  text element; \<^verbatim>\<open>parseTextElement\<close> below is the callback of that map.  Any field of
  such an object may be missing; \<^verbatim>\<open>v || d\<close> replaces a missing, zero, empty or false
  value by the default \<open>d\<close>.  The callback first validates the pixel rectangle and at
  its end prints the coordinates: both only log and are left out.
\<close>

record RawTextDetection =
  raw_content :: "string option"
  raw_x :: "real option"
  raw_y :: "real option"
  raw_width :: "real option"
  raw_height :: "real option"
  raw_fontFamily :: "string option"
  raw_fontSize :: "real option"
  raw_fontColor :: "string option"
  raw_isBold :: "bool option"
  raw_isItalic :: "bool option"
  raw_isUnderline :: "bool option"
  raw_confidence :: "real option"

definition numberOr :: "real option \<Rightarrow> real \<Rightarrow> real" where
  "numberOr v d = (case v of None \<Rightarrow> d | Some n \<Rightarrow> if n = 0 then d else n)"

definition stringOr :: "string option \<Rightarrow> string \<Rightarrow> string" where
  "stringOr v d = (case v of None \<Rightarrow> d | Some s \<Rightarrow> if s = [] then d else s)"

definition boolOrFalse :: "bool option \<Rightarrow> bool" where
  "boolOrFalse v = (case v of None \<Rightarrow> False | Some b \<Rightarrow> b)"

definition pixelsToInches :: "real \<Rightarrow> real \<Rightarrow> real \<Rightarrow> real" where
  "pixelsToInches pixels imageSize slideSize =
     (if imageSize = 0 then 0
      else let ratio = pixels / imageSize; inches = ratio * slideSize in inches)"

text \<open>
  \<^verbatim>\<open>validateInchCoordinates\<close> (coordinate-validator.ts) sets \<^verbatim>\<open>isValid\<close> to false in
  each of six tests; its messages are not modelled.
\<close>

definition validateInchCoordinates :: "real \<Rightarrow> real \<Rightarrow> real \<Rightarrow> real \<Rightarrow> bool" where
  "validateInchCoordinates x y w h \<longleftrightarrow>
     \<not> (x < 0 \<or> x > slide_width STANDARD_SLIDE)
     \<and> \<not> (y < 0 \<or> y > slide_height STANDARD_SLIDE)
     \<and> \<not> (w \<le> 0 \<or> w > slide_width STANDARD_SLIDE)
     \<and> \<not> (h \<le> 0 \<or> h > slide_height STANDARD_SLIDE)
     \<and> \<not> (x + w > slide_width STANDARD_SLIDE)
     \<and> \<not> (y + h > slide_height STANDARD_SLIDE)"

definition parseTextElement :: "RawTextDetection \<Rightarrow> real \<Rightarrow> real \<Rightarrow> DetectedTextElement" where
  "parseTextElement text imageWidth imageHeight =
     (let pixelX = max 0 (min (numberOr (raw_x text) 0) imageWidth);
          pixelY = max 0 (min (numberOr (raw_y text) 0) imageHeight);
          pixelWidth = max 10 (min (numberOr (raw_width text) 100) (imageWidth - pixelX));
          pixelHeight = max 10 (min (numberOr (raw_height text) 20) (imageHeight - pixelY));
          posX = pixelsToInches pixelX imageWidth 10;
          posY = pixelsToInches pixelY imageHeight 5.625;
          w = pixelsToInches pixelWidth imageWidth 10;
          h = pixelsToInches pixelHeight imageHeight 5.625;
          geometry = (if \<not> validateInchCoordinates posX posY w h
                      then clampToSlideBounds posX posY w h
                      else \<lparr>box_x = posX, box_y = posY, box_width = w, box_height = h\<rparr>);
          fontSize = max 8 (min 72 (numberOr (raw_fontSize text) 14))
      in \<lparr>element_id = None, slide_id = None,
          content = stringOr (raw_content text) [],
          position_x = box_x geometry, position_y = box_y geometry,
          width = box_width geometry, height = box_height geometry,
          font_family = Some (stringOr (raw_fontFamily text) ''Arial''),
          font_size = Some fontSize,
          font_color = Some (stringOr (raw_fontColor text) ''000000''),
          is_bold = Some (boolOrFalse (raw_isBold text)),
          is_italic = Some (boolOrFalse (raw_isItalic text)),
          is_underline = Some (boolOrFalse (raw_isUnderline text)),
          align = Some AlignLeft, vertical_align = Some VAlignTop,
          confidence_score = Some (numberOr (raw_confidence text) 80),
          parent_shape_id = None, detection_source = None, craft_detection_id = None\<rparr>)"

text \<open>
  What the bounds invariant of the specification asks of a rectangle, and the bounds that
  \<^verbatim>\<open>validateLayoutPlacement\<close> accepts without a warning.
\<close>

definition withinCanvas :: "BoundingBox \<Rightarrow> bool" where
  "withinCanvas b \<longleftrightarrow>
     0 \<le> box_x b \<and> box_x b + box_width b \<le> 10 \<and>
     0 \<le> box_y b \<and> box_y b + box_height b \<le> 5.625"

definition withinTolerance :: "BoundingBox \<Rightarrow> bool" where
  "withinTolerance b \<longleftrightarrow>
     0 \<le> box_x b \<and> box_x b \<le> 10 \<and> 0 \<le> box_y b \<and> box_y b \<le> 5.625 \<and>
     0 < box_width b \<and> box_width b \<le> 10 \<and> 0 < box_height b \<and> box_height b \<le> 5.625 \<and>
     box_x b + box_width b \<le> 10.1 \<and> box_y b + box_height b \<le> 5.725"

section \<open>Detection strategy orchestrator (hybrid-detector.ts)\<close>

text \<open>
  The orchestrator awaits network services.  For one slide each service is a value of the
  environment: the reply of the geometry-only detector and the recognition on its grouped
  boxes for the primary-detector modes, and the layout regions, the region-wise
  recognition and the direct text detection for the content-aware pipeline.  The
  orchestrator does not inspect the boxes of a geometry-only detector, it only counts
  them: their type is a parameter, and the grouping heuristics
  (\<^verbatim>\<open>mergeCharacterBoxesToWords\<close>, \<^verbatim>\<open>mergeBoxesToLines\<close>) are a function of the
  environment, so that every result holds for whatever grouping is used.  Time
  measurements (\<^verbatim>\<open>timings\<close>) and console output are left out, and so are exceptions
  of the browser's own functions.
\<close>

typedecl DetectedTable

record AIAnalysisResult =
  tables :: "DetectedTable list"
  textElements :: "DetectedTextElement list"

text \<open>
  The fields of \<^verbatim>\<open>CraftDetectionResult\<close> and \<^verbatim>\<open>DBNetDetectionResult\<close> that the
  orchestrator reads.
\<close>

record 'box DetectorReply =
  boxes :: "'box list"
  error :: "string option"

record 'box PrimaryServices =
  detectText :: "'box DetectorReply"
  groupBoxes :: "'box list \<Rightarrow> 'box list"
  performOCROnRegions :: "'box list \<Rightarrow> DetectedTextElement list"

record ContentServices =
  detectLayoutRegions :: "LayoutRegion list"
  performRegionBasedOCR :: "LayoutRegion list \<Rightarrow> DetectedTextElement list"
  analyzeSlideImage :: AIAnalysisResult

text \<open>A string in a condition is true when it is present and not empty.\<close>

definition errorReported :: "'box DetectorReply \<Rightarrow> bool" where
  "errorReported reply = (case error reply of None \<Rightarrow> False | Some msg \<Rightarrow> msg \<noteq> [])"

text \<open>
  \<^verbatim>\<open>el.content && el.content.trim().length > 0\<close>: some character of the content is not white
  space.  The white space of this model is the ASCII part of what \<^verbatim>\<open>trim\<close> removes.
\<close>

definition isWhiteSpace :: "char \<Rightarrow> bool" where
  "isWhiteSpace c \<longleftrightarrow> c \<in> {CHR '' '', CHR 0x09, CHR 0x0A, CHR 0x0B, CHR 0x0C, CHR 0x0D}"

definition hasText :: "DetectedTextElement \<Rightarrow> bool" where
  "hasText el \<longleftrightarrow> list_ex (\<lambda>c. \<not> isWhiteSpace c) (content el)"

record PrimaryResult =
  primary_analysis :: AIAnalysisResult
  primary_boxCount :: nat
  primary_ocrSuccessCount :: nat

text \<open>
  \<^verbatim>\<open>performCraftPrimaryDetection\<close> (craft-primary-detector.ts) and
  \<^verbatim>\<open>performDBNetPrimaryDetection\<close> (dbnet-primary-detector.ts); the fields
  \<^verbatim>\<open>craftBoxCount\<close> and \<^verbatim>\<open>dbnetBoxCount\<close> are \<^verbatim>\<open>primary_boxCount\<close>.
\<close>

definition performCraftPrimaryDetection :: "'box PrimaryServices \<Rightarrow> PrimaryResult" where
  "performCraftPrimaryDetection craft =
     (let craftResult = detectText craft
      in if errorReported craftResult \<or> length (boxes craftResult) = 0 then
           \<lparr>primary_analysis = \<lparr>tables = [], textElements = []\<rparr>,
            primary_boxCount = 0, primary_ocrSuccessCount = 0\<rparr>
         else
           let wordBoxes = groupBoxes craft (boxes craftResult);
               elements = performOCROnRegions craft wordBoxes;
               ocrSuccessCount = length (filter hasText elements)
           in \<lparr>primary_analysis = \<lparr>tables = [], textElements = elements\<rparr>,
               primary_boxCount = length wordBoxes,
               primary_ocrSuccessCount = ocrSuccessCount\<rparr>)"

definition performDBNetPrimaryDetection :: "'box PrimaryServices \<Rightarrow> PrimaryResult" where
  "performDBNetPrimaryDetection dbnet =
     (let dbnetResult = detectText dbnet
      in if errorReported dbnetResult \<or> length (boxes dbnetResult) = 0 then
           \<lparr>primary_analysis = \<lparr>tables = [], textElements = []\<rparr>,
            primary_boxCount = 0, primary_ocrSuccessCount = 0\<rparr>
         else
           let lineBoxes = groupBoxes dbnet (boxes dbnetResult);
               elements = performOCROnRegions dbnet lineBoxes;
               ocrSuccessCount = length (filter hasText elements)
           in \<lparr>primary_analysis = \<lparr>tables = [], textElements = elements\<rparr>,
               primary_boxCount = length lineBoxes,
               primary_ocrSuccessCount = ocrSuccessCount\<rparr>)"

text \<open>
  \<^verbatim>\<open>analyzeSlideImageWithLayoutDetection\<close> (claude-vision.ts), the single-source
  pipeline: layout regions, recognition per region, normalization and alignment; the
  validation only logs.  Without regions it takes the direct text detection.
\<close>

definition analyzeSlideImageWithLayoutDetection ::
  "ContentServices \<Rightarrow> AIAnalysisResult \<times> LayoutRegion list" where
  "analyzeSlideImageWithLayoutDetection claude =
     (let regions = detectLayoutRegions claude;
          elements =
            (if length regions > 0 then
               alignElementsWithinRegions
                 (normalizeCoordinates (performRegionBasedOCR claude regions) regions) regions
             else textElements (analyzeSlideImage claude))
      in (\<lparr>tables = [], textElements = elements\<rparr>, regions))"

record DetectionStats =
  stats_claudeCount :: nat
  stats_craftCount :: nat
  stats_mergedCount :: nat
  stats_overlapCount :: nat
  stats_claudeOnlyCount :: nat
  stats_craftOnlyCount :: int

record HybridDetectionResult =
  analysis :: AIAnalysisResult
  regions :: "LayoutRegion list"
  detectionStats :: DetectionStats

text \<open>The result both primary-detector modes build from the single-source pipeline.\<close>

definition fallbackResult :: "AIAnalysisResult \<times> LayoutRegion list \<Rightarrow> HybridDetectionResult" where
  "fallbackResult fallback =
     \<lparr>analysis = fst fallback, regions = snd fallback,
      detectionStats =
        \<lparr>stats_claudeCount = length (textElements (fst fallback)),
         stats_craftCount = 0,
         stats_mergedCount = length (textElements (fst fallback)),
         stats_overlapCount = 0,
         stats_claudeOnlyCount = length (textElements (fst fallback)),
         stats_craftOnlyCount = 0\<rparr>\<rparr>"

definition primaryResult :: "PrimaryResult \<Rightarrow> HybridDetectionResult" where
  "primaryResult r =
     \<lparr>analysis = primary_analysis r, regions = [],
      detectionStats =
        \<lparr>stats_claudeCount = 0,
         stats_craftCount = primary_boxCount r,
         stats_mergedCount = length (textElements (primary_analysis r)),
         stats_overlapCount = primary_ocrSuccessCount r,
         stats_claudeOnlyCount = 0,
         stats_craftOnlyCount = int (primary_boxCount r) - int (primary_ocrSuccessCount r)\<rparr>\<rparr>"

definition performCraftPrimaryHybridDetection ::
  "'box PrimaryServices \<Rightarrow> ContentServices \<Rightarrow> HybridDetectionResult" where
  "performCraftPrimaryHybridDetection craft claude =
     (let craftPrimaryResult = performCraftPrimaryDetection craft
      in if primary_boxCount craftPrimaryResult = 0
         then fallbackResult (analyzeSlideImageWithLayoutDetection claude)
         else primaryResult craftPrimaryResult)"

definition performDBNetPrimaryHybridDetection ::
  "'box PrimaryServices \<Rightarrow> ContentServices \<Rightarrow> HybridDetectionResult" where
  "performDBNetPrimaryHybridDetection dbnet claude =
     (let dbnetPrimaryResult = performDBNetPrimaryDetection dbnet
      in if primary_boxCount dbnetPrimaryResult = 0
         then fallbackResult (analyzeSlideImageWithLayoutDetection claude)
         else primaryResult dbnetPrimaryResult)"

section \<open>The pipelines on the replies of the services\<close>

text \<open>
  The orchestrator above takes what the three pipelines produce as values of the
  environment.  This section models the conversions that produce them
  (layout-detector.ts, region-ocr.ts, claude-vision.ts, craft-region-ocr.ts,
  craft-primary-detector.ts), with the parsed JSON of each reply as the input: an array of
  objects, any field of which may be missing.  A request that fails, or a reply without
  JSON, is an empty array.

  The canvas-space rectangle of a region for an image of the given size: the conversion
  \<^verbatim>\<open>pixelsToInches\<close> that region-ocr.ts applies to the text found in the region.
\<close>

definition regionCanvasRect :: "real \<Rightarrow> real \<Rightarrow> LayoutRegion \<Rightarrow> BoundingBox" where
  "regionCanvasRect imageWidth imageHeight region =
     \<lparr>box_x = pixelsToInches (region_x region) imageWidth 10,
      box_y = pixelsToInches (region_y region) imageHeight 5.625,
      box_width = pixelsToInches (region_width region) imageWidth 10,
      box_height = pixelsToInches (region_height region) imageHeight 5.625\<rparr>"

text \<open>
  An object of the \<^verbatim>\<open>regions\<close> array of a layout reply, the callback of the map in
  \<^verbatim>\<open>parseLayoutResponse\<close>, and \<^verbatim>\<open>parseLayoutResponse\<close> on the array.
  \<^verbatim>\<open>region.contains_text !== false\<close> is true for a missing value.
\<close>

record RawLayoutRegion =
  rawRegion_type :: "RegionType option"
  rawRegion_x :: "real option"
  rawRegion_y :: "real option"
  rawRegion_width :: "real option"
  rawRegion_height :: "real option"
  rawRegion_confidence :: "real option"
  rawRegion_contains_text :: "bool option"
  rawRegion_background_color :: "string option"
  rawRegion_border_color :: "string option"
  rawRegion_shape_type :: "RegionShape option"

definition parseLayoutRegion :: "RawLayoutRegion \<Rightarrow> real \<Rightarrow> real \<Rightarrow> LayoutRegion" where
  "parseLayoutRegion region imageWidth imageHeight =
     (let x = max 0 (min (numberOr (rawRegion_x region) 0) imageWidth);
          y = max 0 (min (numberOr (rawRegion_y region) 0) imageHeight);
          w = max 10 (min (numberOr (rawRegion_width region) 100) (imageWidth - x));
          h = max 10 (min (numberOr (rawRegion_height region) 50) (imageHeight - y))
      in \<lparr>region_type = (case rawRegion_type region of None \<Rightarrow> TextBox | Some t \<Rightarrow> t),
          region_x = x, region_y = y, region_width = w, region_height = h,
          region_confidence = numberOr (rawRegion_confidence region) 80,
          contains_text = (rawRegion_contains_text region \<noteq> Some False),
          background_color = rawRegion_background_color region,
          border_color = rawRegion_border_color region,
          shape_type = Some (case rawRegion_shape_type region of
                               None \<Rightarrow> ShapeNone | Some s \<Rightarrow> s)\<rparr>)"

definition parseLayoutResponse :: "RawLayoutRegion list \<Rightarrow> real \<Rightarrow> real \<Rightarrow> LayoutRegion list" where
  "parseLayoutResponse parsed imageWidth imageHeight =
     deduplicateRegions (map (\<lambda>region. parseLayoutRegion region imageWidth imageHeight) parsed)"

text \<open>
  The callback of the map in \<^verbatim>\<open>parseRegionOCRResponse\<close> (region-ocr.ts): the pixel
  rectangle is clamped into the region, raised to 10 pixels and converted with the size
  of the image.
\<close>

definition parseRegionTextElement ::
  "RawTextDetection \<Rightarrow> LayoutRegion \<Rightarrow> real \<Rightarrow> real \<Rightarrow> DetectedTextElement" where
  "parseRegionTextElement text region imageWidth imageHeight =
     (let pixelX = max (region_x region)
            (min (numberOr (raw_x text) (region_x region)) (region_x region + region_width region));
          pixelY = max (region_y region)
            (min (numberOr (raw_y text) (region_y region)) (region_y region + region_height region));
          pixelWidth = max 10
            (min (numberOr (raw_width text) 100) ((region_x region + region_width region) - pixelX));
          pixelHeight = max 10
            (min (numberOr (raw_height text) 20) ((region_y region + region_height region) - pixelY));
          posX = pixelsToInches pixelX imageWidth 10;
          posY = pixelsToInches pixelY imageHeight 5.625;
          w = pixelsToInches pixelWidth imageWidth 10;
          h = pixelsToInches pixelHeight imageHeight 5.625;
          fontSize = max 8 (min 72 (numberOr (raw_fontSize text) 14))
      in \<lparr>element_id = None, slide_id = None,
          content = stringOr (raw_content text) [],
          position_x = posX, position_y = posY, width = w, height = h,
          font_family = Some (stringOr (raw_fontFamily text) ''Arial''),
          font_size = Some fontSize,
          font_color = Some (stringOr (raw_fontColor text) ''000000''),
          is_bold = Some (boolOrFalse (raw_isBold text)),
          is_italic = Some (boolOrFalse (raw_isItalic text)),
          is_underline = Some (boolOrFalse (raw_isUnderline text)),
          align = Some AlignLeft, vertical_align = Some VAlignTop,
          confidence_score = Some (numberOr (raw_confidence text) 80),
          parent_shape_id = None, detection_source = None, craft_detection_id = None\<rparr>)"

definition parseRegionOCRResponse ::
  "RawTextDetection list \<Rightarrow> LayoutRegion \<Rightarrow> real \<Rightarrow> real \<Rightarrow> DetectedTextElement list" where
  "parseRegionOCRResponse parsed region imageWidth imageHeight =
     map (\<lambda>text. parseRegionTextElement text region imageWidth imageHeight) parsed"

text \<open>
  \<^verbatim>\<open>performRegionBasedOCR\<close> (region-ocr.ts) with the replies as an argument:
  \<open>replies n\<close> is the \<^verbatim>\<open>textElements\<close> array of the reply for region number \<open>n\<close>.  A
  region marked as holding no text is skipped.
\<close>

definition performRegionBasedOCRFrom ::
  "(nat \<Rightarrow> RawTextDetection list) \<Rightarrow> LayoutRegion list \<Rightarrow> real \<Rightarrow> real
     \<Rightarrow> DetectedTextElement list" where
  "performRegionBasedOCRFrom replies layoutRegions imageWidth imageHeight =
     concat (map (\<lambda>i. let region = layoutRegions ! i
                       in if \<not> contains_text region then []
                          else parseRegionOCRResponse (replies (i + 1)) region imageWidth imageHeight)
                 [0..<length layoutRegions])"

text \<open>
  \<^verbatim>\<open>parseTextResponse\<close> (claude-vision.ts) on the \<^verbatim>\<open>textElements\<close> array of the reply
  of the direct text detection, and the services of the content-aware pipeline built from
  the three replies for one image.
\<close>

definition parseTextResponse :: "RawTextDetection list \<Rightarrow> real \<Rightarrow> real \<Rightarrow> AIAnalysisResult" where
  "parseTextResponse parsed imageWidth imageHeight =
     \<lparr>tables = [],
      textElements = map (\<lambda>text. parseTextElement text imageWidth imageHeight) parsed\<rparr>"

definition contentServices ::
  "RawLayoutRegion list \<Rightarrow> (nat \<Rightarrow> RawTextDetection list) \<Rightarrow> RawTextDetection list
     \<Rightarrow> real \<Rightarrow> real \<Rightarrow> ContentServices" where
  "contentServices layoutReply regionReplies textReply imageWidth imageHeight =
     \<lparr>detectLayoutRegions = parseLayoutResponse layoutReply imageWidth imageHeight,
      performRegionBasedOCR =
        (\<lambda>layoutRegions.
           performRegionBasedOCRFrom regionReplies layoutRegions imageWidth imageHeight),
      analyzeSlideImage = parseTextResponse textReply imageWidth imageHeight\<rparr>"

text \<open>
  The CRAFT-primary pipeline (craft-primary-detector.ts, craft-region-ocr.ts).
  \<^verbatim>\<open>performOCROnCraftRegions\<close> builds one element per grouped box from
  \<^verbatim>\<open>convertCraftBoxToCoordinates\<close> and the recognition result for the box, and keeps it
  when its content has text; \<open>ocrResults n\<close> is what \<^verbatim>\<open>performOCROnSingleCraftBox\<close>
  returns for region number \<open>n\<close> (it catches its own errors and then returns a default
  result).  \<^verbatim>\<open>Math.round\<close> rounds a half upwards.  The element carries the source
  \<^verbatim>\<open>'craft_primary'\<close>.
\<close>

record CraftBox =
  craft_x :: real
  craft_y :: real
  craft_width :: real
  craft_height :: real
  craft_confidence :: real
  craft_text :: "string option"

record CraftRegionOCRResult =
  ocr_content :: string
  ocr_fontFamily :: string
  ocr_fontSize :: real
  ocr_fontColor :: string
  ocr_isBold :: bool
  ocr_isItalic :: bool
  ocr_isUnderline :: bool
  ocr_confidence :: real

definition convertCraftBoxToCoordinates :: "CraftBox \<Rightarrow> real \<Rightarrow> real \<Rightarrow> BoundingBox" where
  "convertCraftBoxToCoordinates box imageWidth imageHeight =
     \<lparr>box_x = pixelsToInches (craft_x box) imageWidth 10,
      box_y = pixelsToInches (craft_y box) imageHeight 5.625,
      box_width = pixelsToInches (craft_width box) imageWidth 10,
      box_height = pixelsToInches (craft_height box) imageHeight 5.625\<rparr>"

definition mathRound :: "real \<Rightarrow> real" where
  "mathRound v = of_int \<lfloor>v + 1 / 2\<rfloor>"

definition performOCROnCraftRegions ::
  "(nat \<Rightarrow> CraftRegionOCRResult) \<Rightarrow> CraftBox list \<Rightarrow> real \<Rightarrow> real \<Rightarrow> DetectedTextElement list" where
  "performOCROnCraftRegions ocrResults craftBoxes imageWidth imageHeight =
     concat (map (\<lambda>i.
        let box = craftBoxes ! i;
            ocrResult = ocrResults (i + 1);
            coordinates = convertCraftBoxToCoordinates box imageWidth imageHeight;
            element =
              \<lparr>element_id = None, slide_id = None,
               content = ocr_content ocrResult,
               position_x = box_x coordinates, position_y = box_y coordinates,
               width = box_width coordinates, height = box_height coordinates,
               font_family = Some (ocr_fontFamily ocrResult),
               font_size = Some (ocr_fontSize ocrResult),
               font_color = Some (ocr_fontColor ocrResult),
               is_bold = Some (ocr_isBold ocrResult),
               is_italic = Some (ocr_isItalic ocrResult),
               is_underline = Some (ocr_isUnderline ocrResult),
               align = Some AlignLeft, vertical_align = Some VAlignTop,
               confidence_score = Some (mathRound (ocr_confidence ocrResult)),
               parent_shape_id = None, detection_source = Some SourceCraftPrimary,
               craft_detection_id = None\<rparr>
        in if hasText element then [element] else [])
       [0..<length craftBoxes])"

text \<open>
  The services of the primary-detector mode built from the reply of the detector, the
  grouping of its boxes and the recognition results, for one image.
\<close>

definition craftServices ::
  "CraftBox DetectorReply \<Rightarrow> (CraftBox list \<Rightarrow> CraftBox list) \<Rightarrow> (nat \<Rightarrow> CraftRegionOCRResult)
     \<Rightarrow> real \<Rightarrow> real \<Rightarrow> CraftBox PrimaryServices" where
  "craftServices craftResult grouping ocrResults imageWidth imageHeight =
     \<lparr>detectText = craftResult, groupBoxes = grouping,
      performOCROnRegions =
        (\<lambda>wordBoxes. performOCROnCraftRegions ocrResults wordBoxes imageWidth imageHeight)\<rparr>"

section \<open>Auxiliary notions for the proofs\<close>

text \<open>
  Auxiliary notions for the proofs: the invariant of the inner scan after the first \<open>m\<close>
  indices, the element one iteration of the outer loop pushes, and the invariant of the
  outer loop after \<open>n\<close> iterations.
\<close>

definition scanInv ::
  "DetectedTextElement \<Rightarrow> DetectedTextElement list \<Rightarrow> nat set \<Rightarrow> real \<Rightarrow> nat \<Rightarrow> (nat \<times> real) option \<Rightarrow> bool" where
  "scanInv a bs M thr m best =
    (case best of
      None \<Rightarrow> (\<forall>j<m. j \<in> M \<or> calculateIoU (boxOf a) (boxOf (bs ! j)) < thr)
    | Some (i, v) \<Rightarrow> i < m \<and> i \<notin> M \<and> v = calculateIoU (boxOf a) (boxOf (bs ! i)) \<and> thr \<le> v
        \<and> (\<forall>j<m. j \<notin> M \<longrightarrow> calculateIoU (boxOf a) (boxOf (bs ! j)) \<le> v)
        \<and> (\<forall>j<i. j \<notin> M \<longrightarrow> calculateIoU (boxOf a) (boxOf (bs ! j)) < v))"

definition stepElement ::
  "DetectedTextElement list \<Rightarrow> real \<Rightarrow> DetectedTextElement \<Rightarrow> nat set \<Rightarrow> DetectedTextElement" where
  "stepElement bs thr a M = (case findBestMatch a bs M thr of
      Some (i, v) \<Rightarrow> mergedElement a (bs ! i) | None \<Rightarrow> a)"

definition mergeInv :: "DetectedTextElement list \<Rightarrow> MergeLoopState \<Rightarrow> nat \<Rightarrow> bool" where
  "mergeInv bs st n \<longleftrightarrow>
     finite (loop_craftMatched st) \<and> loop_craftMatched st \<subseteq> {..<length bs}
     \<and> card (loop_craftMatched st) = loop_overlapCount st \<and> loop_overlapCount st \<le> n"

text \<open>
  For the deduplication pass: the pair \<open>a < b\<close> is settled by a set of removed indices
  when one of the two is removed or their IoU is below the threshold.
\<close>

definition pairSettled :: "DetectedTextElement list \<Rightarrow> real \<Rightarrow> nat \<Rightarrow> nat \<Rightarrow> nat set \<Rightarrow> bool" where
  "pairSettled es t a b R \<longleftrightarrow>
     a \<in> R \<or> b \<in> R \<or> calculateIoU (boxOf (es ! a)) (boxOf (es ! b)) < t"

section \<open>Example data\<close>

text \<open>
  A text element with the given content, rectangle and confidence score and every other
  optional field absent; used to state the properties at concrete inputs.
\<close>

definition textElement ::
  "string \<Rightarrow> real \<Rightarrow> real \<Rightarrow> real \<Rightarrow> real \<Rightarrow> real option \<Rightarrow> DetectedTextElement" where
  "textElement c x y w h conf =
     \<lparr>element_id = None, slide_id = None, content = c,
      position_x = x, position_y = y, width = w, height = h,
      font_family = None, font_size = None, font_color = None,
      is_bold = None, is_italic = None, is_underline = None,
      align = None, vertical_align = None, confidence_score = conf,
      parent_shape_id = None, detection_source = None, craft_detection_id = None\<rparr>"

text \<open>A layout region with the given rectangle and confidence.\<close>

definition regionBox :: "real \<Rightarrow> real \<Rightarrow> real \<Rightarrow> real \<Rightarrow> real \<Rightarrow> LayoutRegion" where
  "regionBox x y w h conf =
     \<lparr>region_type = TextBox, region_x = x, region_y = y, region_width = w, region_height = h,
      region_confidence = conf, contains_text = True, background_color = None,
      border_color = None, shape_type = Some ShapeNone\<rparr>"

text \<open>
  Services for one slide: a geometry-only detector that timed out (no boxes, an error
  message), one whose service answered with boxes and an error, and a content-aware
  pipeline that finds one region and one text element in it.
\<close>

definition timedOutDetector :: "nat PrimaryServices" where
  "timedOutDetector =
     \<lparr>detectText = \<lparr>boxes = [], error = Some ''CRAFT service timeout''\<rparr>,
      groupBoxes = (\<lambda>bs. bs), performOCROnRegions = (\<lambda>bs. [])\<rparr>"

definition failingDetector :: "nat PrimaryServices" where
  "failingDetector =
     \<lparr>detectText = \<lparr>boxes = [1, 2], error = Some ''model not loaded''\<rparr>,
      groupBoxes = (\<lambda>bs. bs),
      performOCROnRegions = (\<lambda>bs. map (\<lambda>b. textElement ''?'' 0 0 1 1 None) bs)\<rparr>"

definition oneRegionServices :: ContentServices where
  "oneRegionServices =
     \<lparr>detectLayoutRegions = [regionBox 0 0 192 108 95],
      performRegionBasedOCR = (\<lambda>rs. [textElement ''body'' 0.7 0.3 0.5 0.4 (Some 90)]),
      analyzeSlideImage = \<lparr>tables = [], textElements = []\<rparr>\<rparr>"

text \<open>
  Replies for one slide: an object of a text reply and of a layout reply with the given
  pixel rectangle, and four slides.  On the first, of 1920 x 1080 pixels, no region is
  found and the direct text detection reports a text at the right edge of the image.  On
  the second, of the same size, a region is reported at the right edge and a text in it.
  On the third the geometry-only detector reports one box that overhangs the right edge
  of the image; a single box is its own group.  The fourth is an image of 960 x 540
  pixels with a left and a right half as regions and one text in the left half, and
  \<^verbatim>\<open>leftText\<close> is the element the region-wise recognition makes of it.
\<close>

definition rawText :: "string \<Rightarrow> real \<Rightarrow> real \<Rightarrow> real \<Rightarrow> real \<Rightarrow> RawTextDetection" where
  "rawText c x y w h =
     \<lparr>raw_content = Some c, raw_x = Some x, raw_y = Some y, raw_width = Some w,
      raw_height = Some h, raw_fontFamily = None, raw_fontSize = None, raw_fontColor = None,
      raw_isBold = None, raw_isItalic = None, raw_isUnderline = None,
      raw_confidence = Some 90\<rparr>"

definition rawRegion :: "real \<Rightarrow> real \<Rightarrow> real \<Rightarrow> real \<Rightarrow> RawLayoutRegion" where
  "rawRegion x y w h =
     \<lparr>rawRegion_type = Some TextBox, rawRegion_x = Some x, rawRegion_y = Some y,
      rawRegion_width = Some w, rawRegion_height = Some h, rawRegion_confidence = Some 95,
      rawRegion_contains_text = Some True, rawRegion_background_color = None,
      rawRegion_border_color = None, rawRegion_shape_type = None\<rparr>"

definition edgeTextSlide :: ContentServices where
  "edgeTextSlide = contentServices [] (\<lambda>i. []) [rawText ''Edge'' 1920 0 10 10] 1920 1080"

definition edgeRegionSlide :: ContentServices where
  "edgeRegionSlide =
     contentServices [rawRegion 1920 0 10 10] (\<lambda>i. [rawText ''Edge'' 1922 2 8 8]) [] 1920 1080"

definition overhangingBoxSlide :: "CraftBox PrimaryServices" where
  "overhangingBoxSlide =
     craftServices
       \<lparr>boxes = [\<lparr>craft_x = 1900, craft_y = 500, craft_width = 100, craft_height = 40,
                   craft_confidence = 0.9, craft_text = None\<rparr>],
        error = None\<rparr>
       (\<lambda>characterBoxes. characterBoxes)
       (\<lambda>i. \<lparr>ocr_content = ''Total'', ocr_fontFamily = ''Arial'', ocr_fontSize = 14,
              ocr_fontColor = ''000000'', ocr_isBold = False, ocr_isItalic = False,
              ocr_isUnderline = False, ocr_confidence = 95\<rparr>)
       1920 1080"

definition twoColumnSlide :: ContentServices where
  "twoColumnSlide =
     contentServices [rawRegion 0 0 480 540, rawRegion 480 0 480 540]
       (\<lambda>i. if i = 1 then [rawText ''left'' 300 100 96 96] else []) [] 960 540"

definition leftText :: DetectedTextElement where
  "leftText =
     \<lparr>element_id = None, slide_id = None, content = ''left'',
      position_x = 25 / 8, position_y = 25 / 24, width = 1, height = 1,
      font_family = Some ''Arial'', font_size = Some 14, font_color = Some ''000000'',
      is_bold = Some False, is_italic = Some False, is_underline = Some False,
      align = Some AlignLeft, vertical_align = Some VAlignTop, confidence_score = Some 90,
      parent_shape_id = None, detection_source = None, craft_detection_id = None\<rparr>"

section \<open>Properties of the geometry primitives\<close>

lemma overlap_positive_extents:
  assumes "overlapLeft a b < overlapRight a b" "overlapTop a b < overlapBottom a b"
  shows "0 < intersectionArea a b"
    and "intersectionArea a b \<le> boxArea a"
    and "intersectionArea a b \<le> boxArea b"
proof -
  let ?dx = "overlapRight a b - overlapLeft a b"
  let ?dy = "overlapBottom a b - overlapTop a b"
  have dx: "0 < ?dx" and dy: "0 < ?dy" using assms by simp_all
  show "0 < intersectionArea a b"
    unfolding intersectionArea_def using dx dy by (rule mult_pos_pos)
  have wa: "?dx \<le> box_width a" and wb: "?dx \<le> box_width b"
    by (simp_all add: overlapRight_def overlapLeft_def min_def max_def)
  have ha: "?dy \<le> box_height a" and hb: "?dy \<le> box_height b"
    by (simp_all add: overlapBottom_def overlapTop_def min_def max_def)
  show "intersectionArea a b \<le> boxArea a"
    unfolding intersectionArea_def boxArea_def
    using wa ha dx dy by (intro mult_mono) simp_all
  show "intersectionArea a b \<le> boxArea b"
    unfolding intersectionArea_def boxArea_def
    using wb hb dx dy by (intro mult_mono) simp_all
qed

lemma calculateIoU_range: "0 \<le> calculateIoU a b \<and> calculateIoU a b \<le> 1"
proof (cases "overlapLeft a b < overlapRight a b \<and> overlapTop a b < overlapBottom a b")
  case False
  then show ?thesis by (auto simp: calculateIoU_def)
next
  case True
  then have i: "0 < intersectionArea a b"
    and ia: "intersectionArea a b \<le> boxArea a"
    and ib: "intersectionArea a b \<le> boxArea b"
    using overlap_positive_extents [of a b] by simp_all
  have u: "intersectionArea a b \<le> unionArea a b"
    unfolding unionArea_def using ia ib i by linarith
  then have "0 < unionArea a b" using i by linarith
  then show ?thesis using i u by (simp add: calculateIoU_def)
qed

lemma calculateIoU_sym: "calculateIoU a b = calculateIoU b a"
proof -
  have "overlapLeft a b = overlapLeft b a" "overlapRight a b = overlapRight b a"
    "overlapTop a b = overlapTop b a" "overlapBottom a b = overlapBottom b a"
    by (simp_all add: overlapLeft_def overlapRight_def overlapTop_def overlapBottom_def
        max.commute min.commute)
  then show ?thesis
    by (simp add: calculateIoU_def unionArea_def intersectionArea_def)
qed

lemma calculateIoU_disjoint: "doNotOverlap a b \<Longrightarrow> calculateIoU a b = 0"
proof -
  assume d: "doNotOverlap a b"
  have "overlapRight a b \<le> overlapLeft a b \<or> overlapBottom a b \<le> overlapTop a b"
    using d unfolding doNotOverlap_def overlapLeft_def overlapRight_def overlapTop_def
      overlapBottom_def
    by (auto simp: min_def max_def)
  then show ?thesis by (auto simp: calculateIoU_def)
qed

lemma calculateIoU_self:
  assumes "0 < box_width a" "0 < box_height a"
  shows "calculateIoU a a = 1"
proof -
  have i: "intersectionArea a a = boxArea a"
    by (simp add: intersectionArea_def boxArea_def overlapLeft_def overlapRight_def
        overlapTop_def overlapBottom_def)
  have p: "0 < boxArea a" unfolding boxArea_def using assms by (rule mult_pos_pos)
  have g: "\<not> (overlapRight a a \<le> overlapLeft a a \<or> overlapBottom a a \<le> overlapTop a a)"
    using assms by (simp add: overlapLeft_def overlapRight_def overlapTop_def overlapBottom_def)
  show ?thesis using i p g by (simp add: calculateIoU_def unionArea_def)
qed

text \<open>
  C7.  Clamping is idempotent: clamping a clamped rectangle changes nothing, whatever
  the input rectangle (negative origin, zero or negative extents, extents past the
  slide).
\<close>

theorem clampToCanvas_idempotent: "clampToCanvas (clampToCanvas r) = clampToCanvas r"
  by (simp add: clampToCanvas_def clampToSlideBounds_def STANDARD_SLIDE_def Let_def
      min_def max_def)

theorem clampToCanvas_idempotent_witness:
  "clampToCanvas \<lparr>box_x = 10, box_y = - 3, box_width = 5 / 96, box_height = 0\<rparr>
     = \<lparr>box_x = 10, box_y = 0, box_width = 0.1, box_height = 0.1\<rparr>
   \<and> clampToCanvas \<lparr>box_x = 10, box_y = 0, box_width = 0.1, box_height = 0.1\<rparr>
     = \<lparr>box_x = 10, box_y = 0, box_width = 0.1, box_height = 0.1\<rparr>"
  using clampToCanvas_idempotent
    [of "\<lparr>box_x = 10, box_y = - 3, box_width = 5 / 96, box_height = 0\<rparr>"]
  by (simp add: clampToCanvas_def clampToSlideBounds_def STANDARD_SLIDE_def Let_def)

section \<open>Properties of the rounding to double precision\<close>

lemma log2Floor_ge1:
  assumes "1 \<le> x"
  shows "2 powi log2Floor x \<le> x \<and> x < 2 powi (log2Floor x + 1)"
proof -
  let ?n = "\<lfloor>x\<rfloor>"
  have n: "0 < ?n" using assms by simp
  have b: "2 ^ nat (bitlen ?n - 1) \<le> ?n" "?n < 2 ^ nat (bitlen ?n)"
    using bitlen_bounds [OF n] by simp_all
  have b1: "1 \<le> bitlen ?n" using n by (simp add: bitlen_alt_def)
  have lo: "(2::real) ^ nat (bitlen ?n - 1) \<le> x"
  proof -
    have "(2::real) ^ nat (bitlen ?n - 1) = of_int (2 ^ nat (bitlen ?n - 1))" by simp
    also have "\<dots> \<le> of_int ?n" using b(1) by (simp only: of_int_le_iff)
    also have "\<dots> \<le> x" by simp
    finally show ?thesis .
  qed
  have hi: "x < (2::real) ^ nat (bitlen ?n)"
  proof -
    have "?n + 1 \<le> 2 ^ nat (bitlen ?n)" using b(2) by simp
    then have "(of_int (?n + 1) :: real) \<le> of_int (2 ^ nat (bitlen ?n))"
      by (simp only: of_int_le_iff)
    then have "of_int ?n + 1 \<le> (2::real) ^ nat (bitlen ?n)" by simp
    moreover have "x < of_int ?n + 1" by linarith
    ultimately show ?thesis by linarith
  qed
  have e1: "(2::real) powi (bitlen ?n - 1) = 2 ^ nat (bitlen ?n - 1)"
    using b1 by (simp add: power_int_def)
  have e2: "(2::real) powi (bitlen ?n - 1 + 1) = 2 ^ nat (bitlen ?n)"
    using b1 by (simp add: power_int_def)
  show ?thesis using assms lo hi e1 e2 by (simp add: log2Floor_def)
qed

lemma log2Floor_lt1:
  assumes "0 < x" "x < 1"
  shows "2 powi log2Floor x \<le> x \<and> x < 2 powi (log2Floor x + 1)"
proof -
  let ?y = "1 / x"
  let ?m = "\<lceil>?y\<rceil> - 1"
  have y: "1 < ?y" using assms by simp
  then have c2: "2 \<le> \<lceil>?y\<rceil>" by linarith
  then have m: "0 < ?m" by simp
  have b: "2 ^ nat (bitlen ?m - 1) \<le> ?m" "?m < 2 ^ nat (bitlen ?m)"
    using bitlen_bounds [OF m] by simp_all
  have b1: "1 \<le> bitlen ?m" using m by (simp add: bitlen_alt_def)
  have "\<lceil>?y\<rceil> \<le> 2 ^ nat (bitlen ?m)" using b(2) by simp
  then have "(of_int \<lceil>?y\<rceil> :: real) \<le> of_int (2 ^ nat (bitlen ?m))"
    by (simp only: of_int_le_iff)
  also have "(of_int (2 ^ nat (bitlen ?m)) :: real) = 2 ^ nat (bitlen ?m)" by simp
  finally have "(of_int \<lceil>?y\<rceil> :: real) \<le> 2 ^ nat (bitlen ?m)" .
  moreover have "?y \<le> of_int \<lceil>?y\<rceil>" by (rule le_of_int_ceiling)
  ultimately have yhi: "?y \<le> 2 ^ nat (bitlen ?m)" by linarith
  have "(of_int (2 ^ nat (bitlen ?m - 1)) :: real) \<le> of_int ?m"
    using b(1) by (simp only: of_int_le_iff)
  then have "(2::real) ^ nat (bitlen ?m - 1) \<le> of_int \<lceil>?y\<rceil> - 1" by simp
  moreover have "of_int \<lceil>?y\<rceil> - 1 < ?y" by linarith
  ultimately have ylo: "(2::real) ^ nat (bitlen ?m - 1) < ?y" by linarith
  have p: "(0::real) < 2 ^ nat (bitlen ?m)" "(0::real) < 2 ^ nat (bitlen ?m - 1)" by simp_all
  have lo: "1 / 2 ^ nat (bitlen ?m) \<le> x"
  proof -
    have "x * ?y \<le> x * 2 ^ nat (bitlen ?m)"
      using yhi assms(1) by (intro mult_left_mono) simp_all
    then have "1 \<le> x * 2 ^ nat (bitlen ?m)" using assms(1) by simp
    then show ?thesis using p(1) by (simp add: field_simps)
  qed
  have hi: "x < 1 / 2 ^ nat (bitlen ?m - 1)"
  proof -
    have "x * 2 ^ nat (bitlen ?m - 1) < x * ?y"
      using ylo assms(1) by (intro mult_strict_left_mono) simp_all
    then have "x * 2 ^ nat (bitlen ?m - 1) < 1" using assms(1) by simp
    then show ?thesis using p(2) by (simp add: field_simps)
  qed
  have e1: "(2::real) powi (- bitlen ?m) = 1 / 2 ^ nat (bitlen ?m)"
    using b1 by (simp add: power_int_def field_simps)
  have e2: "(2::real) powi (- bitlen ?m + 1) = 1 / 2 ^ nat (bitlen ?m - 1)"
  proof (cases "bitlen ?m = 1")
    case True
    then show ?thesis by simp
  next
    case False
    with b1 have "- bitlen ?m + 1 < 0" by simp
    moreover have "nat (- (- bitlen ?m + 1)) = nat (bitlen ?m - 1)" by simp
    ultimately show ?thesis by (simp add: power_int_def field_simps)
  qed
  show ?thesis using assms lo hi e1 e2 by (simp add: log2Floor_def)
qed

lemma log2Floor_bounds:
  assumes "0 < x"
  shows "2 powi log2Floor x \<le> x \<and> x < 2 powi (log2Floor x + 1)"
  using assms log2Floor_ge1 [of x] log2Floor_lt1 [of x] by (cases "1 \<le> x") simp_all

lemma powi_exponent_unique:
  assumes "(2::real) powi a \<le> x" "x < 2 powi (a + 1)" "2 powi b \<le> x" "x < 2 powi (b + 1)"
  shows "a = b"
proof -
  have 1: "a < b + 1"
  proof (rule ccontr)
    assume "\<not> a < b + 1"
    then have "b + 1 \<le> a" by simp
    then have "(2::real) powi (b + 1) \<le> 2 powi a" by (intro power_int_increasing) simp_all
    with assms(1,4) show False by linarith
  qed
  have 2: "b < a + 1"
  proof (rule ccontr)
    assume "\<not> b < a + 1"
    then have "a + 1 \<le> b" by simp
    then have "(2::real) powi (a + 1) \<le> 2 powi b" by (intro power_int_increasing) simp_all
    with assms(3,2) show False by linarith
  qed
  from 1 2 show ?thesis by simp
qed

lemma log2Floor_eq:
  assumes "2 powi e \<le> x" "x < 2 powi (e + 1)"
  shows "log2Floor x = e"
proof -
  have "(0::real) < 2 powi e" by simp
  then have "0 < x" using assms(1) by linarith
  from log2Floor_bounds [OF this] assms show ?thesis
    using powi_exponent_unique [of "log2Floor x" x e] by simp
qed

lemma roundDouble_eval:
  assumes "2 powi e \<le> \<bar>x\<bar>" "\<bar>x\<bar> < 2 powi (e + 1)" "- 1022 \<le> e"
  shows "roundDouble x = of_int (roundHalfEven (x / 2 powi (e - 52))) * 2 powi (e - 52)"
proof -
  have l: "log2Floor \<bar>x\<bar> = e" using assms(1,2) by (rule log2Floor_eq)
  have "(0::real) < 2 powi e" by simp
  then have "0 < \<bar>x\<bar>" using assms(1) by linarith
  then have x: "x \<noteq> 0" by simp
  have q: "quantumExponent x = e - 52" using l assms(3) by (simp add: quantumExponent_def)
  show ?thesis unfolding roundDouble_def roundToGrid_def q using x by simp
qed

lemma roundHalfEven_near:
  assumes "\<bar>y - of_int n\<bar> < 1 / 2"
  shows "roundHalfEven y = n"
proof (cases "of_int n \<le> y")
  case True
  with assms have "\<lfloor>y\<rfloor> = n" by (intro floor_unique) linarith+
  with assms True show ?thesis by (simp add: roundHalfEven_def Let_def)
next
  case False
  with assms have f: "\<lfloor>y\<rfloor> = n - 1" by (intro floor_unique) (simp, linarith+)
  have "\<not> y - of_int (n - 1) < 1 / 2" using assms False by simp
  moreover have "1 / 2 < y - of_int (n - 1)" using assms False by simp
  ultimately show ?thesis unfolding roundHalfEven_def Let_def f by simp
qed

lemma roundHalfEven_tie:
  assumes "y = of_int m + 1 / 2"
  shows "roundHalfEven y = (if even m then m else m + 1)"
proof -
  have f: "\<lfloor>y\<rfloor> = m" using assms by (intro floor_unique) simp_all
  show ?thesis unfolding roundHalfEven_def Let_def f using assms by simp
qed

lemma roundDouble_quantum:
  assumes "2 powi (q + 52) \<le> \<bar>x\<bar>" "\<bar>x\<bar> < 2 powi (q + 53)" "- 1074 \<le> q"
  shows "roundDouble x = of_int (roundHalfEven (x / 2 powi q)) * 2 powi q"
  using roundDouble_eval [of "q + 52" x] assms by (simp add: add.commute)

lemma powi_small: "(2::real) powi (- int k) = 1 / 2 ^ k"
  by (simp add: power_int_minus field_simps)

lemma powi_large: "(2::real) powi (int k) = 2 ^ k"
  by simp

lemma roundDouble_small:
  assumes "k \<le> 1074"
    and "2 ^ 52 / 2 ^ k \<le> \<bar>x\<bar>" "\<bar>x\<bar> < 2 ^ 53 / 2 ^ k"
  shows "roundDouble x = of_int (roundHalfEven (x * 2 ^ k)) / 2 ^ k"
proof -
  have a: "(2::real) powi (- int k + 52) = 2 ^ 52 / 2 ^ k"
    using power_int_add [of "2::real" "- int k" 52] by (simp add: powi_small)
  have b: "(2::real) powi (- int k + 53) = 2 ^ 53 / 2 ^ k"
    using power_int_add [of "2::real" "- int k" 53] by (simp add: powi_small)
  have 1: "2 powi (- int k + 52) \<le> \<bar>x\<bar>" unfolding a by (rule assms(2))
  have 2: "\<bar>x\<bar> < 2 powi (- int k + 53)" unfolding b by (rule assms(3))
  have 3: "- 1074 \<le> - int k" using assms(1) by simp
  have "roundDouble x = of_int (roundHalfEven (x / 2 powi (- int k))) * 2 powi (- int k)"
    using 1 2 3 by (rule roundDouble_quantum)
  then show ?thesis by (simp only: powi_small) simp
qed

lemma roundDouble_large:
  assumes "2 ^ 52 * 2 ^ k \<le> \<bar>x\<bar>" "\<bar>x\<bar> < 2 ^ 53 * 2 ^ k"
  shows "roundDouble x = of_int (roundHalfEven (x / 2 ^ k)) * 2 ^ k"
proof -
  have a: "(2::real) powi (int k + 52) = 2 ^ 52 * 2 ^ k"
    using power_int_add [of "2::real" "int k" 52] by simp
  have b: "(2::real) powi (int k + 53) = 2 ^ 53 * 2 ^ k"
    using power_int_add [of "2::real" "int k" 53] by simp
  have 1: "2 powi (int k + 52) \<le> \<bar>x\<bar>" unfolding a by (rule assms(1))
  have 2: "\<bar>x\<bar> < 2 powi (int k + 53)" unfolding b by (rule assms(2))
  have 3: "- 1074 \<le> int k" by simp
  have "roundDouble x = of_int (roundHalfEven (x / 2 powi (int k))) * 2 powi (int k)"
    using 1 2 3 by (rule roundDouble_quantum)
  then show ?thesis by simp
qed

lemma roundHalfEven_bounds: "\<bar>of_int (roundHalfEven y) - y\<bar> \<le> 1 / 2"
proof -
  define n where "n = \<lfloor>y\<rfloor>"
  have b: "of_int n \<le> y" "y < of_int n + 1" unfolding n_def by linarith+
  show ?thesis unfolding roundHalfEven_def Let_def n_def [symmetric]
    using b by (auto simp: abs_if)
qed

lemma roundHalfEven_of_int: "roundHalfEven (of_int n) = n"
  by (rule roundHalfEven_near) simp

lemma roundHalfEven_mono:
  assumes "x \<le> y"
  shows "roundHalfEven x \<le> roundHalfEven y"
proof (rule ccontr)
  assume n: "\<not> roundHalfEven x \<le> roundHalfEven y"
  then have "roundHalfEven y + 1 \<le> roundHalfEven x" by simp
  then have "(of_int (roundHalfEven y + 1) :: real) \<le> of_int (roundHalfEven x)"
    by (simp only: of_int_le_iff)
  then have "(of_int (roundHalfEven y) :: real) + 1 \<le> of_int (roundHalfEven x)" by simp
  with roundHalfEven_bounds [of x] roundHalfEven_bounds [of y] assms
  have "x = y" by linarith
  with n show False by simp
qed

lemma roundToGrid_mono: "x \<le> y \<Longrightarrow> roundToGrid q x \<le> roundToGrid q y"
proof -
  assume "x \<le> y"
  then have "x / 2 powi q \<le> y / 2 powi q" by (simp add: divide_right_mono)
  then have "roundHalfEven (x / 2 powi q) \<le> roundHalfEven (y / 2 powi q)"
    by (rule roundHalfEven_mono)
  then have "(of_int (roundHalfEven (x / 2 powi q)) :: real) \<le> of_int (roundHalfEven (y / 2 powi q))"
    by (simp only: of_int_le_iff)
  then show ?thesis unfolding roundToGrid_def by (intro mult_right_mono) simp_all
qed

lemma roundToGrid_point: "roundToGrid q (of_int m * 2 powi q) = of_int m * 2 powi q"
  by (simp add: roundToGrid_def roundHalfEven_of_int)

lemma roundToGrid_le:
  assumes "x \<le> of_int m * 2 powi q"
  shows "roundToGrid q x \<le> of_int m * 2 powi q"
  using roundToGrid_mono [OF assms, of q] by (simp only: roundToGrid_point)

lemma roundToGrid_ge:
  assumes "of_int m * 2 powi q \<le> x"
  shows "of_int m * 2 powi q \<le> roundToGrid q x"
  using roundToGrid_mono [OF assms, of q] by (simp only: roundToGrid_point)

lemma log2Floor_mono:
  assumes "0 < x" "x \<le> y"
  shows "log2Floor x \<le> log2Floor y"
proof (rule ccontr)
  assume "\<not> log2Floor x \<le> log2Floor y"
  then have "log2Floor y + 1 \<le> log2Floor x" by simp
  then have "(2::real) powi (log2Floor y + 1) \<le> 2 powi log2Floor x"
    by (intro power_int_increasing) simp_all
  moreover have "0 < y" using assms by linarith
  ultimately show False
    using log2Floor_bounds [OF assms(1)] log2Floor_bounds [OF \<open>0 < y\<close>] assms(2) by linarith
qed

lemma quantumExponent_mono:
  assumes "x \<noteq> 0" "\<bar>x\<bar> \<le> \<bar>y\<bar>"
  shows "quantumExponent x \<le> quantumExponent y"
proof -
  have "0 < \<bar>x\<bar>" using assms(1) by simp
  from log2Floor_mono [OF this assms(2)] show ?thesis by (simp add: quantumExponent_def)
qed

lemma powi_53: "(2::real) powi (q + 53) = 2 ^ 53 * 2 powi q"
  using power_int_add [of "2::real" q 53] by (simp add: mult.commute)

lemma powi_52: "(2::real) powi (q + 52) = 2 ^ 52 * 2 powi q"
  using power_int_add [of "2::real" q 52] by (simp add: mult.commute)

lemma quantumExponent_upper:
  assumes "x \<noteq> 0"
  shows "\<bar>x\<bar> < 2 ^ 53 * 2 powi quantumExponent x"
proof -
  have p: "0 < \<bar>x\<bar>" using assms by simp
  have "log2Floor \<bar>x\<bar> + 1 \<le> quantumExponent x + 53" by (simp add: quantumExponent_def)
  then have "(2::real) powi (log2Floor \<bar>x\<bar> + 1) \<le> 2 powi (quantumExponent x + 53)"
    by (intro power_int_increasing) simp_all
  with log2Floor_bounds [OF p] have "\<bar>x\<bar> < 2 powi (quantumExponent x + 53)" by linarith
  then show ?thesis by (simp only: powi_53)
qed

lemma quantumExponent_lower:
  assumes "x \<noteq> 0" "- 1074 < quantumExponent x"
  shows "2 ^ 52 * 2 powi quantumExponent x \<le> \<bar>x\<bar>"
proof -
  have p: "0 < \<bar>x\<bar>" using assms by simp
  have "quantumExponent x + 52 = log2Floor \<bar>x\<bar>"
    using assms(2) by (simp add: quantumExponent_def max_def split: if_splits)
  with log2Floor_bounds [OF p] have "2 powi (quantumExponent x + 52) \<le> \<bar>x\<bar>" by simp
  then show ?thesis by (simp only: powi_52)
qed

lemma quantumExponent_ge: "- 1074 \<le> quantumExponent x"
  by (simp add: quantumExponent_def)

lemma roundDouble_nonneg: "0 \<le> x \<Longrightarrow> 0 \<le> roundDouble x"
  using roundToGrid_ge [of 0 "quantumExponent x" x] by (simp add: roundDouble_def)

lemma roundDouble_nonpos: "x \<le> 0 \<Longrightarrow> roundDouble x \<le> 0"
  using roundToGrid_le [of x 0 "quantumExponent x"] by (simp add: roundDouble_def)

lemma roundDouble_mono_pos:
  assumes "0 < x" "x \<le> y"
  shows "roundDouble x \<le> roundDouble y"
proof -
  let ?p = "quantumExponent x" and ?q = "quantumExponent y"
  have y: "0 < y" using assms by linarith
  have x0: "x \<noteq> 0" and y0: "y \<noteq> 0" using assms y by simp_all
  have pq: "?p \<le> ?q" using assms y by (intro quantumExponent_mono) simp_all
  show ?thesis
  proof (cases "?p = ?q")
    case True
    then show ?thesis using x0 y0 roundToGrid_mono [OF assms(2), of ?q]
      by (simp add: roundDouble_def)
  next
    case False
    with pq have lt: "?p + 1 \<le> ?q" by simp
    have "x \<le> of_int (2 ^ 53) * 2 powi ?p"
      using quantumExponent_upper [OF x0] assms(1) by simp
    then have 1: "roundToGrid ?p x \<le> of_int (2 ^ 53) * 2 powi ?p" by (rule roundToGrid_le)
    have "- 1074 < ?q" using lt quantumExponent_ge [of x] by linarith
    then have "of_int (2 ^ 52) * 2 powi ?q \<le> y"
      using quantumExponent_lower [OF y0] y by simp
    then have 2: "of_int (2 ^ 52) * 2 powi ?q \<le> roundToGrid ?q y" by (rule roundToGrid_ge)
    have "(2::real) powi (?p + 53) \<le> 2 powi (?q + 52)"
      using lt by (intro power_int_increasing) simp_all
    then have 3: "(2::real) ^ 53 * 2 powi ?p \<le> 2 ^ 52 * 2 powi ?q"
      by (simp only: powi_53 powi_52)
    from 1 2 3 show ?thesis using x0 y0 by (simp add: roundDouble_def)
  qed
qed

lemma roundDouble_mono_neg:
  assumes "y < 0" "x \<le> y"
  shows "roundDouble x \<le> roundDouble y"
proof -
  let ?p = "quantumExponent x" and ?q = "quantumExponent y"
  have x: "x < 0" using assms by linarith
  have x0: "x \<noteq> 0" and y0: "y \<noteq> 0" using assms x by simp_all
  have pq: "?q \<le> ?p" using assms x by (intro quantumExponent_mono) simp_all
  show ?thesis
  proof (cases "?p = ?q")
    case True
    then show ?thesis using x0 y0 roundToGrid_mono [OF assms(2), of ?q]
      by (simp add: roundDouble_def)
  next
    case False
    with pq have lt: "?q + 1 \<le> ?p" by simp
    have "of_int (- (2 ^ 53)) * 2 powi ?q \<le> y"
      using quantumExponent_upper [OF y0] assms(1) by simp
    then have 1: "of_int (- (2 ^ 53)) * 2 powi ?q \<le> roundToGrid ?q y" by (rule roundToGrid_ge)
    have "- 1074 < ?p" using lt quantumExponent_ge [of y] by linarith
    then have "x \<le> of_int (- (2 ^ 52)) * 2 powi ?p"
      using quantumExponent_lower [OF x0] x by simp
    then have 2: "roundToGrid ?p x \<le> of_int (- (2 ^ 52)) * 2 powi ?p" by (rule roundToGrid_le)
    have "(2::real) powi (?q + 53) \<le> 2 powi (?p + 52)"
      using lt by (intro power_int_increasing) simp_all
    then have 3: "(2::real) ^ 53 * 2 powi ?q \<le> 2 ^ 52 * 2 powi ?p"
      by (simp only: powi_53 powi_52)
    from 1 2 3 show ?thesis using x0 y0 by (simp add: roundDouble_def)
  qed
qed

lemma roundDouble_mono:
  assumes "x \<le> y"
  shows "roundDouble x \<le> roundDouble y"
proof -
  consider "0 < x" | "y < 0" | "x \<le> 0" "0 \<le> y" by linarith
  then show ?thesis
  proof cases
    case 1
    then show ?thesis using assms by (rule roundDouble_mono_pos)
  next
    case 2
    then show ?thesis using assms by (rule roundDouble_mono_neg)
  next
    case 3
    then show ?thesis using roundDouble_nonpos [of x] roundDouble_nonneg [of y] by linarith
  qed
qed


lemma roundDouble_grid:
  assumes "\<bar>m\<bar> < 2 ^ 53" "- 1074 \<le> q"
  shows "roundDouble (of_int m * 2 powi q) = of_int m * 2 powi q"
proof (cases "m = 0")
  case True
  then show ?thesis by (simp add: roundDouble_def)
next
  case False
  let ?x = "of_int m * (2::real) powi q"
  let ?e = "quantumExponent ?x"
  have x0: "?x \<noteq> 0" using False by simp
  have ax: "\<bar>?x\<bar> = of_int \<bar>m\<bar> * 2 powi q" by (simp add: abs_mult)
  have "(of_int \<bar>m\<bar> :: real) < of_int (2 ^ 53)" using assms(1) by (simp only: of_int_less_iff)
  then have "of_int \<bar>m\<bar> * (2::real) powi q < 2 ^ 53 * 2 powi q"
    by (intro mult_strict_right_mono) simp_all
  then have up: "\<bar>?x\<bar> < 2 powi (q + 53)" by (simp only: ax powi_53)
  have "log2Floor \<bar>?x\<bar> < q + 53"
  proof (rule ccontr)
    assume "\<not> log2Floor \<bar>?x\<bar> < q + 53"
    then have "(2::real) powi (q + 53) \<le> 2 powi log2Floor \<bar>?x\<bar>"
      by (intro power_int_increasing) simp_all
    moreover have "0 < \<bar>?x\<bar>" using x0 by simp
    ultimately show False using log2Floor_bounds [of "\<bar>?x\<bar>"] up by linarith
  qed
  then have "?e \<le> q" using assms(2) by (simp add: quantumExponent_def)
  define e where "e = ?e"
  have eq: "e \<le> q" using \<open>?e \<le> q\<close> by (simp only: e_def)
  define d where "d = nat (q - e)"
  have q: "q = e + int d" using eq by (simp add: d_def)
  have "(2::real) powi (e + int d) = 2 powi e * 2 powi (int d)"
    by (rule power_int_add) simp
  then have p: "(2::real) powi q = 2 powi e * 2 ^ d" by (simp add: q)
  have "of_int m * 2 powi q / 2 powi e = (of_int (m * 2 ^ d) :: real)" by (simp add: p)
  then have "roundHalfEven (of_int m * 2 powi q / 2 powi e) = m * 2 ^ d"
    by (simp only: roundHalfEven_of_int)
  then have "roundToGrid e (of_int m * 2 powi q) = of_int (m * 2 ^ d) * 2 powi e"
    by (simp only: roundToGrid_def)
  also have "\<dots> = of_int m * 2 powi q" by (simp add: p)
  finally have "roundToGrid ?e ?x = ?x" by (simp only: e_def)
  then show ?thesis using x0 by (simp only: roundDouble_def if_False)
qed

lemma roundDouble_of_int:
  assumes "\<bar>n\<bar> \<le> 2 ^ 53"
  shows "roundDouble (of_int n) = of_int n"
proof -
  consider "\<bar>n\<bar> < 2 ^ 53" | "n = 2 ^ 53" | "n = - (2 ^ 53)" using assms by linarith
  then show ?thesis
  proof cases
    case 1
    then show ?thesis using roundDouble_grid [of n 0] by simp
  next
    case 2
    then show ?thesis using roundDouble_grid [of "2 ^ 52" 1] by simp
  next
    case 3
    then show ?thesis using roundDouble_grid [of "- (2 ^ 52)" 1] by simp
  qed
qed

lemma roundDouble_Ints:
  assumes "x \<in> \<int>" "\<bar>x\<bar> \<le> 2 ^ 53"
  shows "roundDouble x = x"
proof -
  from assms(1) obtain n where n: "x = of_int n" by (rule Ints_cases)
  have "(of_int \<bar>n\<bar> :: real) \<le> of_int (2 ^ 53)" using assms(2) n by simp
  then have "\<bar>n\<bar> \<le> 2 ^ 53" by (simp only: of_int_le_iff)
  then show ?thesis unfolding n by (rule roundDouble_of_int)
qed

lemma roundDouble_0: "roundDouble 0 = 0"
  by (simp add: roundDouble_def)

lemma roundDouble_1: "roundDouble 1 = 1"
  using roundDouble_of_int [of 1] by simp

lemma roundDouble_numeral:
  "(numeral k :: int) \<le> 9007199254740992 \<Longrightarrow> roundDouble (numeral k) = numeral k"
  using roundDouble_of_int [of "numeral k"] by simp

lemma roundDouble_neg_numeral:
  "(numeral k :: int) \<le> 9007199254740992 \<Longrightarrow> roundDouble (- numeral k) = - numeral k"
  using roundDouble_of_int [of "- numeral k"] by simp


section \<open>Properties of the intersection over union in double precision\<close>

lemma calculateIoUDouble_sym: "calculateIoUDouble a b = calculateIoUDouble b a"
proof -
  have "overlapLeft a b = overlapLeft b a" "overlapRightDouble a b = overlapRightDouble b a"
    "overlapTop a b = overlapTop b a" "overlapBottomDouble a b = overlapBottomDouble b a"
    by (simp_all add: overlapLeft_def overlapRightDouble_def overlapTop_def
        overlapBottomDouble_def max.commute min.commute)
  then show ?thesis
    by (simp add: calculateIoUDouble_def unionAreaDouble_def intersectionAreaDouble_def
        add.commute)
qed

lemma calculateIoUDouble_disjoint:
  assumes "doubleBox a" "doubleBox b" "doNotOverlap a b"
  shows "calculateIoUDouble a b = 0"
proof -
  have fx: "roundDouble (box_x a) = box_x a" "roundDouble (box_x b) = box_x b"
    "roundDouble (box_y a) = box_y a" "roundDouble (box_y b) = box_y b"
    using assms(1,2) by (simp_all add: doubleBox_def isDouble_def)
  have m: "\<And>u v. u \<le> v \<Longrightarrow> roundDouble v = v \<Longrightarrow> roundDouble u \<le> v"
    using roundDouble_mono by metis
  have "overlapRightDouble a b \<le> overlapLeft a b \<or> overlapBottomDouble a b \<le> overlapTop a b"
    using assms(3) fx
    unfolding doNotOverlap_def overlapLeft_def overlapRightDouble_def overlapTop_def
      overlapBottomDouble_def
    by (auto simp: min_le_iff_disj le_max_iff_disj dest: m)
  then show ?thesis by (auto simp: calculateIoUDouble_def)
qed

lemma isPixel_exact:
  assumes "isPixel v"
  shows "roundDouble v = v"
proof (rule roundDouble_Ints)
  show "v \<in> \<int>" using assms by (simp add: isPixel_def)
  have "\<bar>v\<bar> \<le> 2 ^ 26" using assms by (simp add: isPixel_def)
  then show "\<bar>v\<bar> \<le> 2 ^ 53" by simp
qed


lemma pixel_product:
  assumes "(u::real) \<in> \<int>" "(v::real) \<in> \<int>" "\<bar>u\<bar> \<le> 2 ^ 26" "\<bar>v\<bar> \<le> 2 ^ 26"
  shows "u * v \<in> \<int>" and "\<bar>u * v\<bar> \<le> 2 ^ 52"
proof -
  show "u * v \<in> \<int>" using assms(1,2) by (rule Ints_mult)
  have "\<bar>u\<bar> * \<bar>v\<bar> \<le> 2 ^ 26 * 2 ^ 26" using assms(3,4) by (rule mult_mono) simp_all
  then show "\<bar>u * v\<bar> \<le> 2 ^ 52" by (simp add: abs_mult)
qed

lemma calculateIoUDouble_pixel:
  assumes "pixelBox a" "pixelBox b"
  shows "calculateIoUDouble a b = roundDouble (calculateIoU a b)"
proof -
  have ai: "box_x a \<in> \<int>" "box_y a \<in> \<int>" "box_width a \<in> \<int>" "box_height a \<in> \<int>"
    and bi: "box_x b \<in> \<int>" "box_y b \<in> \<int>" "box_width b \<in> \<int>" "box_height b \<in> \<int>"
    and ab: "\<bar>box_x a\<bar> \<le> 2 ^ 26" "\<bar>box_y a\<bar> \<le> 2 ^ 26"
      "\<bar>box_width a\<bar> \<le> 2 ^ 26" "\<bar>box_height a\<bar> \<le> 2 ^ 26"
    and bb: "\<bar>box_x b\<bar> \<le> 2 ^ 26" "\<bar>box_y b\<bar> \<le> 2 ^ 26"
      "\<bar>box_width b\<bar> \<le> 2 ^ 26" "\<bar>box_height b\<bar> \<le> 2 ^ 26"
    using assms by (simp_all add: pixelBox_def isPixel_def)
  have sum: "roundDouble (u + v) = u + v"
    if "u \<in> \<int>" "v \<in> \<int>" "\<bar>u\<bar> \<le> 2 ^ 26" "\<bar>v\<bar> \<le> 2 ^ 26" for u v
  proof (rule roundDouble_Ints)
    show "u + v \<in> \<int>" using that(1,2) by (rule Ints_add)
    have "(2::real) ^ 26 + 2 ^ 26 \<le> 2 ^ 53" by simp
    then show "\<bar>u + v\<bar> \<le> 2 ^ 53" using that(3,4) by linarith
  qed
  have r: "overlapRightDouble a b = overlapRight a b"
    unfolding overlapRightDouble_def overlapRight_def
    by (simp only: sum [OF ai(1) ai(3) ab(1) ab(3)] sum [OF bi(1) bi(3) bb(1) bb(3)])
  have t: "overlapBottomDouble a b = overlapBottom a b"
    unfolding overlapBottomDouble_def overlapBottom_def
    by (simp only: sum [OF ai(2) ai(4) ab(2) ab(4)] sum [OF bi(2) bi(4) bb(2) bb(4)])
  show ?thesis
  proof (cases "overlapRight a b \<le> overlapLeft a b \<or> overlapBottom a b \<le> overlapTop a b")
    case True
    then show ?thesis by (auto simp: calculateIoUDouble_def calculateIoU_def r t roundDouble_0)
  next
    case False
    let ?dx = "overlapRight a b - overlapLeft a b"
    let ?dy = "overlapBottom a b - overlapTop a b"
    have pos: "0 < ?dx" "0 < ?dy" using False by simp_all
    have wa: "?dx \<le> box_width a" and ha: "?dy \<le> box_height a"
      by (simp_all add: overlapRight_def overlapLeft_def overlapBottom_def overlapTop_def
          min_def max_def)
    have dxi: "?dx \<in> \<int>" and dyi: "?dy \<in> \<int>"
      using ai bi
      by (auto simp: overlapRight_def overlapLeft_def overlapBottom_def overlapTop_def
          min_def max_def)
    have dxb: "\<bar>?dx\<bar> \<le> 2 ^ 26" using pos(1) wa ab(3) by linarith
    have dyb: "\<bar>?dy\<bar> \<le> 2 ^ 26" using pos(2) ha ab(4) by linarith
    have ex: "roundDouble ?dx = ?dx"
      using dxi dxb by (intro roundDouble_Ints) simp_all
    have ey: "roundDouble ?dy = ?dy"
      using dyi dyb by (intro roundDouble_Ints) simp_all
    have ii: "intersectionArea a b \<in> \<int>" and ib: "\<bar>intersectionArea a b\<bar> \<le> 2 ^ 52"
      unfolding intersectionArea_def using pixel_product [OF dxi dyi dxb dyb] by simp_all
    have i: "intersectionAreaDouble a b = intersectionArea a b"
    proof -
      have "roundDouble (intersectionArea a b) = intersectionArea a b"
        using ii ib by (intro roundDouble_Ints) simp_all
      then show ?thesis
        unfolding intersectionAreaDouble_def r t ex ey by (simp only: intersectionArea_def)
    qed
    have aai: "boxArea a \<in> \<int>" and aab: "\<bar>boxArea a\<bar> \<le> 2 ^ 52"
      unfolding boxArea_def using pixel_product [OF ai(3) ai(4) ab(3) ab(4)] by simp_all
    have bai: "boxArea b \<in> \<int>" and bab: "\<bar>boxArea b\<bar> \<le> 2 ^ 52"
      unfolding boxArea_def using pixel_product [OF bi(3) bi(4) bb(3) bb(4)] by simp_all
    have a1: "boxAreaDouble a = boxArea a"
      unfolding boxAreaDouble_def boxArea_def [symmetric]
      using aai aab by (intro roundDouble_Ints) simp_all
    have a2: "boxAreaDouble b = boxArea b"
      unfolding boxAreaDouble_def boxArea_def [symmetric]
      using bai bab by (intro roundDouble_Ints) simp_all
    have s: "roundDouble (boxArea a + boxArea b) = boxArea a + boxArea b"
    proof (rule roundDouble_Ints)
      show "boxArea a + boxArea b \<in> \<int>" using aai bai by (rule Ints_add)
      have "(2::real) ^ 52 + 2 ^ 52 = 2 ^ 53" by simp
      then show "\<bar>boxArea a + boxArea b\<bar> \<le> 2 ^ 53" using aab bab by linarith
    qed
    have lt: "overlapLeft a b < overlapRight a b" "overlapTop a b < overlapBottom a b"
      using False by simp_all
    have ip: "0 < intersectionArea a b"
      and ia: "intersectionArea a b \<le> boxArea a"
      and ibb: "intersectionArea a b \<le> boxArea b"
      using overlap_positive_extents [OF lt] by simp_all
    have u: "unionAreaDouble a b = unionArea a b"
    proof -
      have "roundDouble (unionArea a b) = unionArea a b"
      proof (rule roundDouble_Ints)
        show "unionArea a b \<in> \<int>"
          unfolding unionArea_def using aai bai ii by (intro Ints_diff Ints_add)
        have "(2::real) ^ 52 + 2 ^ 52 = 2 ^ 53" by simp
        then show "\<bar>unionArea a b\<bar> \<le> 2 ^ 53"
          unfolding unionArea_def using ip ia ibb aab bab by linarith
      qed
      then show ?thesis
        unfolding unionAreaDouble_def a1 a2 s i by (simp only: unionArea_def)
    qed
    show ?thesis
      using False by (simp add: calculateIoUDouble_def calculateIoU_def r t i u roundDouble_0)
  qed
qed

lemma calculateIoUDouble_pixel_range:
  assumes "pixelBox a" "pixelBox b"
  shows "0 \<le> calculateIoUDouble a b \<and> calculateIoUDouble a b \<le> 1"
proof -
  have "0 \<le> roundDouble (calculateIoU a b)"
    using calculateIoU_range [of a b] by (intro roundDouble_nonneg) simp
  moreover have "roundDouble (calculateIoU a b) \<le> roundDouble 1"
    using calculateIoU_range [of a b] by (intro roundDouble_mono) simp
  ultimately show ?thesis
    unfolding calculateIoUDouble_pixel [OF assms] by (simp add: roundDouble_1)
qed

lemma calculateIoUDouble_pixel_self:
  assumes "pixelBox a" "0 < box_width a" "0 < box_height a"
  shows "calculateIoUDouble a a = 1"
  unfolding calculateIoUDouble_pixel [OF assms(1) assms(1)]
  by (simp only: calculateIoU_self [OF assms(2,3)] roundDouble_1)

lemma roundDouble_power2: "roundDouble (2 ^ n) = 2 ^ n" "roundDouble (- (2 ^ n)) = - (2 ^ n)"
  using roundDouble_grid [of 1 "int n"] roundDouble_grid [of "- 1" "int n"] by simp_all

lemma roundDouble_abs_le:
  assumes "\<bar>x\<bar> \<le> 2 ^ n"
  shows "\<bar>roundDouble x\<bar> \<le> 2 ^ n"
proof -
  have "roundDouble x \<le> roundDouble (2 ^ n)" using assms by (intro roundDouble_mono) simp
  moreover have "roundDouble (- (2 ^ n)) \<le> roundDouble x"
    using assms by (intro roundDouble_mono) simp
  ultimately show ?thesis by (simp add: roundDouble_power2 abs_le_iff)
qed

lemma calculateIoUDouble_in_range:
  assumes "doubleBox a" and "doubleBox b"
  shows "\<bar>overlapRightDouble a b\<bar> \<le> 2 ^ 501 \<and> \<bar>overlapBottomDouble a b\<bar> \<le> 2 ^ 501
   \<and> \<bar>intersectionAreaDouble a b\<bar> \<le> 2 ^ 1004
   \<and> \<bar>boxAreaDouble a\<bar> \<le> 2 ^ 1000 \<and> \<bar>boxAreaDouble b\<bar> \<le> 2 ^ 1000
   \<and> \<bar>unionAreaDouble a b\<bar> \<le> 2 ^ 1005"
proof -
  have f: "\<bar>box_x a\<bar> \<le> 2 ^ 500" "\<bar>box_y a\<bar> \<le> 2 ^ 500" "\<bar>box_width a\<bar> \<le> 2 ^ 500"
    "\<bar>box_height a\<bar> \<le> 2 ^ 500" "\<bar>box_x b\<bar> \<le> 2 ^ 500" "\<bar>box_y b\<bar> \<le> 2 ^ 500"
    "\<bar>box_width b\<bar> \<le> 2 ^ 500" "\<bar>box_height b\<bar> \<le> 2 ^ 500"
    using assms by (simp_all add: doubleBox_def isDouble_def)
  have s: "\<bar>roundDouble (u + v)\<bar> \<le> 2 ^ Suc n" if "\<bar>u\<bar> \<le> 2 ^ n" "\<bar>v\<bar> \<le> 2 ^ n" for u v n
    using that by (intro roundDouble_abs_le) simp
  have d: "\<bar>roundDouble (u - v)\<bar> \<le> 2 ^ Suc n" if "\<bar>u\<bar> \<le> 2 ^ n" "\<bar>v\<bar> \<le> 2 ^ n" for u v n
    using that by (intro roundDouble_abs_le) simp
  have p: "\<bar>roundDouble (u * v)\<bar> \<le> 2 ^ (n + m)" if "\<bar>u\<bar> \<le> 2 ^ n" "\<bar>v\<bar> \<le> 2 ^ m" for u v n m
  proof (rule roundDouble_abs_le)
    have "\<bar>u\<bar> * \<bar>v\<bar> \<le> 2 ^ n * 2 ^ m" using that by (rule mult_mono) simp_all
    then show "\<bar>u * v\<bar> \<le> 2 ^ (n + m)" by (simp add: abs_mult power_add)
  qed
  have up: "\<bar>u\<bar> \<le> 2 ^ m" if "\<bar>u\<bar> \<le> 2 ^ n" "n \<le> m" for u :: real and n m
  proof -
    have "(2::real) ^ n \<le> 2 ^ m" using that(2) by (intro power_increasing) simp_all
    with that(1) show ?thesis by linarith
  qed
  have r: "\<bar>overlapRightDouble a b\<bar> \<le> 2 ^ 501"
    using s [OF f(1) f(3)] s [OF f(5) f(7)] by (simp add: overlapRightDouble_def min_def)
  have t: "\<bar>overlapBottomDouble a b\<bar> \<le> 2 ^ 501"
    using s [OF f(2) f(4)] s [OF f(6) f(8)] by (simp add: overlapBottomDouble_def min_def)
  have l: "\<bar>overlapLeft a b\<bar> \<le> 2 ^ 501" "\<bar>overlapTop a b\<bar> \<le> 2 ^ 501"
    using up [OF f(1), of 501] up [OF f(5), of 501] up [OF f(2), of 501] up [OF f(6), of 501]
    by (simp_all add: overlapLeft_def overlapTop_def max_def)
  have dx: "\<bar>roundDouble (overlapRightDouble a b - overlapLeft a b)\<bar> \<le> 2 ^ 502"
    using d [OF r l(1)] by simp
  have dy: "\<bar>roundDouble (overlapBottomDouble a b - overlapTop a b)\<bar> \<le> 2 ^ 502"
    using d [OF t l(2)] by simp
  have i: "\<bar>intersectionAreaDouble a b\<bar> \<le> 2 ^ 1004"
    unfolding intersectionAreaDouble_def using p [OF dx dy] by simp
  have a1: "\<bar>boxAreaDouble a\<bar> \<le> 2 ^ 1000"
    unfolding boxAreaDouble_def using p [OF f(3) f(4)] by simp
  have a2: "\<bar>boxAreaDouble b\<bar> \<le> 2 ^ 1000"
    unfolding boxAreaDouble_def using p [OF f(7) f(8)] by simp
  have sm: "\<bar>roundDouble (boxAreaDouble a + boxAreaDouble b)\<bar> \<le> 2 ^ 1004"
    using up [OF s [OF a1 a2], of 1004] by simp
  have u: "\<bar>unionAreaDouble a b\<bar> \<le> 2 ^ 1005"
    unfolding unionAreaDouble_def using d [OF sm i] by simp
  show ?thesis using r t i a1 a2 u by simp
qed

lemma roundDouble_smallI:
  assumes "k \<le> 1074" "2 ^ 52 / 2 ^ k \<le> \<bar>x\<bar>" "\<bar>x\<bar> < 2 ^ 53 / 2 ^ k"
    and "\<bar>x * 2 ^ k - of_int n\<bar> < 1 / 2"
  shows "roundDouble x = of_int n / 2 ^ k"
  unfolding roundDouble_small [OF assms(1-3)] roundHalfEven_near [OF assms(4)] ..

lemma roundDouble_small_tieI:
  assumes "k \<le> 1074" "2 ^ 52 / 2 ^ k \<le> \<bar>x\<bar>" "\<bar>x\<bar> < 2 ^ 53 / 2 ^ k"
    and "x * 2 ^ k = of_int m + 1 / 2"
  shows "roundDouble x = of_int (if even m then m else m + 1) / 2 ^ k"
  unfolding roundDouble_small [OF assms(1-3)] roundHalfEven_tie [OF assms(4)] ..

lemma roundDouble_largeI:
  assumes "2 ^ 52 * 2 ^ k \<le> \<bar>x\<bar>" "\<bar>x\<bar> < 2 ^ 53 * 2 ^ k"
    and "\<bar>x / 2 ^ k - of_int n\<bar> < 1 / 2"
  shows "roundDouble x = of_int n * 2 ^ k"
  unfolding roundDouble_large [OF assms(1-2)] roundHalfEven_near [OF assms(3)] ..

lemma roundDouble_step1:
  "roundDouble (1 / 10)
     = 3602879701896397 / 36028797018963968"
  using roundDouble_smallI [where x = "1 / 10" and k = 56
      and n = "7205759403792794"]
  by simp

lemma roundDouble_step2:
  "roundDouble (1 / 5)
     = 3602879701896397 / 18014398509481984"
  using roundDouble_smallI [where x = "1 / 5" and k = 55
      and n = "7205759403792794"]
  by simp

lemma roundDouble_step3:
  "roundDouble (10808639105689191 / 36028797018963968)
     = 1351079888211149 / 4503599627370496"
  using roundDouble_small_tieI [where x = "10808639105689191 / 36028797018963968" and k = 54
      and m = "5404319552844595"]
  by simp

lemma roundDouble_step4:
  "roundDouble (7205759403792795 / 36028797018963968)
     = 7205759403792795 / 36028797018963968"
  using roundDouble_smallI [where x = "7205759403792795 / 36028797018963968" and k = 55
      and n = "7205759403792795"]
  by simp

lemma roundDouble_step5:
  "roundDouble (51922968585348296461431293912025 / 1298074214633706907132624082305024)
     = 5764607523034237 / 144115188075855872"
  using roundDouble_smallI [where x = "51922968585348296461431293912025 / 1298074214633706907132624082305024" and k = 57
      and n = "5764607523034237"]
  by simp

lemma roundDouble_step6:
  "roundDouble (12980742146337070512478121581609 / 324518553658426726783156020576256)
     = 1441151880758559 / 36028797018963968"
  using roundDouble_smallI [where x = "12980742146337070512478121581609 / 324518553658426726783156020576256" and k = 57
      and n = "5764607523034236"]
  by simp

lemma roundDouble_step7:
  "roundDouble (1441151880758559 / 18014398509481984)
     = 1441151880758559 / 18014398509481984"
  using roundDouble_smallI [where x = "1441151880758559 / 18014398509481984" and k = 56
      and n = "5764607523034236"]
  by simp

lemma roundDouble_step8:
  "roundDouble (5764607523034235 / 144115188075855872)
     = 5764607523034235 / 144115188075855872"
  using roundDouble_smallI [where x = "5764607523034235 / 144115188075855872" and k = 57
      and n = "5764607523034235"]
  by simp

lemma roundDouble_step9:
  "roundDouble (5764607523034237 / 5764607523034235)
     = 2251799813685249 / 2251799813685248"
  using roundDouble_smallI [where x = "5764607523034237 / 5764607523034235" and k = 52
      and n = "4503599627370498"]
  by simp

lemma roundDouble_step10:
  "roundDouble (18014398509481987 / 2)
     = 9007199254740994"
  using roundDouble_largeI [where x = "18014398509481987 / 2" and k = 1
      and n = "4503599627370497"]
  by simp

lemma roundDouble_step13:
  "roundDouble (9 / 4)
     = 9 / 4"
  using roundDouble_smallI [where x = "9 / 4" and k = 51
      and n = "5066549580791808"]
  by simp

lemma roundDouble_step14:
  "roundDouble (9 / 2)
     = 9 / 2"
  using roundDouble_smallI [where x = "9 / 2" and k = 50
      and n = "5066549580791808"]
  by simp

lemma roundDouble_step15:
  "roundDouble (1 / 2)
     = 1 / 2"
  using roundDouble_smallI [where x = "1 / 2" and k = 53
      and n = "4503599627370496"]
  by simp

lemma roundDouble_step17:
  "roundDouble (36028797018963973 / 4)
     = 9007199254740994"
  using roundDouble_largeI [where x = "36028797018963973 / 4" and k = 1
      and n = "4503599627370497"]
  by simp

lemma roundDouble_step18:
  "roundDouble (15 / 8)
     = 15 / 8"
  using roundDouble_smallI [where x = "15 / 8" and k = 52
      and n = "8444249301319680"]
  by simp

lemma roundDouble_step19:
  "roundDouble (15 / 4)
     = 15 / 4"
  using roundDouble_smallI [where x = "15 / 4" and k = 51
      and n = "8444249301319680"]
  by simp

lemma roundDouble_step20:
  "roundDouble (- (1 / 4))
     = - (1 / 4)"
  using roundDouble_smallI [where x = "- (1 / 4)" and k = 54
      and n = "- 4503599627370496"]
  by simp


lemma calculateIoUDouble_tenths:
  "calculateIoUDouble
     \<lparr>box_x = roundDouble (1 / 10), box_y = roundDouble (1 / 10),
      box_width = roundDouble (2 / 10), box_height = roundDouble (2 / 10)\<rparr>
     \<lparr>box_x = roundDouble (1 / 10), box_y = roundDouble (1 / 10),
      box_width = roundDouble (2 / 10), box_height = roundDouble (2 / 10)\<rparr> = 1 + 1 / 2 ^ 51"
  by (simp add: calculateIoUDouble_def unionAreaDouble_def intersectionAreaDouble_def
      boxAreaDouble_def overlapRightDouble_def overlapBottomDouble_def overlapLeft_def
      overlapTop_def roundDouble_step1 roundDouble_step2 roundDouble_step3 roundDouble_step4 roundDouble_step5 roundDouble_step6 roundDouble_step7 roundDouble_step8
      roundDouble_step9)

lemma calculateIoUDouble_eight:
  "calculateIoUDouble
     \<lparr>box_x = 2 ^ 53, box_y = 2 ^ 53, box_width = 3 / 2, box_height = 3 / 2\<rparr>
     \<lparr>box_x = 2 ^ 53, box_y = 2 ^ 53, box_width = 3 / 2, box_height = 3 / 2\<rparr> = 8"
  by (simp add: calculateIoUDouble_def unionAreaDouble_def intersectionAreaDouble_def
      boxAreaDouble_def overlapRightDouble_def overlapBottomDouble_def overlapLeft_def
      overlapTop_def roundDouble_numeral roundDouble_step10 roundDouble_step13 roundDouble_step14 roundDouble_step15)

lemma calculateIoUDouble_negative:
  "calculateIoUDouble
     \<lparr>box_x = 2 ^ 53, box_y = 2 ^ 53, box_width = 3 / 2, box_height = 5 / 4\<rparr>
     \<lparr>box_x = 2 ^ 53, box_y = 2 ^ 53, box_width = 3 / 2, box_height = 5 / 4\<rparr> = - 16"
  by (simp add: calculateIoUDouble_def unionAreaDouble_def intersectionAreaDouble_def
      boxAreaDouble_def overlapRightDouble_def overlapBottomDouble_def overlapLeft_def
      overlapTop_def roundDouble_numeral roundDouble_neg_numeral roundDouble_step10 roundDouble_step17 roundDouble_step18 roundDouble_step19 roundDouble_step20)

lemma roundDouble_seventh:
  "roundDouble (1 / 7)
     = 2573485501354569 / 18014398509481984"
  using roundDouble_smallI [where x = "1 / 7" and k = 55
      and n = "5146971002709138"]
  by simp

lemma pixelBox_doubleBox: "pixelBox a \<Longrightarrow> doubleBox a"
proof -
  assume p: "pixelBox a"
  have "isDouble v" if "isPixel v" for v
  proof -
    have "\<bar>v\<bar> \<le> 2 ^ 26" using that by (simp add: isPixel_def)
    moreover have "(2::real) ^ 26 \<le> 2 ^ 500" by simp
    ultimately have "\<bar>v\<bar> \<le> 2 ^ 500" by linarith
    then show ?thesis using isPixel_exact [OF that] by (simp add: isDouble_def)
  qed
  then show ?thesis using p by (simp add: pixelBox_def doubleBox_def)
qed


text \<open>
  C6, as stated, fails on the value the code returns.  For the rectangle
  (0.1, 0.1, 0.2, 0.2), each number the double nearest to it, against itself
  \<^verbatim>\<open>calculateIoU\<close> returns \<open>1 + 2 ^ (- 51)\<close> (1.0000000000000004): the right edge
  0.1 + 0.2 rounds to 0.30000000000000004, so the overlap is computed wider than the
  rectangle, and the result is neither 1 nor within [0, 1].  The excess is not bounded:
  at the origin \<open>2 ^ 53\<close> the rectangle of width and height 1.5 against itself gives
  8, and the one of width 1.5 and height 1.25 gives \<open>- 16\<close>.
\<close>

theorem calculateIoU_rounding_counterexample:
  "calculateIoUDouble
     \<lparr>box_x = roundDouble (1 / 10), box_y = roundDouble (1 / 10),
      box_width = roundDouble (2 / 10), box_height = roundDouble (2 / 10)\<rparr>
     \<lparr>box_x = roundDouble (1 / 10), box_y = roundDouble (1 / 10),
      box_width = roundDouble (2 / 10), box_height = roundDouble (2 / 10)\<rparr> = 1 + 1 / 2 ^ 51
   \<and> calculateIoUDouble
     \<lparr>box_x = 2 ^ 53, box_y = 2 ^ 53, box_width = 3 / 2, box_height = 3 / 2\<rparr>
     \<lparr>box_x = 2 ^ 53, box_y = 2 ^ 53, box_width = 3 / 2, box_height = 3 / 2\<rparr> = 8
   \<and> calculateIoUDouble
     \<lparr>box_x = 2 ^ 53, box_y = 2 ^ 53, box_width = 3 / 2, box_height = 5 / 4\<rparr>
     \<lparr>box_x = 2 ^ 53, box_y = 2 ^ 53, box_width = 3 / 2, box_height = 5 / 4\<rparr> = - 16"
  using calculateIoUDouble_tenths calculateIoUDouble_eight calculateIoUDouble_negative by simp


text \<open>
  C6, amended.  For all rectangles whose fields are doubles of magnitude at most
  \<open>2 ^ 500\<close>, the value \<^verbatim>\<open>calculateIoU\<close> returns in double precision does not depend
  on the order of its arguments, is 0 when the rectangles do not overlap (one ends at or
  before the other begins, horizontally or vertically), and is 0 when the computed union
  area is 0.  When the fields of both rectangles are integers of magnitude at most
  \<open>2 ^ 26\<close>, every operation before the division is exact: the result is the double
  nearest to the exact intersection over union, it lies in [0, 1], and it is 1 for a
  rectangle of positive width and height against itself.
\<close>

theorem calculateIoU_double_precision:
  assumes "doubleBox a" and "doubleBox b"
  shows "calculateIoUDouble a b = calculateIoUDouble b a
   \<and> (doNotOverlap a b \<longrightarrow> calculateIoUDouble a b = 0)
   \<and> (unionAreaDouble a b = 0 \<longrightarrow> calculateIoUDouble a b = 0)
   \<and> (pixelBox a \<and> pixelBox b \<longrightarrow>
        calculateIoUDouble a b = roundDouble (calculateIoU a b)
        \<and> 0 \<le> calculateIoUDouble a b \<and> calculateIoUDouble a b \<le> 1)
   \<and> (pixelBox a \<and> 0 < box_width a \<and> 0 < box_height a \<longrightarrow> calculateIoUDouble a a = 1)"
proof -
  have "unionAreaDouble a b = 0 \<longrightarrow> calculateIoUDouble a b = 0"
    by (simp add: calculateIoUDouble_def)
  then show ?thesis
    using calculateIoUDouble_sym [of a b] calculateIoUDouble_disjoint [OF assms]
      calculateIoUDouble_pixel [of a b] calculateIoUDouble_pixel_range [of a b]
      calculateIoUDouble_pixel_self [of a]
    by blast
qed

theorem calculateIoU_double_precision_witness:
  "doubleBox \<lparr>box_x = 0, box_y = 0, box_width = 50, box_height = 50\<rparr>
   \<and> doubleBox \<lparr>box_x = 500, box_y = 500, box_width = 50, box_height = 50\<rparr>
   \<and> doNotOverlap \<lparr>box_x = 0, box_y = 0, box_width = 50, box_height = 50\<rparr>
        \<lparr>box_x = 500, box_y = 500, box_width = 50, box_height = 50\<rparr>
   \<and> calculateIoUDouble \<lparr>box_x = 0, box_y = 0, box_width = 50, box_height = 50\<rparr>
        \<lparr>box_x = 500, box_y = 500, box_width = 50, box_height = 50\<rparr> = 0
   \<and> doubleBox \<lparr>box_x = 3, box_y = 4, box_width = 0, box_height = 0\<rparr>
   \<and> unionAreaDouble \<lparr>box_x = 3, box_y = 4, box_width = 0, box_height = 0\<rparr>
        \<lparr>box_x = 3, box_y = 4, box_width = 0, box_height = 0\<rparr> = 0
   \<and> calculateIoUDouble \<lparr>box_x = 3, box_y = 4, box_width = 0, box_height = 0\<rparr>
        \<lparr>box_x = 3, box_y = 4, box_width = 0, box_height = 0\<rparr> = 0
   \<and> pixelBox \<lparr>box_x = 0, box_y = 0, box_width = 2, box_height = 2\<rparr>
   \<and> pixelBox \<lparr>box_x = 1, box_y = 1, box_width = 2, box_height = 2\<rparr>
   \<and> calculateIoU \<lparr>box_x = 0, box_y = 0, box_width = 2, box_height = 2\<rparr>
        \<lparr>box_x = 1, box_y = 1, box_width = 2, box_height = 2\<rparr> = 1 / 7
   \<and> calculateIoUDouble \<lparr>box_x = 0, box_y = 0, box_width = 2, box_height = 2\<rparr>
        \<lparr>box_x = 1, box_y = 1, box_width = 2, box_height = 2\<rparr>
      = 2573485501354569 / 18014398509481984
   \<and> calculateIoUDouble \<lparr>box_x = 1, box_y = 1, box_width = 2, box_height = 2\<rparr>
        \<lparr>box_x = 0, box_y = 0, box_width = 2, box_height = 2\<rparr>
      = 2573485501354569 / 18014398509481984
   \<and> calculateIoUDouble \<lparr>box_x = 0, box_y = 0, box_width = 2, box_height = 2\<rparr>
        \<lparr>box_x = 0, box_y = 0, box_width = 2, box_height = 2\<rparr> = 1"
  using
    calculateIoU_double_precision [of "\<lparr>box_x = 0, box_y = 0, box_width = 50, box_height = 50\<rparr>"
      "\<lparr>box_x = 500, box_y = 500, box_width = 50, box_height = 50\<rparr>"]
    calculateIoU_double_precision [of "\<lparr>box_x = 3, box_y = 4, box_width = 0, box_height = 0\<rparr>"
      "\<lparr>box_x = 3, box_y = 4, box_width = 0, box_height = 0\<rparr>"]
    calculateIoU_double_precision [of "\<lparr>box_x = 0, box_y = 0, box_width = 2, box_height = 2\<rparr>"
      "\<lparr>box_x = 1, box_y = 1, box_width = 2, box_height = 2\<rparr>"]
    calculateIoU_double_precision [of "\<lparr>box_x = 0, box_y = 0, box_width = 2, box_height = 2\<rparr>"
      "\<lparr>box_x = 0, box_y = 0, box_width = 2, box_height = 2\<rparr>"]
  by (simp add: doubleBox_def isDouble_def pixelBox_def isPixel_def roundDouble_numeral
      roundDouble_0 roundDouble_1 doNotOverlap_def calculateIoU_def unionArea_def
      intersectionArea_def boxArea_def overlapLeft_def overlapRight_def overlapTop_def
      overlapBottom_def unionAreaDouble_def intersectionAreaDouble_def boxAreaDouble_def
      overlapRightDouble_def overlapBottomDouble_def roundDouble_seventh)

section \<open>Properties of the cross-source merge\<close>

lemma scanInv_step:
  assumes "scanInv a bs M thr m best"
  shows "scanInv a bs M thr (Suc m) (bestMatchStep a bs M thr m best)"
proof (cases best)
  case None
  with assms show ?thesis
    by (auto simp: scanInv_def bestMatchStep_def Let_def less_Suc_eq)
next
  case (Some p)
  obtain i v where p: "p = (i, v)" by (cases p)
  from assms Some p show ?thesis
    by (auto simp: scanInv_def bestMatchStep_def Let_def less_Suc_eq)
qed

lemma scanInv_fold:
  "scanInv a bs M thr m (fold (bestMatchStep a bs M thr) [0..<m] None)"
proof (induction m)
  case 0
  show ?case by (simp add: scanInv_def)
next
  case (Suc m)
  then show ?case using scanInv_step [of a bs M thr m] by simp
qed

lemma findBestMatch_Some:
  assumes "findBestMatch a bs M thr = Some (i, v)"
  shows "i < length bs" "i \<notin> M" "v = calculateIoU (boxOf a) (boxOf (bs ! i))" "thr \<le> v"
    "\<And>j. j < length bs \<Longrightarrow> j \<notin> M \<Longrightarrow> calculateIoU (boxOf a) (boxOf (bs ! j)) \<le> v"
    "\<And>j. j < i \<Longrightarrow> j \<notin> M \<Longrightarrow> calculateIoU (boxOf a) (boxOf (bs ! j)) < v"
  using scanInv_fold [of a bs M thr "length bs"] assms
  by (auto simp: findBestMatch_def scanInv_def)

lemma findBestMatch_None:
  assumes "findBestMatch a bs M thr = None" "j < length bs" "j \<notin> M"
  shows "calculateIoU (boxOf a) (boxOf (bs ! j)) < thr"
  using scanInv_fold [of a bs M thr "length bs"] assms
  by (auto simp: findBestMatch_def scanInv_def)

lemma mergeStep_merged:
  "loop_mergedElements (mergeStep bs thr a st) =
     loop_mergedElements st @ [stepElement bs thr a (loop_craftMatched st)]"
  by (auto simp: mergeStep_def stepElement_def split: option.splits)

lemma mergeStep_matched:
  "loop_craftMatched (mergeStep bs thr a st) =
     (case findBestMatch a bs (loop_craftMatched st) thr of
        Some (i, v) \<Rightarrow> insert i (loop_craftMatched st) | None \<Rightarrow> loop_craftMatched st)"
  by (auto simp: mergeStep_def split: option.splits)

lemma mergeStep_count:
  "loop_overlapCount (mergeStep bs thr a st) =
     (case findBestMatch a bs (loop_craftMatched st) thr of
        Some (i, v) \<Rightarrow> loop_overlapCount st + 1 | None \<Rightarrow> loop_overlapCount st)"
  by (auto simp: mergeStep_def split: option.splits)

lemma mergeStep_mono: "loop_craftMatched st \<subseteq> loop_craftMatched (mergeStep bs thr a st)"
  by (auto simp: mergeStep_matched split: option.splits)

lemma fold_mergeStep_mono:
  "loop_craftMatched st \<subseteq> loop_craftMatched (fold (mergeStep bs thr) xs st)"
proof (induction xs arbitrary: st)
  case Nil
  show ?case by simp
next
  case (Cons a xs)
  have "loop_craftMatched st \<subseteq> loop_craftMatched (mergeStep bs thr a st)"
    by (rule mergeStep_mono)
  also have "\<dots> \<subseteq> loop_craftMatched (fold (mergeStep bs thr) xs (mergeStep bs thr a st))"
    by (rule Cons.IH)
  finally show ?case by simp
qed

lemma fold_mergeStep_extends:
  "\<exists>ext. loop_mergedElements (fold (mergeStep bs thr) xs st) = loop_mergedElements st @ ext
     \<and> length ext = length xs"
proof (induction xs arbitrary: st)
  case Nil
  show ?case by simp
next
  case (Cons a xs)
  obtain ext where "loop_mergedElements (fold (mergeStep bs thr) xs (mergeStep bs thr a st))
      = loop_mergedElements (mergeStep bs thr a st) @ ext" "length ext = length xs"
    using Cons.IH by blast
  then show ?case by (simp add: mergeStep_merged)
qed

lemma mergeLoop_snoc:
  "mergeLoop (xs @ [a]) bs thr = mergeStep bs thr a (mergeLoop xs bs thr)"
  by (simp add: mergeLoop_def)

lemma mergeLoop_take_Suc:
  assumes "k < length as"
  shows "mergeLoop (take (Suc k) as) bs thr = mergeStep bs thr (as ! k) (mergeLoop (take k as) bs thr)"
  using assms by (simp add: take_Suc_conv_app_nth mergeLoop_snoc)

lemma mergeLoop_split:
  "mergeLoop as bs thr = fold (mergeStep bs thr) (drop k as) (mergeLoop (take k as) bs thr)"
proof -
  have "fold (mergeStep bs thr) (take k as @ drop k as) s
      = fold (mergeStep bs thr) (drop k as) (fold (mergeStep bs thr) (take k as) s)" for s
    by (simp only: fold_append comp_apply)
  then show ?thesis by (simp add: mergeLoop_def)
qed

lemma mergeLoop_length: "length (loop_mergedElements (mergeLoop as bs thr)) = length as"
  using fold_mergeStep_extends [of bs thr as
    "\<lparr>loop_mergedElements = [], loop_craftMatched = {}, loop_overlapCount = 0\<rparr>"]
  by (auto simp: mergeLoop_def)

lemma mergeLoop_nth:
  assumes "k < length as"
  shows "loop_mergedElements (mergeLoop as bs thr) ! k
     = stepElement bs thr (as ! k) (craftMatchedBefore as bs thr k)"
proof -
  let ?pre = "mergeLoop (take (Suc k) as) bs thr"
  obtain ext where e: "loop_mergedElements (mergeLoop as bs thr) = loop_mergedElements ?pre @ ext"
    using fold_mergeStep_extends [of bs thr "drop (Suc k) as" ?pre]
      mergeLoop_split [of as bs thr "Suc k"] by auto
  have p: "loop_mergedElements ?pre = loop_mergedElements (mergeLoop (take k as) bs thr)
      @ [stepElement bs thr (as ! k) (craftMatchedBefore as bs thr k)]"
    using assms by (simp add: mergeLoop_take_Suc mergeStep_merged craftMatchedBefore_def)
  have l: "length (loop_mergedElements (mergeLoop (take k as) bs thr)) = k"
    using assms by (simp add: mergeLoop_length)
  show ?thesis using e p l by (simp add: nth_append)
qed

lemma craftMatchedBefore_mono:
  assumes "k \<le> k'"
  shows "craftMatchedBefore as bs thr k \<subseteq> craftMatchedBefore as bs thr k'"
proof -
  have "take k (take k' as) = take k as" using assms by (simp add: min_def)
  then have "mergeLoop (take k' as) bs thr
      = fold (mergeStep bs thr) (drop k (take k' as)) (mergeLoop (take k as) bs thr)"
    using mergeLoop_split [of "take k' as" bs thr k] by simp
  then show ?thesis
    unfolding craftMatchedBefore_def
    using fold_mergeStep_mono [of "mergeLoop (take k as) bs thr" bs thr "drop k (take k' as)"]
    by simp
qed

lemma craftMatchedBefore_Suc:
  assumes "k < length as" "findBestMatch (as ! k) bs (craftMatchedBefore as bs thr k) thr = Some (i, v)"
  shows "i \<in> craftMatchedBefore as bs thr (Suc k)"
  using assms by (simp add: craftMatchedBefore_def mergeLoop_take_Suc mergeStep_matched)

lemma mergeDetections_nth:
  assumes "k < length as"
  shows "mergedElements (mergeDetections as bs thr) ! k
     = stepElement bs thr (as ! k) (craftMatchedBefore as bs thr k)"
  using assms by (simp add: mergeDetections_def Let_def nth_append mergeLoop_length mergeLoop_nth)

text \<open>
  C2.  When the scan for the \<open>k\<close>-th element of the first list returns index \<open>i\<close> of the
  second list, then \<open>i\<close> is an index not consumed before, its IoU reaches the threshold
  and is the highest among the indices not consumed before; the \<open>k\<close>-th output element
  has the arithmetic mean of the two rectangles as geometry, the text and style of the
  first element, and the larger of the two confidence scores; and \<open>i\<close> is consumed: it
  is in the matched set from then on and no later element is matched with it.
\<close>

theorem merge_fusion_rule:
  assumes "k < length as"
    and "findBestMatch (as ! k) bs (craftMatchedBefore as bs thr k) thr = Some (i, v)"
  shows "i < length bs \<and> i \<notin> craftMatchedBefore as bs thr k
    \<and> v = calculateIoU (boxOf (as ! k)) (boxOf (bs ! i)) \<and> thr \<le> v
    \<and> (\<forall>j<length bs. j \<notin> craftMatchedBefore as bs thr k
          \<longrightarrow> calculateIoU (boxOf (as ! k)) (boxOf (bs ! j)) \<le> v)
    \<and> mergedElements (mergeDetections as bs thr) ! k = mergedElement (as ! k) (bs ! i)
    \<and> position_x (mergedElements (mergeDetections as bs thr) ! k)
        = (position_x (as ! k) + position_x (bs ! i)) / 2
    \<and> position_y (mergedElements (mergeDetections as bs thr) ! k)
        = (position_y (as ! k) + position_y (bs ! i)) / 2
    \<and> width (mergedElements (mergeDetections as bs thr) ! k)
        = (width (as ! k) + width (bs ! i)) / 2
    \<and> height (mergedElements (mergeDetections as bs thr) ! k)
        = (height (as ! k) + height (bs ! i)) / 2
    \<and> content (mergedElements (mergeDetections as bs thr) ! k) = content (as ! k)
    \<and> font_family (mergedElements (mergeDetections as bs thr) ! k) = font_family (as ! k)
    \<and> font_size (mergedElements (mergeDetections as bs thr) ! k) = font_size (as ! k)
    \<and> font_color (mergedElements (mergeDetections as bs thr) ! k) = font_color (as ! k)
    \<and> is_bold (mergedElements (mergeDetections as bs thr) ! k) = is_bold (as ! k)
    \<and> is_italic (mergedElements (mergeDetections as bs thr) ! k) = is_italic (as ! k)
    \<and> is_underline (mergedElements (mergeDetections as bs thr) ! k) = is_underline (as ! k)
    \<and> align (mergedElements (mergeDetections as bs thr) ! k) = align (as ! k)
    \<and> vertical_align (mergedElements (mergeDetections as bs thr) ! k) = vertical_align (as ! k)
    \<and> confidence_score (mergedElements (mergeDetections as bs thr) ! k)
        = Some (max (scoreOrZero (as ! k)) (scoreOrZero (bs ! i)))
    \<and> (\<forall>ca cb. confidence_score (as ! k) = Some ca \<and> confidence_score (bs ! i) = Some cb
          \<longrightarrow> confidence_score (mergedElements (mergeDetections as bs thr) ! k) = Some (max ca cb))
    \<and> (\<forall>k'. k < k' \<and> k' \<le> length as \<longrightarrow> i \<in> craftMatchedBefore as bs thr k')
    \<and> (\<forall>k' v'. k < k' \<and> k' < length as \<longrightarrow>
          findBestMatch (as ! k') bs (craftMatchedBefore as bs thr k') thr \<noteq> Some (i, v'))"
proof -
  note fb = findBestMatch_Some [OF assms(2)]
  have el: "mergedElements (mergeDetections as bs thr) ! k = mergedElement (as ! k) (bs ! i)"
    using assms by (simp add: mergeDetections_nth stepElement_def)
  have later: "i \<in> craftMatchedBefore as bs thr k'" if "k < k'" for k'
    using craftMatchedBefore_Suc [OF assms] craftMatchedBefore_mono [of "Suc k" k' as bs thr] that
    by auto
  have never: "findBestMatch (as ! k') bs (craftMatchedBefore as bs thr k') thr \<noteq> Some (i, v')"
    if "k < k'" for k' v'
  proof
    assume "findBestMatch (as ! k') bs (craftMatchedBefore as bs thr k') thr = Some (i, v')"
    then have "i \<notin> craftMatchedBefore as bs thr k'" by (rule findBestMatch_Some(2))
    with later [OF that] show False by simp
  qed
  have geo: "position_x (mergedElement (as ! k) (bs ! i)) = (position_x (as ! k) + position_x (bs ! i)) / 2"
    "position_y (mergedElement (as ! k) (bs ! i)) = (position_y (as ! k) + position_y (bs ! i)) / 2"
    "width (mergedElement (as ! k) (bs ! i)) = (width (as ! k) + width (bs ! i)) / 2"
    "height (mergedElement (as ! k) (bs ! i)) = (height (as ! k) + height (bs ! i)) / 2"
    by (simp_all add: mergedElement_def)
  have sty: "content (mergedElement (as ! k) (bs ! i)) = content (as ! k)"
    "font_family (mergedElement (as ! k) (bs ! i)) = font_family (as ! k)"
    "font_size (mergedElement (as ! k) (bs ! i)) = font_size (as ! k)"
    "font_color (mergedElement (as ! k) (bs ! i)) = font_color (as ! k)"
    "is_bold (mergedElement (as ! k) (bs ! i)) = is_bold (as ! k)"
    "is_italic (mergedElement (as ! k) (bs ! i)) = is_italic (as ! k)"
    "is_underline (mergedElement (as ! k) (bs ! i)) = is_underline (as ! k)"
    "align (mergedElement (as ! k) (bs ! i)) = align (as ! k)"
    "vertical_align (mergedElement (as ! k) (bs ! i)) = vertical_align (as ! k)"
    by (simp_all add: mergedElement_def)
  have conf: "confidence_score (mergedElement (as ! k) (bs ! i))
      = Some (max (scoreOrZero (as ! k)) (scoreOrZero (bs ! i)))"
    by (simp add: mergedElement_def)
  have conf2: "confidence_score (mergedElement (as ! k) (bs ! i)) = Some (max ca cb)"
    if "confidence_score (as ! k) = Some ca" "confidence_score (bs ! i) = Some cb" for ca cb
    using that by (simp add: mergedElement_def scoreOrZero_def)
  show ?thesis
    using fb(1) fb(2) fb(3) fb(4) fb(5) later never conf2
    unfolding el geo sty conf by blast
qed

theorem merge_fusion_rule_witness:
  "(0::nat) < length [textElement ''Hello'' 100 100 200 40 (Some 90),
                      textElement ''Hello again'' 102 100 200 40 (Some 70)]
   \<and> findBestMatch (textElement ''Hello'' 100 100 200 40 (Some 90))
        [textElement [] 105 102 190 38 (Some 0.95)] {} (1 / 2) = Some (0, 361 / 400)
   \<and> mergedElements (mergeDetections
        [textElement ''Hello'' 100 100 200 40 (Some 90),
         textElement ''Hello again'' 102 100 200 40 (Some 70)]
        [textElement [] 105 102 190 38 (Some 0.95)] (1 / 2)) ! 0
      = textElement ''Hello'' 102.5 101 195 39 (Some 90)
   \<and> 0 \<in> craftMatchedBefore
        [textElement ''Hello'' 100 100 200 40 (Some 90),
         textElement ''Hello again'' 102 100 200 40 (Some 70)]
        [textElement [] 105 102 190 38 (Some 0.95)] (1 / 2) 1
   \<and> findBestMatch (textElement ''Hello again'' 102 100 200 40 (Some 70))
        [textElement [] 105 102 190 38 (Some 0.95)] {0} (1 / 2) = None"
  using merge_fusion_rule [of 0
      "[textElement ''Hello'' 100 100 200 40 (Some 90),
        textElement ''Hello again'' 102 100 200 40 (Some 70)]"
      "[textElement [] 105 102 190 38 (Some 0.95)]" "1 / 2" 0 "361 / 400"]
  by (simp add: craftMatchedBefore_def mergeDetections_def mergeLoop_def mergeStep_def
      findBestMatch_def bestMatchStep_def mergedElement_def scoreOrZero_def boxOf_def
      textElement_def craftOnlyElements_def calculateIoU_def unionArea_def
      intersectionArea_def boxArea_def overlapLeft_def overlapRight_def overlapTop_def
      overlapBottom_def Let_def)

lemma upt_2: "[0..<2] = [0, 1]" by (simp add: upt_rec)

lemma mergeInv_step:
  assumes "mergeInv bs st n"
  shows "mergeInv bs (mergeStep bs thr a st) (Suc n)"
proof (cases "findBestMatch a bs (loop_craftMatched st) thr")
  case None
  with assms show ?thesis by (simp add: mergeInv_def mergeStep_def)
next
  case (Some p)
  obtain i v where p: "p = (i, v)" by (cases p)
  have "i < length bs" "i \<notin> loop_craftMatched st"
    using findBestMatch_Some(1,2) Some p by blast+
  with assms Some p show ?thesis by (simp add: mergeInv_def mergeStep_def)
qed

lemma mergeInv_fold:
  "mergeInv bs st n \<Longrightarrow> mergeInv bs (fold (mergeStep bs thr) xs st) (n + length xs)"
proof (induction xs arbitrary: st n)
  case Nil
  then show ?case by simp
next
  case (Cons a xs)
  from Cons.IH [OF mergeInv_step [OF Cons.prems]] show ?case by simp
qed

lemma mergeInv_mergeLoop: "mergeInv bs (mergeLoop as bs thr) (length as)"
  using mergeInv_fold [of bs
    "\<lparr>loop_mergedElements = [], loop_craftMatched = {}, loop_overlapCount = 0\<rparr>" 0 thr as]
  by (simp add: mergeLoop_def mergeInv_def)

lemma length_craftOnlyElements:
  assumes "finite M" "M \<subseteq> {..<length bs}"
  shows "length (craftOnlyElements bs M) = length bs - card M"
proof -
  have "{i. i < length bs \<and> i \<notin> M} = {..<length bs} - M" by auto
  then have "length (filter (\<lambda>i. i \<notin> M) [0..<length bs]) = card ({..<length bs} - M)"
    by (simp add: length_filter_conv_card cong: conj_cong)
  also have "\<dots> = length bs - card M"
    using assms by (simp add: card_Diff_subset)
  finally show ?thesis by (simp add: craftOnlyElements_def)
qed

lemma craftOnlyElements_mem:
  assumes "j < length bs" "j \<notin> M"
  shows "bs ! j \<in> set (craftOnlyElements bs M)"
  using assms by (auto simp: craftOnlyElements_def)

text \<open>
  C3.  Merge conservation: the output has as many elements as the first-only, second-only
  and matched counts together, with first-only = |A| - matched and second-only =
  |B| - matched; matched is at most min(|A|, |B|); and every element of the second list
  that was not matched is in the output.  This holds for every threshold.
\<close>

theorem merge_conservation:
  "int (length (mergedElements (mergeDetections as bs thr)))
      = claudeOnlyCount (mergeDetections as bs thr) + craftOnlyCount (mergeDetections as bs thr)
        + int (overlapCount (mergeDetections as bs thr))
   \<and> mergedCount (mergeDetections as bs thr) = length (mergedElements (mergeDetections as bs thr))
   \<and> claudeOnlyCount (mergeDetections as bs thr)
        = int (length as) - int (overlapCount (mergeDetections as bs thr))
   \<and> craftOnlyCount (mergeDetections as bs thr)
        = int (length bs) - int (overlapCount (mergeDetections as bs thr))
   \<and> overlapCount (mergeDetections as bs thr) = card (craftMatchedFinal as bs thr)
   \<and> overlapCount (mergeDetections as bs thr) \<le> min (length as) (length bs)
   \<and> (\<forall>j<length bs. j \<notin> craftMatchedFinal as bs thr
         \<longrightarrow> bs ! j \<in> set (mergedElements (mergeDetections as bs thr)))"
proof -
  let ?st = "mergeLoop as bs thr"
  have inv: "finite (loop_craftMatched ?st)" "loop_craftMatched ?st \<subseteq> {..<length bs}"
    "card (loop_craftMatched ?st) = loop_overlapCount ?st" "loop_overlapCount ?st \<le> length as"
    using mergeInv_mergeLoop [of bs as thr] by (simp_all add: mergeInv_def)
  have cb: "loop_overlapCount ?st \<le> length bs"
    using inv(1,2,3) card_mono [of "{..<length bs}" "loop_craftMatched ?st"] by simp
  have len: "length (mergedElements (mergeDetections as bs thr))
      = length as + (length bs - loop_overlapCount ?st)"
    using inv by (simp add: mergeDetections_def Let_def mergeLoop_length length_craftOnlyElements)
  have mem: "bs ! j \<in> set (mergedElements (mergeDetections as bs thr))"
    if "j < length bs" "j \<notin> craftMatchedFinal as bs thr" for j
    using craftOnlyElements_mem [of j bs "loop_craftMatched ?st"] that
    by (simp add: mergeDetections_def Let_def craftMatchedFinal_def)
  have cnt: "overlapCount (mergeDetections as bs thr) = loop_overlapCount ?st"
    "claudeOnlyCount (mergeDetections as bs thr) = int (length as) - int (loop_overlapCount ?st)"
    "craftOnlyCount (mergeDetections as bs thr) = int (length bs) - int (loop_overlapCount ?st)"
    "mergedCount (mergeDetections as bs thr) = length (mergedElements (mergeDetections as bs thr))"
    by (simp_all add: mergeDetections_def Let_def)
  have c1: "int (length (mergedElements (mergeDetections as bs thr)))
      = claudeOnlyCount (mergeDetections as bs thr) + craftOnlyCount (mergeDetections as bs thr)
        + int (overlapCount (mergeDetections as bs thr))"
    unfolding cnt(1,2,3) len using inv(4) cb by simp
  have c5: "overlapCount (mergeDetections as bs thr) = card (craftMatchedFinal as bs thr)"
    using inv(3) by (simp add: cnt(1) craftMatchedFinal_def)
  have c6: "overlapCount (mergeDetections as bs thr) \<le> min (length as) (length bs)"
    using inv(4) cb by (simp add: cnt(1))
  show ?thesis
    using c1 cnt(4) cnt(2) cnt(3) c5 c6 mem unfolding cnt(1) by blast
qed

theorem merge_conservation_witness:
  "length (mergedElements (mergeDetections
      [textElement ''X'' 0 0 50 50 None, textElement ''Hello'' 100 100 200 40 (Some 90)]
      [textElement [] 500 500 50 50 None, textElement [] 105 102 190 38 (Some 0.95)]
      (1 / 2))) = 3
   \<and> claudeOnlyCount (mergeDetections
      [textElement ''X'' 0 0 50 50 None, textElement ''Hello'' 100 100 200 40 (Some 90)]
      [textElement [] 500 500 50 50 None, textElement [] 105 102 190 38 (Some 0.95)]
      (1 / 2)) = 1
   \<and> craftOnlyCount (mergeDetections
      [textElement ''X'' 0 0 50 50 None, textElement ''Hello'' 100 100 200 40 (Some 90)]
      [textElement [] 500 500 50 50 None, textElement [] 105 102 190 38 (Some 0.95)]
      (1 / 2)) = 1
   \<and> overlapCount (mergeDetections
      [textElement ''X'' 0 0 50 50 None, textElement ''Hello'' 100 100 200 40 (Some 90)]
      [textElement [] 500 500 50 50 None, textElement [] 105 102 190 38 (Some 0.95)]
      (1 / 2)) = 1
   \<and> craftMatchedFinal
      [textElement ''X'' 0 0 50 50 None, textElement ''Hello'' 100 100 200 40 (Some 90)]
      [textElement [] 500 500 50 50 None, textElement [] 105 102 190 38 (Some 0.95)]
      (1 / 2) = {1}
   \<and> textElement [] 500 500 50 50 None \<in> set (mergedElements (mergeDetections
      [textElement ''X'' 0 0 50 50 None, textElement ''Hello'' 100 100 200 40 (Some 90)]
      [textElement [] 500 500 50 50 None, textElement [] 105 102 190 38 (Some 0.95)]
      (1 / 2)))"
  using merge_conservation [of
      "[textElement ''X'' 0 0 50 50 None, textElement ''Hello'' 100 100 200 40 (Some 90)]"
      "[textElement [] 500 500 50 50 None, textElement [] 105 102 190 38 (Some 0.95)]" "1 / 2"]
  by (simp add: craftMatchedFinal_def mergeDetections_def mergeLoop_def mergeStep_def
      findBestMatch_def bestMatchStep_def mergedElement_def scoreOrZero_def boxOf_def
      textElement_def craftOnlyElements_def calculateIoU_def unionArea_def
      intersectionArea_def boxArea_def overlapLeft_def overlapRight_def overlapTop_def
      overlapBottom_def Let_def upt_2)

section \<open>Properties of the deduplication pass\<close>

lemma fold_grow:
  assumes "\<And>x R. R \<subseteq> f x R"
  shows "R \<subseteq> fold f xs R"
proof (induction xs arbitrary: R)
  case Nil
  show ?case by simp
next
  case (Cons x xs)
  have "R \<subseteq> f x R" by (rule assms)
  also have "\<dots> \<subseteq> fold f xs (f x R)" by (rule Cons.IH)
  finally show ?case by simp
qed

lemma fold_establish:
  assumes mono: "\<And>x R. R \<subseteq> f x R"
    and est: "\<And>R. P (f a R)"
    and up: "\<And>R R'. P R \<Longrightarrow> R \<subseteq> R' \<Longrightarrow> P R'"
    and mem: "a \<in> set xs"
  shows "P (fold f xs R)"
  using mem
proof (induction xs arbitrary: R)
  case Nil
  then show ?case by simp
next
  case (Cons x xs)
  show ?case
  proof (cases "x = a")
    case True
    have "P (f a R)" by (rule est)
    moreover have "f a R \<subseteq> fold f xs (f a R)" using mono by (rule fold_grow)
    ultimately have "P (fold f xs (f a R))" by (rule up)
    with True show ?thesis by simp
  next
    case False
    with Cons.prems have "a \<in> set xs" by simp
    then have "P (fold f xs (f x R))" by (rule Cons.IH)
    then show ?thesis by simp
  qed
qed

lemma filterInnerStep_grow: "R \<subseteq> filterInnerStep es t i j R"
  by (auto simp: filterInnerStep_def Let_def)

lemma filterOuterStep_grow: "R \<subseteq> filterOuterStep es t i R"
proof -
  have "R \<subseteq> fold (filterInnerStep es t i) [Suc i..<length es] R"
    by (rule fold_grow) (rule filterInnerStep_grow)
  then show ?thesis by (simp add: filterOuterStep_def)
qed

lemma pairSettled_up: "pairSettled es t a b R \<Longrightarrow> R \<subseteq> R' \<Longrightarrow> pairSettled es t a b R'"
  by (auto simp: pairSettled_def)

lemma pairSettled_inner: "pairSettled es t a b (filterInnerStep es t a b R)"
  by (auto simp: pairSettled_def filterInnerStep_def Let_def)

lemma pairSettled_outer:
  assumes "a < b" "b < length es"
  shows "pairSettled es t a b (filterOuterStep es t a R)"
proof (cases "a \<in> R")
  case True
  then show ?thesis by (simp add: filterOuterStep_def pairSettled_def)
next
  case False
  have "pairSettled es t a b (fold (filterInnerStep es t a) [Suc a..<length es] R)"
  proof (rule fold_establish [where f = "filterInnerStep es t a"
        and P = "pairSettled es t a b" and a = b])
    show "S \<subseteq> filterInnerStep es t a x S" for x S by (rule filterInnerStep_grow)
    show "pairSettled es t a b (filterInnerStep es t a b S)" for S by (rule pairSettled_inner)
    show "pairSettled es t a b S'" if "pairSettled es t a b S" "S \<subseteq> S'" for S S'
      using that by (rule pairSettled_up)
    show "b \<in> set [Suc a..<length es]" using assms by simp
  qed
  with False show ?thesis by (simp add: filterOuterStep_def)
qed

lemma pairSettled_final:
  assumes "a < b" "b < length es"
  shows "pairSettled es t a b (filterToRemove es t)"
proof -
  show ?thesis
    unfolding filterToRemove_def
  proof (rule fold_establish [where f = "filterOuterStep es t"
        and P = "pairSettled es t a b" and a = a])
    show "S \<subseteq> filterOuterStep es t x S" for x S by (rule filterOuterStep_grow)
    show "pairSettled es t a b (filterOuterStep es t a S)" for S
      using assms by (rule pairSettled_outer)
    show "pairSettled es t a b S'" if "pairSettled es t a b S" "S \<subseteq> S'" for S S'
      using that by (rule pairSettled_up)
    show "a \<in> set [0..<length es]" using assms by simp
  qed
qed

lemma survivors_pair:
  assumes "a < b" "b < length es" "a \<notin> filterToRemove es t" "b \<notin> filterToRemove es t"
  shows "calculateIoU (boxOf (es ! a)) (boxOf (es ! b)) < t"
  using pairSettled_final [OF assms(1,2), of t] assms(3,4) by (simp add: pairSettled_def)

lemma survivor_indices_nth:
  assumes "p < q" "q < length (filter Q [0..<n])"
  shows "filter Q [0..<n] ! p < filter Q [0..<n] ! q"
    and "filter Q [0..<n] ! q < n" and "Q (filter Q [0..<n] ! p)" and "Q (filter Q [0..<n] ! q)"
proof -
  have "sorted_wrt (<) (filter Q [0..<n])"
    by (simp add: sorted_wrt_filter)
  then show "filter Q [0..<n] ! p < filter Q [0..<n] ! q"
    using assms by (simp add: sorted_wrt_nth_less)
  have m: "filter Q [0..<n] ! k \<in> set (filter Q [0..<n])" if "k < length (filter Q [0..<n])" for k
    using that by (rule nth_mem)
  from m [of q] assms show "filter Q [0..<n] ! q < n" by simp
  from m [of p] assms show "Q (filter Q [0..<n] ! p)" by simp
  from m [of q] assms show "Q (filter Q [0..<n] ! q)" by simp
qed

lemma filterOverlappingDetections_subseq: "subseq (filterOverlappingDetections es t) es"
proof -
  have "subseq (map (\<lambda>i. es ! i) (filter (\<lambda>i. i \<notin> filterToRemove es t) [0..<length es]))
     (map (\<lambda>i. es ! i) [0..<length es])"
    by (intro subseq_map subseq_filter_left)
  then show ?thesis by (simp add: filterOverlappingDetections_def map_nth)
qed

lemma survivors_nth_pair:
  assumes "p < q" "q < length (filterOverlappingDetections es t)"
  shows "calculateIoU (boxOf (filterOverlappingDetections es t ! p))
                   (boxOf (filterOverlappingDetections es t ! q)) < t"
proof -
  let ?Q = "\<lambda>i. i \<notin> filterToRemove es t"
  let ?idx = "filter ?Q [0..<length es]"
  have q: "q < length ?idx" using assms by (simp add: filterOverlappingDetections_def)
  then have p: "p < length ?idx" using assms(1) by simp
  note s = survivor_indices_nth [OF assms(1) q]
  have "calculateIoU (boxOf (es ! (?idx ! p))) (boxOf (es ! (?idx ! q))) < t"
    by (rule survivors_pair [OF s(1) s(2) s(3) s(4)])
  moreover have "filterOverlappingDetections es t ! p = es ! (?idx ! p)"
    unfolding filterOverlappingDetections_def using p by (rule nth_map)
  moreover have "filterOverlappingDetections es t ! q = es ! (?idx ! q)"
    unfolding filterOverlappingDetections_def using q by (rule nth_map)
  ultimately show ?thesis by simp
qed

lemma zip_indices: "zip es [0..<length es] = map (\<lambda>i. (es ! i, i)) [0..<length es]"
  by (rule nth_equalityI) simp_all

lemma filterOverlappingDetections_nths:
  "filterOverlappingDetections es t = nths es {i. i \<notin> filterToRemove es t}"
  unfolding filterOverlappingDetections_def nths_def zip_indices
  by (simp add: filter_map comp_def)

text \<open>
  C4.  After the deduplication pass at threshold \<open>t\<close> no two survivors have an IoU of
  \<open>t\<close> or more, in either order of the two, and the survivors are the input elements at
  the indices that were not removed, in their input order.  This holds for every input
  list and every threshold.
\<close>

theorem dedup_postcondition:
  "(\<forall>p q. p < q \<and> q < length (filterOverlappingDetections es t) \<longrightarrow>
      calculateIoU (boxOf (filterOverlappingDetections es t ! p))
                   (boxOf (filterOverlappingDetections es t ! q)) < t
    \<and> calculateIoU (boxOf (filterOverlappingDetections es t ! q))
                   (boxOf (filterOverlappingDetections es t ! p)) < t)
   \<and> subseq (filterOverlappingDetections es t) es
   \<and> filterOverlappingDetections es t = nths es {i. i \<notin> filterToRemove es t}"
proof -
  have "calculateIoU (boxOf (filterOverlappingDetections es t ! q))
                   (boxOf (filterOverlappingDetections es t ! p)) < t"
    if "p < q" "q < length (filterOverlappingDetections es t)" for p q
    using survivors_nth_pair [OF that] by (simp add: calculateIoU_sym)
  then show ?thesis
    using survivors_nth_pair [of _ _ es t] filterOverlappingDetections_subseq [of es t]
      filterOverlappingDetections_nths [of es t]
    by blast
qed

theorem dedup_postcondition_witness:
  "filterOverlappingDetections
      [textElement ''a'' 0 0 100 100 (Some 80), textElement ''b'' 5 5 95 95 (Some 90),
       textElement ''c'' 50 50 100 100 (Some 85)] 0.7
     = [textElement ''b'' 5 5 95 95 (Some 90), textElement ''c'' 50 50 100 100 (Some 85)]
   \<and> calculateIoU (boxOf (textElement ''b'' 5 5 95 95 (Some 90)))
        (boxOf (textElement ''c'' 50 50 100 100 (Some 85))) = 100 / 661
   \<and> subseq [textElement ''b'' 5 5 95 95 (Some 90), textElement ''c'' 50 50 100 100 (Some 85)]
        [textElement ''a'' 0 0 100 100 (Some 80), textElement ''b'' 5 5 95 95 (Some 90),
         textElement ''c'' 50 50 100 100 (Some 85)]"
  using dedup_postcondition [of
      "[textElement ''a'' 0 0 100 100 (Some 80), textElement ''b'' 5 5 95 95 (Some 90),
        textElement ''c'' 50 50 100 100 (Some 85)]" "0.7"]
  by (simp add: filterOverlappingDetections_def filterToRemove_def filterOuterStep_def
      filterInnerStep_def scoreOrZero_def boxOf_def textElement_def calculateIoU_def
      unionArea_def intersectionArea_def boxArea_def overlapLeft_def overlapRight_def
      overlapTop_def overlapBottom_def Let_def)

text \<open>
  C5, as stated, fails on its own example.  The two boxes have an IoU of 0.9025; the
  pass removes index 0, the box of larger area and lower confidence, where the rule
  "the smaller-area rectangle is removed" names index 1.
\<close>

theorem dedup_smaller_area_counterexample:
  "calculateIoU (boxOf (textElement ''first'' 0 0 100 100 (Some 80)))
       (boxOf (textElement ''second'' 5 5 95 95 (Some 90))) = 361 / 400
   \<and> filterToRemove [textElement ''first'' 0 0 100 100 (Some 80),
         textElement ''second'' 5 5 95 95 (Some 90)] 0.7 = {0}
   \<and> specRemoveIndex [textElement ''first'' 0 0 100 100 (Some 80),
         textElement ''second'' 5 5 95 95 (Some 90)] 0 1 = 1
   \<and> width (textElement ''second'' 5 5 95 95 (Some 90))
         * height (textElement ''second'' 5 5 95 95 (Some 90))
       < width (textElement ''first'' 0 0 100 100 (Some 80))
         * height (textElement ''first'' 0 0 100 100 (Some 80))"
  by (simp add: specRemoveIndex_def filterToRemove_def filterOuterStep_def
      filterInnerStep_def scoreOrZero_def boxOf_def textElement_def calculateIoU_def
      unionArea_def intersectionArea_def boxArea_def overlapLeft_def overlapRight_def
      overlapTop_def overlapBottom_def Let_def)

text \<open>
  C5, amended.  In the deduplication of text elements a compared pair whose IoU reaches
  the threshold loses the element of lower confidence score (a missing score counts as
  0), the earlier one staying on equal scores; areas are not consulted.  In the
  deduplication of layout regions a compared pair whose IoU exceeds 0.7 loses the region
  of smaller area, the earlier one staying on equal areas; confidences are not
  consulted.  At threshold 0.7 the two boxes (0,0,100,100, confidence 80) and
  (5,5,95,95, confidence 90) leave one survivor, the second.
\<close>

theorem dedup_removal_rule:
  "(j \<notin> R \<and> t \<le> calculateIoU (boxOf (es ! i)) (boxOf (es ! j)) \<longrightarrow>
      filterInnerStep es t i j R
        = insert (if scoreOrZero (es ! j) \<le> scoreOrZero (es ! i) then j else i) R)
   \<and> (j \<notin> R \<and> calculateIoU (boxOf (es ! i)) (boxOf (es ! j)) < t \<longrightarrow>
      filterInnerStep es t i j R = R)
   \<and> (j \<notin> R' \<and> 0.7 < calculateRegionIoU (rs ! i) (rs ! j) \<longrightarrow>
      regionInnerStep rs i j R'
        = insert (if region_width (rs ! j) * region_height (rs ! j)
                     \<le> region_width (rs ! i) * region_height (rs ! i) then j else i) R')
   \<and> (j \<notin> R' \<and> calculateRegionIoU (rs ! i) (rs ! j) \<le> 0.7 \<longrightarrow>
      regionInnerStep rs i j R' = R')
   \<and> filterOverlappingDetections
        [textElement c1 0 0 100 100 (Some 80), textElement c2 5 5 95 95 (Some 90)] 0.7
      = [textElement c2 5 5 95 95 (Some 90)]"
proof -
  have 1: "j \<notin> R \<and> t \<le> calculateIoU (boxOf (es ! i)) (boxOf (es ! j)) \<longrightarrow>
      filterInnerStep es t i j R
        = insert (if scoreOrZero (es ! j) \<le> scoreOrZero (es ! i) then j else i) R"
    by (simp add: filterInnerStep_def Let_def)
  have 2: "j \<notin> R \<and> calculateIoU (boxOf (es ! i)) (boxOf (es ! j)) < t \<longrightarrow>
      filterInnerStep es t i j R = R"
    by (simp add: filterInnerStep_def Let_def)
  have 3: "j \<notin> R' \<and> 0.7 < calculateRegionIoU (rs ! i) (rs ! j) \<longrightarrow>
      regionInnerStep rs i j R'
        = insert (if region_width (rs ! j) * region_height (rs ! j)
                     \<le> region_width (rs ! i) * region_height (rs ! i) then j else i) R'"
    by (simp add: regionInnerStep_def Let_def)
  have 4: "j \<notin> R' \<and> calculateRegionIoU (rs ! i) (rs ! j) \<le> 0.7 \<longrightarrow>
      regionInnerStep rs i j R' = R'"
    by (simp add: regionInnerStep_def Let_def)
  have 5: "filterOverlappingDetections
        [textElement c1 0 0 100 100 (Some 80), textElement c2 5 5 95 95 (Some 90)] 0.7
      = [textElement c2 5 5 95 95 (Some 90)]"
    by (simp add: filterOverlappingDetections_def filterToRemove_def filterOuterStep_def
      filterInnerStep_def scoreOrZero_def boxOf_def textElement_def calculateIoU_def
      unionArea_def intersectionArea_def boxArea_def overlapLeft_def overlapRight_def
      overlapTop_def overlapBottom_def Let_def)
  from 1 2 3 4 5 show ?thesis by blast
qed

theorem dedup_removal_rule_witness:
  "(1::nat) \<notin> {}
   \<and> (0.7::real) \<le> calculateIoU (boxOf (textElement ''first'' 0 0 100 100 (Some 80)))
       (boxOf (textElement ''second'' 5 5 95 95 (Some 90)))
   \<and> filterInnerStep [textElement ''first'' 0 0 100 100 (Some 80),
         textElement ''second'' 5 5 95 95 (Some 90)] 0.7 0 1 {} = {0}
   \<and> 0.7 < calculateRegionIoU (regionBox 0 0 100 100 80) (regionBox 5 5 95 95 90)
   \<and> regionInnerStep [regionBox 0 0 100 100 80, regionBox 5 5 95 95 90] 0 1 {} = {1}
   \<and> deduplicateRegions [regionBox 0 0 100 100 80, regionBox 5 5 95 95 90]
       = [regionBox 0 0 100 100 80]
   \<and> filterOverlappingDetections
        [textElement ''first'' 0 0 100 100 (Some 80), textElement ''second'' 5 5 95 95 (Some 90)]
        0.7
      = [textElement ''second'' 5 5 95 95 (Some 90)]"
  using dedup_removal_rule [of 1 "{}" "0.7"
      "[textElement ''first'' 0 0 100 100 (Some 80), textElement ''second'' 5 5 95 95 (Some 90)]"
      0 "{}" "[regionBox 0 0 100 100 80, regionBox 5 5 95 95 90]" "''first''" "''second''"]
  by (simp add: deduplicateRegions_def regionsToRemove_def regionOuterStep_def
      regionInnerStep_def calculateRegionIoU_def regionBox_def
      scoreOrZero_def boxOf_def textElement_def calculateIoU_def
      unionArea_def intersectionArea_def boxArea_def overlapLeft_def overlapRight_def
      overlapTop_def overlapBottom_def Let_def)

section \<open>Properties of clamping and validation\<close>

lemma clampToSlideBounds_tolerance:
  "withinTolerance (clampToSlideBounds x y w h)"
  "0.1 \<le> box_width (clampToSlideBounds x y w h)"
  "0.1 \<le> box_height (clampToSlideBounds x y w h)"
  "box_x (clampToSlideBounds x y w h) \<le> 9.9 \<longrightarrow>
     box_x (clampToSlideBounds x y w h) + box_width (clampToSlideBounds x y w h) \<le> 10"
  "box_y (clampToSlideBounds x y w h) \<le> 5.525 \<longrightarrow>
     box_y (clampToSlideBounds x y w h) + box_height (clampToSlideBounds x y w h) \<le> 5.625"
  by (simp_all add: withinTolerance_def clampToSlideBounds_def STANDARD_SLIDE_def Let_def
      min_def max_def)

lemma validateInchCoordinates_tolerance:
  "validateInchCoordinates x y w h \<Longrightarrow>
     withinTolerance \<lparr>box_x = x, box_y = y, box_width = w, box_height = h\<rparr>"
  by (simp add: validateInchCoordinates_def withinTolerance_def STANDARD_SLIDE_def)

lemma parseTextElement_tolerance: "withinTolerance (boxOf (parseTextElement t iw ih))"
proof -
  define px where "px = max 0 (min (numberOr (raw_x t) 0) iw)"
  define py where "py = max 0 (min (numberOr (raw_y t) 0) ih)"
  define pw where "pw = max 10 (min (numberOr (raw_width t) 100) (iw - px))"
  define ph where "ph = max 10 (min (numberOr (raw_height t) 20) (ih - py))"
  define X where "X = pixelsToInches px iw 10"
  define Y where "Y = pixelsToInches py ih 5.625"
  define W where "W = pixelsToInches pw iw 10"
  define H where "H = pixelsToInches ph ih 5.625"
  have b: "boxOf (parseTextElement t iw ih)
      = (if \<not> validateInchCoordinates X Y W H then clampToSlideBounds X Y W H
         else \<lparr>box_x = X, box_y = Y, box_width = W, box_height = H\<rparr>)"
    by (simp add: parseTextElement_def boxOf_def Let_def px_def py_def pw_def ph_def
        X_def Y_def W_def H_def)
  show ?thesis
    unfolding b
    using clampToSlideBounds_tolerance(1) [of X Y W H]
      validateInchCoordinates_tolerance [of X Y W H]
    by simp
qed

lemma placementWarnings_empty:
  "placementWarnings i e = [] \<longleftrightarrow> withinTolerance (boxOf e)"
  by (auto simp: placementWarnings_def withinTolerance_def boxOf_def)

lemma validateLayoutPlacement_isValid:
  "placement_isValid (validateLayoutPlacement es rs) \<longleftrightarrow> (\<forall>e\<in>set es. withinTolerance (boxOf e))"
proof -
  have "placement_isValid (validateLayoutPlacement es rs)
      \<longleftrightarrow> (\<forall>i<length es. placementWarnings i (es ! i) = [])"
    by (auto simp: validateLayoutPlacement_def Let_def)
  also have "\<dots> \<longleftrightarrow> (\<forall>i<length es. withinTolerance (boxOf (es ! i)))"
    by (simp add: placementWarnings_empty)
  also have "\<dots> \<longleftrightarrow> (\<forall>e\<in>set es. withinTolerance (boxOf e))"
    by (simp add: all_set_conv_all_nth)
  finally show ?thesis .
qed

lemma edgeTextSlide_output:
  "map boxOf (textElements (fst (analyzeSlideImageWithLayoutDetection edgeTextSlide)))
     = [\<lparr>box_x = 10, box_y = 0, box_width = 0.1, box_height = 0.1\<rparr>]"
  by (simp add: edgeTextSlide_def analyzeSlideImageWithLayoutDetection_def contentServices_def
      parseLayoutResponse_def deduplicateRegions_def parseTextResponse_def parseTextElement_def
      rawText_def numberOr_def stringOr_def boolOrFalse_def pixelsToInches_def
      validateInchCoordinates_def clampToSlideBounds_def STANDARD_SLIDE_def boxOf_def Let_def)

lemma edgeRegionSlide_regions:
  "detectLayoutRegions edgeRegionSlide = [regionBox 1920 0 10 10 95]"
  by (simp add: edgeRegionSlide_def contentServices_def parseLayoutResponse_def
      parseLayoutRegion_def rawRegion_def numberOr_def regionBox_def deduplicateRegions_def
      regionsToRemove_def regionOuterStep_def regionInnerStep_def Let_def upt_rec)

lemma edgeRegionSlide_output:
  "map boxOf (textElements (fst (analyzeSlideImageWithLayoutDetection edgeRegionSlide)))
     = [\<lparr>box_x = 10.05, box_y = 0.05, box_width = 0.1, box_height = 0.1\<rparr>]"
  by (simp add: analyzeSlideImageWithLayoutDetection_def edgeRegionSlide_regions)
    (simp_all add: edgeRegionSlide_def contentServices_def performRegionBasedOCRFrom_def
      parseRegionOCRResponse_def parseRegionTextElement_def rawText_def regionBox_def
      numberOr_def stringOr_def boolOrFalse_def pixelsToInches_def normalizeCoordinates_def
      normalizeWithinRegion_def alignElementsWithinRegions_def alignWithinRegion_def
      centerInRegion_def elementCenterX_def elementCenterY_def regionXInches_def
      regionYInches_def regionWidthInches_def regionHeightInches_def SLIDE_WIDTH_def
      SLIDE_HEIGHT_def boxOf_def Let_def)

lemma edgeRegionSlide_validation:
  "\<not> placement_isValid (validateLayoutPlacement
        (textElements (fst (analyzeSlideImageWithLayoutDetection edgeRegionSlide)))
        (snd (analyzeSlideImageWithLayoutDetection edgeRegionSlide)))"
proof -
  have "\<not> withinTolerance \<lparr>box_x = 10.05, box_y = 0.05, box_width = 0.1, box_height = 0.1\<rparr>"
    by (simp add: withinTolerance_def)
  then have "\<exists>b \<in> set (map boxOf
      (textElements (fst (analyzeSlideImageWithLayoutDetection edgeRegionSlide)))).
        \<not> withinTolerance b"
    by (simp only: edgeRegionSlide_output) simp
  then show ?thesis by (auto simp: validateLayoutPlacement_isValid)
qed

lemma overhangingBoxSlide_output:
  "map boxOf (textElements (analysis
        (performCraftPrimaryHybridDetection overhangingBoxSlide edgeTextSlide)))
     = [\<lparr>box_x = 475 / 48, box_y = 125 / 48, box_width = 25 / 48, box_height = 5 / 24\<rparr>]"
  by (simp add: overhangingBoxSlide_def craftServices_def performCraftPrimaryHybridDetection_def
      performCraftPrimaryDetection_def primaryResult_def errorReported_def
      performOCROnCraftRegions_def convertCraftBoxToCoordinates_def hasText_def isWhiteSpace_def
      mathRound_def pixelsToInches_def boxOf_def Let_def)

text \<open>
  C1 fails on the code, in each of the three pipelines that produce the final list of a
  slide.  The image has 1920 x 1080 pixels.

  Direct text detection: no layout region is found and the reply holds the pixel
  rectangle (1920, 0, 10, 10).  The only element of the output is (10, 0, 0.1, 0.1) and
  ends at 10.1.  It is the result of \<^verbatim>\<open>clampToSlideBounds\<close>, called because
  \<^verbatim>\<open>validateInchCoordinates\<close> rejected the converted rectangle, and
  \<^verbatim>\<open>validateInchCoordinates\<close> rejects it again.

  Region pipeline: the layout reply holds a region at x = 1920 and the reply for this
  region a text at (1922, 2, 8, 8).  After conversion, normalization and alignment the
  only element of the output is (10.05, 0.05, 0.1, 0.1); it starts past the right edge of
  the slide and ends at 10.15.  \<^verbatim>\<open>validateLayoutPlacement\<close>, which allows 10.1, reports
  it, and the element is returned all the same.

  CRAFT-primary mode: the detector reports the box (1900, 500, 100, 40).  The only element
  of the output is (475/48, 125/48, 25/48, 5/24) and ends at 500/48, about 10.417: the
  box is converted and never clamped.
\<close>

theorem bounds_invariant_violated:
  "map boxOf (textElements (fst (analyzeSlideImageWithLayoutDetection edgeTextSlide)))
     = [\<lparr>box_x = 10, box_y = 0, box_width = 0.1, box_height = 0.1\<rparr>]
   \<and> \<not> withinCanvas \<lparr>box_x = 10, box_y = 0, box_width = 0.1, box_height = 0.1\<rparr>
   \<and> clampToSlideBounds 10 0 (5 / 96) (5 / 96)
     = \<lparr>box_x = 10, box_y = 0, box_width = 0.1, box_height = 0.1\<rparr>
   \<and> \<not> validateInchCoordinates 10 0 0.1 0.1
   \<and> map boxOf (textElements (fst (analyzeSlideImageWithLayoutDetection edgeRegionSlide)))
     = [\<lparr>box_x = 10.05, box_y = 0.05, box_width = 0.1, box_height = 0.1\<rparr>]
   \<and> \<not> withinCanvas \<lparr>box_x = 10.05, box_y = 0.05, box_width = 0.1, box_height = 0.1\<rparr>
   \<and> \<not> withinTolerance \<lparr>box_x = 10.05, box_y = 0.05, box_width = 0.1, box_height = 0.1\<rparr>
   \<and> \<not> placement_isValid (validateLayoutPlacement
        (textElements (fst (analyzeSlideImageWithLayoutDetection edgeRegionSlide)))
        (snd (analyzeSlideImageWithLayoutDetection edgeRegionSlide)))
   \<and> map boxOf (textElements (analysis
        (performCraftPrimaryHybridDetection overhangingBoxSlide edgeTextSlide)))
     = [\<lparr>box_x = 475 / 48, box_y = 125 / 48, box_width = 25 / 48, box_height = 5 / 24\<rparr>]
   \<and> \<not> withinCanvas
        \<lparr>box_x = 475 / 48, box_y = 125 / 48, box_width = 25 / 48, box_height = 5 / 24\<rparr>
   \<and> \<not> withinTolerance
        \<lparr>box_x = 475 / 48, box_y = 125 / 48, box_width = 25 / 48, box_height = 5 / 24\<rparr>"
proof -
  have "\<not> withinCanvas \<lparr>box_x = 10, box_y = 0, box_width = 0.1, box_height = 0.1\<rparr>"
    "clampToSlideBounds 10 0 (5 / 96) (5 / 96)
       = \<lparr>box_x = 10, box_y = 0, box_width = 0.1, box_height = 0.1\<rparr>"
    "\<not> validateInchCoordinates 10 0 0.1 0.1"
    "\<not> withinCanvas \<lparr>box_x = 10.05, box_y = 0.05, box_width = 0.1, box_height = 0.1\<rparr>"
    "\<not> withinTolerance \<lparr>box_x = 10.05, box_y = 0.05, box_width = 0.1, box_height = 0.1\<rparr>"
    "\<not> withinCanvas
        \<lparr>box_x = 475 / 48, box_y = 125 / 48, box_width = 25 / 48, box_height = 5 / 24\<rparr>"
    "\<not> withinTolerance
        \<lparr>box_x = 475 / 48, box_y = 125 / 48, box_width = 25 / 48, box_height = 5 / 24\<rparr>"
    by (simp_all add: withinCanvas_def withinTolerance_def validateInchCoordinates_def
        clampToSlideBounds_def STANDARD_SLIDE_def Let_def)
  then show ?thesis
    using edgeTextSlide_output edgeRegionSlide_output edgeRegionSlide_validation
      overhangingBoxSlide_output
    by (simp only: simp_thms)
qed

section \<open>Properties of the region containment\<close>


lemma normalizeCoordinates_nth:
  assumes "k < length es"
  shows "normalizeCoordinates es rs ! k =
    (case findContainingRegion (es ! k) rs of
       Some r \<Rightarrow> normalizeWithinRegion (es ! k) r | None \<Rightarrow> es ! k)"
  using assms by (simp add: normalizeCoordinates_def)

lemma alignElementsWithinRegions_nth:
  assumes "k < length es"
  shows "alignElementsWithinRegions es rs ! k =
    (case findContainingRegion (es ! k) rs of
       None \<Rightarrow> es ! k | Some r \<Rightarrow> alignWithinRegion (es ! k) r)"
  using assms by (simp add: alignElementsWithinRegions_def)






text \<open>
  The condition on the size of the image is needed.  On an image of 960 x 540 pixels
  with the left and the right half as regions, a text found in the left half at the
  pixel rectangle (300, 100, 96, 96) is converted with the size of the image to
  (3.125, 1.0417, 1, 1).  The normalizer converts the regions with 1920 and 1080,
  finds the center of the element in the right half and assigns it to that region,
  whose canvas-space rectangle begins at 5: the element lies entirely outside the region
  it is assigned to, and is returned unchanged.
\<close>

lemma twoColumn_regions:
  "detectLayoutRegions twoColumnSlide = [regionBox 0 0 480 540 95, regionBox 480 0 480 540 95]"
  by (simp add: twoColumnSlide_def contentServices_def parseLayoutResponse_def
      parseLayoutRegion_def rawRegion_def numberOr_def regionBox_def deduplicateRegions_def
      regionsToRemove_def regionOuterStep_def regionInnerStep_def calculateRegionIoU_def
      Let_def upt_rec)

lemma twoColumn_ocr:
  "performRegionBasedOCR twoColumnSlide [regionBox 0 0 480 540 95, regionBox 480 0 480 540 95]
     = [leftText]"
  by (simp add: twoColumnSlide_def contentServices_def performRegionBasedOCRFrom_def
      parseRegionOCRResponse_def parseRegionTextElement_def rawText_def numberOr_def
      stringOr_def boolOrFalse_def pixelsToInches_def regionBox_def leftText_def Let_def upt_rec)

lemma twoColumn_assigned:
  "findContainingRegion leftText [regionBox 0 0 480 540 95, regionBox 480 0 480 540 95]
     = Some (regionBox 480 0 480 540 95)"
  by (simp add: leftText_def regionBox_def centerInRegion_def elementCenterX_def
      elementCenterY_def regionXInches_def regionYInches_def regionWidthInches_def
      regionHeightInches_def SLIDE_WIDTH_def SLIDE_HEIGHT_def Let_def)

lemma twoColumn_normalized:
  "normalizeWithinRegion leftText (regionBox 480 0 480 540 95) = leftText"
  by (simp add: leftText_def regionBox_def normalizeWithinRegion_def regionXInches_def
      regionYInches_def regionWidthInches_def regionHeightInches_def SLIDE_WIDTH_def
      SLIDE_HEIGHT_def Let_def)

lemma twoColumn_aligned:
  "alignWithinRegion leftText (regionBox 480 0 480 540 95) = leftText"
  by (simp add: leftText_def regionBox_def alignWithinRegion_def regionXInches_def
      regionYInches_def regionWidthInches_def regionHeightInches_def SLIDE_WIDTH_def
      SLIDE_HEIGHT_def Let_def)

lemma containment_other_image_size:
  "analyzeSlideImageWithLayoutDetection twoColumnSlide
     = (\<lparr>tables = [], textElements = [leftText]\<rparr>,
        [regionBox 0 0 480 540 95, regionBox 480 0 480 540 95])
   \<and> findContainingRegion leftText [regionBox 0 0 480 540 95, regionBox 480 0 480 540 95]
     = Some (regionBox 480 0 480 540 95)
   \<and> boxOf leftText = \<lparr>box_x = 25 / 8, box_y = 25 / 24, box_width = 1, box_height = 1\<rparr>
   \<and> regionCanvasRect 960 540 (regionBox 480 0 480 540 95)
     = \<lparr>box_x = 5, box_y = 0, box_width = 5, box_height = 5.625\<rparr>
   \<and> regionCanvasRect 960 540 (regionBox 0 0 480 540 95)
     = \<lparr>box_x = 0, box_y = 0, box_width = 5, box_height = 5.625\<rparr>"
proof -
  have "analyzeSlideImageWithLayoutDetection twoColumnSlide
     = (\<lparr>tables = [], textElements = [leftText]\<rparr>,
        [regionBox 0 0 480 540 95, regionBox 480 0 480 540 95])"
    by (simp add: analyzeSlideImageWithLayoutDetection_def twoColumn_regions twoColumn_ocr
        normalizeCoordinates_def alignElementsWithinRegions_def twoColumn_assigned
        twoColumn_normalized twoColumn_aligned Let_def del: findContainingRegion.simps)
  moreover have "boxOf leftText
      = \<lparr>box_x = 25 / 8, box_y = 25 / 24, box_width = 1, box_height = 1\<rparr>"
    by (simp add: boxOf_def leftText_def)
  moreover have "regionCanvasRect 960 540 (regionBox 480 0 480 540 95)
     = \<lparr>box_x = 5, box_y = 0, box_width = 5, box_height = 5.625\<rparr>"
    "regionCanvasRect 960 540 (regionBox 0 0 480 540 95)
     = \<lparr>box_x = 0, box_y = 0, box_width = 5, box_height = 5.625\<rparr>"
    by (simp_all add: regionCanvasRect_def regionBox_def pixelsToInches_def)
  ultimately show ?thesis using twoColumn_assigned by simp
qed

lemma findContainingRegion_None:
  "findContainingRegion e rs = None \<longleftrightarrow> (\<forall>r\<in>set rs. \<not> centerInRegion e r)"
  by (induction rs) auto

lemma findContainingRegion_Some:
  "findContainingRegion e rs = Some r \<longleftrightarrow>
     (\<exists>k<length rs. rs ! k = r \<and> centerInRegion e (rs ! k) \<and> (\<forall>j<k. \<not> centerInRegion e (rs ! j)))"
proof (induction rs)
  case Nil
  show ?case by simp
next
  case (Cons a rs)
  show ?case
  proof (cases "centerInRegion e a")
    case True
    have "(\<exists>k<length (a # rs). (a # rs) ! k = r \<and> centerInRegion e ((a # rs) ! k)
          \<and> (\<forall>j<k. \<not> centerInRegion e ((a # rs) ! j))) \<longleftrightarrow> a = r"
    proof
      assume "\<exists>k<length (a # rs). (a # rs) ! k = r \<and> centerInRegion e ((a # rs) ! k)
          \<and> (\<forall>j<k. \<not> centerInRegion e ((a # rs) ! j))"
      then obtain k where k: "(a # rs) ! k = r" "\<forall>j<k. \<not> centerInRegion e ((a # rs) ! j)"
        by blast
      have "k = 0"
      proof (rule ccontr)
        assume "k \<noteq> 0"
        then have "\<not> centerInRegion e ((a # rs) ! 0)" using k(2) by blast
        with True show False by simp
      qed
      with k(1) show "a = r" by simp
    next
      assume "a = r"
      with True show "\<exists>k<length (a # rs). (a # rs) ! k = r \<and> centerInRegion e ((a # rs) ! k)
          \<and> (\<forall>j<k. \<not> centerInRegion e ((a # rs) ! j))"
        by (intro exI [of _ 0]) simp
    qed
    with True show ?thesis by simp
  next
    case False
    have "(\<exists>k<length (a # rs). (a # rs) ! k = r \<and> centerInRegion e ((a # rs) ! k)
          \<and> (\<forall>j<k. \<not> centerInRegion e ((a # rs) ! j)))
      \<longleftrightarrow> (\<exists>k<length rs. rs ! k = r \<and> centerInRegion e (rs ! k)
          \<and> (\<forall>j<k. \<not> centerInRegion e (rs ! j)))" (is "?L \<longleftrightarrow> ?R")
    proof
      assume ?L
      then obtain k where k: "k < length (a # rs)" "(a # rs) ! k = r"
        "centerInRegion e ((a # rs) ! k)" "\<forall>j<k. \<not> centerInRegion e ((a # rs) ! j)"
        by blast
      from k(3) False obtain k' where k': "k = Suc k'" by (cases k) auto
      have "\<forall>j<k'. \<not> centerInRegion e (rs ! j)"
      proof (intro allI impI)
        fix j assume "j < k'"
        then have "Suc j < k" using k' by simp
        with k(4) have "\<not> centerInRegion e ((a # rs) ! Suc j)" by blast
        then show "\<not> centerInRegion e (rs ! j)" by simp
      qed
      with k k' show ?R by (intro exI [of _ k']) simp
    next
      assume ?R
      then obtain k where k: "k < length rs" "rs ! k = r" "centerInRegion e (rs ! k)"
        "\<forall>j<k. \<not> centerInRegion e (rs ! j)"
        by blast
      have "\<forall>j<Suc k. \<not> centerInRegion e ((a # rs) ! j)"
      proof (intro allI impI)
        fix j assume j: "j < Suc k"
        show "\<not> centerInRegion e ((a # rs) ! j)"
        proof (cases j)
          case 0
          with False show ?thesis by simp
        next
          case (Suc j')
          with j k(4) show ?thesis by simp
        qed
      qed
      with k show ?L by (intro exI [of _ "Suc k"]) simp
    qed
    with False Cons.IH show ?thesis by simp
  qed
qed

lemma centerInRegion_iff:
  "centerInRegion e r \<longleftrightarrow>
     regionXInches r \<le> position_x e + width e / 2
     \<and> position_x e + width e / 2 \<le> regionXInches r + regionWidthInches r
     \<and> regionYInches r \<le> position_y e + height e / 2
     \<and> position_y e + height e / 2 \<le> regionYInches r + regionHeightInches r"
  by (simp add: centerInRegion_def elementCenterX_def elementCenterY_def Let_def)

lemma unassigned_unchanged:
  assumes "k < length es" "findContainingRegion (es ! k) rs = None"
  shows "normalizeCoordinates es rs ! k = es ! k"
    and "alignElementsWithinRegions es rs ! k = es ! k"
    and "alignElementsWithinRegions (normalizeCoordinates es rs) rs ! k = es ! k"
proof -
  show n: "normalizeCoordinates es rs ! k = es ! k"
    using assms by (simp add: normalizeCoordinates_nth)
  show "alignElementsWithinRegions es rs ! k = es ! k"
    using assms by (simp add: alignElementsWithinRegions_nth)
  have "k < length (normalizeCoordinates es rs)"
    using assms(1) by (simp add: normalizeCoordinates_def)
  then show "alignElementsWithinRegions (normalizeCoordinates es rs) rs ! k = es ! k"
    using assms(2) by (simp add: alignElementsWithinRegions_nth n)
qed

text \<open>
  C10.  Containment compares the element's center with the region's edges inclusively;
  the region found is the first one of the list that contains the center, and none is
  found exactly when no region contains it; an element without a region is returned
  unchanged by normalization, by alignment and by the two in sequence.
\<close>

theorem region_assignment_tie_break:
  "(centerInRegion e r \<longleftrightarrow>
      regionXInches r \<le> position_x e + width e / 2
      \<and> position_x e + width e / 2 \<le> regionXInches r + regionWidthInches r
      \<and> regionYInches r \<le> position_y e + height e / 2
      \<and> position_y e + height e / 2 \<le> regionYInches r + regionHeightInches r)
   \<and> (findContainingRegion e rs = Some r \<longleftrightarrow>
        (\<exists>k<length rs. rs ! k = r \<and> centerInRegion e (rs ! k)
           \<and> (\<forall>j<k. \<not> centerInRegion e (rs ! j))))
   \<and> (findContainingRegion e rs = None \<longleftrightarrow> (\<forall>r'\<in>set rs. \<not> centerInRegion e r'))
   \<and> (\<forall>k<length es. findContainingRegion (es ! k) rs = None \<longrightarrow>
        normalizeCoordinates es rs ! k = es ! k
        \<and> alignElementsWithinRegions es rs ! k = es ! k
        \<and> alignElementsWithinRegions (normalizeCoordinates es rs) rs ! k = es ! k)
   \<and> length (normalizeCoordinates es rs) = length es
   \<and> length (alignElementsWithinRegions es rs) = length es"
proof -
  have l: "length (normalizeCoordinates es rs) = length es"
    "length (alignElementsWithinRegions es rs) = length es"
    by (simp_all add: normalizeCoordinates_def alignElementsWithinRegions_def)
  show ?thesis
    using centerInRegion_iff [of e r] findContainingRegion_Some [of e rs r]
      findContainingRegion_None [of e rs] unassigned_unchanged [of _ es rs] l
    by blast
qed

theorem region_assignment_tie_break_witness:
  "centerInRegion (textElement ''edge'' 0.9 0.1 0.2 0.2 None) (regionBox 0 0 192 108 95)
   \<and> position_x (textElement ''edge'' 0.9 0.1 0.2 0.2 None)
        + width (textElement ''edge'' 0.9 0.1 0.2 0.2 None) / 2
      = regionXInches (regionBox 0 0 192 108 95) + regionWidthInches (regionBox 0 0 192 108 95)
   \<and> centerInRegion (textElement ''edge'' 0.9 0.1 0.2 0.2 None) (regionBox 96 0 192 108 80)
   \<and> findContainingRegion (textElement ''edge'' 0.9 0.1 0.2 0.2 None)
        [regionBox 0 0 192 108 95, regionBox 96 0 192 108 80] = Some (regionBox 0 0 192 108 95)
   \<and> findContainingRegion (textElement ''edge'' 0.9 0.1 0.2 0.2 None)
        [regionBox 96 0 192 108 80, regionBox 0 0 192 108 95] = Some (regionBox 96 0 192 108 80)
   \<and> findContainingRegion (textElement ''far'' 5 5 1 0.5 None)
        [regionBox 0 0 192 108 95, regionBox 96 0 192 108 80] = None
   \<and> normalizeCoordinates
        [textElement ''edge'' 0.9 0.1 0.2 0.2 None, textElement ''far'' 5 5 1 0.5 None]
        [regionBox 0 0 192 108 95, regionBox 96 0 192 108 80] ! 1
      = textElement ''far'' 5 5 1 0.5 None
   \<and> alignElementsWithinRegions
        (normalizeCoordinates
          [textElement ''edge'' 0.9 0.1 0.2 0.2 None, textElement ''far'' 5 5 1 0.5 None]
          [regionBox 0 0 192 108 95, regionBox 96 0 192 108 80])
        [regionBox 0 0 192 108 95, regionBox 96 0 192 108 80] ! 1
      = textElement ''far'' 5 5 1 0.5 None"
  using region_assignment_tie_break [of "textElement ''edge'' 0.9 0.1 0.2 0.2 None"
      "regionBox 0 0 192 108 95" "[regionBox 0 0 192 108 95, regionBox 96 0 192 108 80]"
      "[textElement ''edge'' 0.9 0.1 0.2 0.2 None, textElement ''far'' 5 5 1 0.5 None]"]
  by (simp add: normalizeCoordinates_def alignElementsWithinRegions_def centerInRegion_def
      elementCenterX_def elementCenterY_def regionXInches_def regionYInches_def
      regionWidthInches_def regionHeightInches_def SLIDE_WIDTH_def SLIDE_HEIGHT_def
      regionBox_def textElement_def Let_def)

section \<open>Properties of the orchestrator\<close>

lemma performCraftPrimaryDetection_failed:
  assumes "errorReported (detectText craft) \<or> boxes (detectText craft) = []"
  shows "primary_boxCount (performCraftPrimaryDetection craft) = 0"
  using assms by (auto simp: performCraftPrimaryDetection_def Let_def)

lemma performDBNetPrimaryDetection_failed:
  assumes "errorReported (detectText dbnet) \<or> boxes (detectText dbnet) = []"
  shows "primary_boxCount (performDBNetPrimaryDetection dbnet) = 0"
  using assms by (auto simp: performDBNetPrimaryDetection_def Let_def)

text \<open>
  C9.  In both primary-detector modes, when the geometry-only detector reports an error
  or returns no boxes, the orchestrator returns the result of the single-source
  pipeline: its analysis and its regions, with statistics that count its elements only.
  That pipeline returns the recognized elements of the layout regions, normalized and
  aligned, or the direct text detection when no region was found.
\<close>

theorem primary_mode_fallback:
  "(errorReported (detectText craft) \<or> boxes (detectText craft) = [] \<longrightarrow>
      performCraftPrimaryHybridDetection craft claude
        = fallbackResult (analyzeSlideImageWithLayoutDetection claude)
      \<and> analysis (performCraftPrimaryHybridDetection craft claude)
        = fst (analyzeSlideImageWithLayoutDetection claude)
      \<and> regions (performCraftPrimaryHybridDetection craft claude)
        = snd (analyzeSlideImageWithLayoutDetection claude))
   \<and> (errorReported (detectText dbnet) \<or> boxes (detectText dbnet) = [] \<longrightarrow>
      performDBNetPrimaryHybridDetection dbnet claude
        = fallbackResult (analyzeSlideImageWithLayoutDetection claude)
      \<and> analysis (performDBNetPrimaryHybridDetection dbnet claude)
        = fst (analyzeSlideImageWithLayoutDetection claude)
      \<and> regions (performDBNetPrimaryHybridDetection dbnet claude)
        = snd (analyzeSlideImageWithLayoutDetection claude))
   \<and> textElements (fst (analyzeSlideImageWithLayoutDetection claude))
        = (if detectLayoutRegions claude = [] then textElements (analyzeSlideImage claude)
           else alignElementsWithinRegions
                  (normalizeCoordinates
                     (performRegionBasedOCR claude (detectLayoutRegions claude))
                     (detectLayoutRegions claude))
                  (detectLayoutRegions claude))"
proof -
  have c: "performCraftPrimaryHybridDetection craft claude
        = fallbackResult (analyzeSlideImageWithLayoutDetection claude)"
    if "errorReported (detectText craft) \<or> boxes (detectText craft) = []"
    using performCraftPrimaryDetection_failed [OF that]
    by (simp add: performCraftPrimaryHybridDetection_def Let_def)
  have d: "performDBNetPrimaryHybridDetection dbnet claude
        = fallbackResult (analyzeSlideImageWithLayoutDetection claude)"
    if "errorReported (detectText dbnet) \<or> boxes (detectText dbnet) = []"
    using performDBNetPrimaryDetection_failed [OF that]
    by (simp add: performDBNetPrimaryHybridDetection_def Let_def)
  have f: "analysis (fallbackResult p) = fst p" "regions (fallbackResult p) = snd p" for p
    by (simp_all add: fallbackResult_def)
  have e: "textElements (fst (analyzeSlideImageWithLayoutDetection claude))
        = (if detectLayoutRegions claude = [] then textElements (analyzeSlideImage claude)
           else alignElementsWithinRegions
                  (normalizeCoordinates
                     (performRegionBasedOCR claude (detectLayoutRegions claude))
                     (detectLayoutRegions claude))
                  (detectLayoutRegions claude))"
    by (simp add: analyzeSlideImageWithLayoutDetection_def Let_def)
  show ?thesis using c d f e by metis
qed

theorem primary_mode_fallback_witness:
  "errorReported (detectText timedOutDetector)
   \<and> boxes (detectText timedOutDetector) = []
   \<and> textElements (analysis (performCraftPrimaryHybridDetection timedOutDetector oneRegionServices))
      = [textElement ''body'' 0.5 0.1625 0.5 0.4 (Some 90)]
   \<and> regions (performCraftPrimaryHybridDetection timedOutDetector oneRegionServices)
      = [regionBox 0 0 192 108 95]
   \<and> errorReported (detectText failingDetector)
   \<and> textElements (analysis (performDBNetPrimaryHybridDetection failingDetector oneRegionServices))
      = [textElement ''body'' 0.5 0.1625 0.5 0.4 (Some 90)]"
  using primary_mode_fallback [of timedOutDetector oneRegionServices failingDetector]
  by (simp add: timedOutDetector_def failingDetector_def oneRegionServices_def
      errorReported_def analyzeSlideImageWithLayoutDetection_def
      performCraftPrimaryHybridDetection_def performDBNetPrimaryHybridDetection_def
      performCraftPrimaryDetection_def performDBNetPrimaryDetection_def fallbackResult_def
      normalizeCoordinates_def normalizeWithinRegion_def alignElementsWithinRegions_def
      alignWithinRegion_def centerInRegion_def
      elementCenterX_def elementCenterY_def regionXInches_def regionYInches_def
      regionWidthInches_def regionHeightInches_def SLIDE_WIDTH_def SLIDE_HEIGHT_def
      regionBox_def textElement_def Let_def)

end
